(* ===== verification/Prelude.thy ===== *)
theory Prelude
  imports Main
begin

text \<open>
  Shared vocabulary of the development.  The TypeScript sources manipulate untyped
  JavaScript values wherever they read a backend payload or the browser's storage, and
  they branch on JavaScript truthiness (\<open>if (x)\<close>, \<open>!x\<close>, \<open>a && b\<close>, \<open>a || b\<close>).
  This theory fixes a model of those values (\<open>jsval\<close>), of truthiness, of property
  reads and writes on plain objects, of the string conversion used by template literals,
  and of the value a JSON round trip through \<open>JSON.stringify\<close>/\<open>JSON.parse\<close> yields.
  It also models the one \<open>localStorage\<close> entry the program uses (key \<open>'user'\<close>).
  JavaScript numbers are modelled as \<open>int\<close>: every number the program handles is an
  identifier or a count, so fractions, \<open>NaN\<close> and overflow do not arise.
  Plain objects are association lists in insertion order with distinct keys.
\<close>

named_theorems js_simps "evaluation rules of the JavaScript value model"
named_theorems store_simps "unfolding rules of the store actions"

section \<open>JavaScript values\<close>

datatype jsval =
    JUndef
  | JNull
  | JBool bool
  | JNum int
  | JStr string
  | JArr "jsval list"
  | JObj "(string \<times> jsval) list"

text \<open>\<open>Boolean(v)\<close>: the falsy values are \<open>undefined\<close>, \<open>null\<close>, \<open>false\<close>, \<open>0\<close>, \<open>''\<close>.\<close>

fun truthy :: "jsval \<Rightarrow> bool" where
  "truthy JUndef = False"
| "truthy JNull = False"
| "truthy (JBool b) = b"
| "truthy (JNum n) = (n \<noteq> 0)"
| "truthy (JStr s) = (s \<noteq> [])"
| "truthy (JArr _) = True"
| "truthy (JObj _) = True"

text \<open>A nullable number field (\<open>number | null\<close>) is an \<open>int option\<close>; its truthiness
  treats \<open>0\<close> like \<open>null\<close>.\<close>

fun truthy_num :: "int option \<Rightarrow> bool" where
  "truthy_num None = False"
| "truthy_num (Some n) = (n \<noteq> 0)"

text \<open>\<open>typeof v === 'object'\<close> (true of \<open>null\<close>, arrays and plain objects).\<close>

fun is_object :: "jsval \<Rightarrow> bool" where
  "is_object JNull = True"
| "is_object (JArr _) = True"
| "is_object (JObj _) = True"
| "is_object _ = False"

text \<open>Property read \<open>v.k\<close> for a non-index key \<open>k\<close> on a non-null value; \<open>None\<close> where
  JavaScript throws a \<open>TypeError\<close> (reading a property of \<open>null\<close> or \<open>undefined\<close>).\<close>

fun get_prop :: "jsval \<Rightarrow> string \<Rightarrow> jsval option" where
  "get_prop JUndef k = None"
| "get_prop JNull k = None"
| "get_prop (JObj ps) k = Some (case map_of ps k of Some v \<Rightarrow> v | None \<Rightarrow> JUndef)"
| "get_prop _ k = Some JUndef"

text \<open>Optional chaining \<open>v?.k\<close>: \<open>undefined\<close> on \<open>null\<close>/\<open>undefined\<close>.\<close>

definition opt_prop :: "jsval \<Rightarrow> string \<Rightarrow> jsval" where
  "opt_prop v k = (case get_prop v k of Some x \<Rightarrow> x | None \<Rightarrow> JUndef)"

text \<open>Property write \<open>v.k = x\<close> on a plain object: an existing key keeps its position,
  a new key is appended.  Writes to primitives are ignored (sloppy-mode semantics).\<close>

fun set_prop :: "jsval \<Rightarrow> string \<Rightarrow> jsval \<Rightarrow> jsval" where
  "set_prop (JObj ps) k x =
     JObj (if k \<in> fst ` set ps then map (\<lambda>(k', v). if k' = k then (k', x) else (k', v)) ps
           else ps @ [(k, x)])"
| "set_prop v k x = v"

text \<open>\<open>[Object.keys(v)[0], v[Object.keys(v)[0]]]\<close> for an object value: the first own key
  and its value (index \<open>'0'\<close> for a non-empty array).\<close>

fun first_entry :: "jsval \<Rightarrow> (string \<times> jsval) option" where
  "first_entry (JObj (p # ps)) = Some p"
| "first_entry (JArr (x # xs)) = Some (''0'', x)"
| "first_entry _ = None"

section \<open>String conversion\<close>

definition digit_char :: "nat \<Rightarrow> char" where
  "digit_char d = char_of (48 + d)"

fun nat_to_string :: "nat \<Rightarrow> string" where
  "nat_to_string n =
     (if n < 10 then [digit_char n] else nat_to_string (n div 10) @ [digit_char (n mod 10)])"

definition int_to_string :: "int \<Rightarrow> string" where
  "int_to_string i = (if i < 0 then CHR ''-'' # nat_to_string (nat (- i)) else nat_to_string (nat i))"

text \<open>\<open>String(v)\<close>, as a template literal \<open>`${v}`\<close> converts its argument.\<close>

fun js_to_string :: "jsval \<Rightarrow> string" where
  "js_to_string JUndef = ''undefined''"
| "js_to_string JNull = ''null''"
| "js_to_string (JBool b) = (if b then ''true'' else ''false'')"
| "js_to_string (JNum n) = int_to_string n"
| "js_to_string (JStr s) = s"
| "js_to_string (JArr xs) =
     foldr (\<lambda>s acc. if acc = [] then s else s @ CHR '','' # acc)
       (map (\<lambda>x. if x = JUndef \<or> x = JNull then [] else js_to_string x) xs) []"
| "js_to_string (JObj _) = ''[object Object]''"

section \<open>JSON round trip\<close>

text \<open>\<open>JSON.parse(JSON.stringify(v))\<close> for a value that \<open>JSON.stringify\<close> serialises:
  object members whose value is \<open>undefined\<close> are dropped, \<open>undefined\<close> array
  elements become \<open>null\<close>.  (\<open>JSON.parse\<close> inverts \<open>JSON.stringify\<close> on the values
  it produces; that library fact is what the model of the stored text relies on.)\<close>

fun json_norm :: "jsval \<Rightarrow> jsval" where
  "json_norm (JArr xs) = JArr (map (\<lambda>x. if x = JUndef then JNull else json_norm x) xs)"
| "json_norm (JObj ps) = JObj (map (\<lambda>(k, v). (k, json_norm v)) (filter (\<lambda>(k, v). v \<noteq> JUndef) ps))"
| "json_norm v = v"

section \<open>Browser storage\<close>

text \<open>The text stored under \<open>localStorage['user']\<close>: either the serialisation of a JSON
  value (\<open>StoredJson v\<close> holds the value \<open>JSON.parse\<close> returns for it) or a text that
  is not JSON (for which \<open>JSON.parse\<close> throws).  \<open>None\<close> is an absent key.\<close>

datatype stored = StoredJson jsval | StoredText string

type_synonym user_item = "stored option"

text \<open>\<open>if (userJson)\<close>: a stored text is falsy only when it is empty; a serialisation
  is never empty.\<close>

fun stored_truthy :: "stored \<Rightarrow> bool" where
  "stored_truthy (StoredJson v) = True"
| "stored_truthy (StoredText t) = (t \<noteq> [])"

text \<open>\<open>localStorage.setItem('user', JSON.stringify(v))\<close> for a value that is not
  \<open>undefined\<close>.\<close>

definition store_json :: "jsval \<Rightarrow> user_item" where
  "store_json v = Some (StoredJson (json_norm v))"

text \<open>\<open>JSON.parse(text)\<close>: \<open>None\<close> is the \<open>SyntaxError\<close> it throws.\<close>

fun parse_stored :: "stored \<Rightarrow> jsval option" where
  "parse_stored (StoredJson v) = Some v"
| "parse_stored (StoredText t) = None"

section \<open>Generic lemmas\<close>

lemma truthy_num_iff [js_simps]: "truthy_num x \<longleftrightarrow> (\<exists>n. x = Some n \<and> n \<noteq> 0)"
  by (cases x) auto

lemma opt_prop_obj [js_simps]:
  "opt_prop (JObj ps) k = (case map_of ps k of Some v \<Rightarrow> v | None \<Rightarrow> JUndef)"
  by (simp add: opt_prop_def)

lemma opt_prop_null [js_simps]: "opt_prop JNull k = JUndef" "opt_prop JUndef k = JUndef"
  by (simp_all add: opt_prop_def)

lemma truthy_JObj_nonnull: "truthy v \<Longrightarrow> get_prop v k \<noteq> None"
  by (cases v) auto

lemma json_norm_undef_iff [simp]: "json_norm v = JUndef \<longleftrightarrow> v = JUndef"
  by (cases v) auto

lemma json_norm_idem [simp]: "json_norm (json_norm v) = json_norm v"
proof (induction v rule: json_norm.induct)
  case (1 xs)
  then show ?case by (auto intro!: map_cong)
next
  case (2 ps)
  have "filter (\<lambda>(k, v). v \<noteq> JUndef) (map (\<lambda>(k, v). (k, json_norm v)) (filter (\<lambda>(k, v). v \<noteq> JUndef) ps))
        = map (\<lambda>(k, v). (k, json_norm v)) (filter (\<lambda>(k, v). v \<noteq> JUndef) ps)"
    by (induction ps) (auto elim: json_norm.elims)
  with 2 show ?case by (auto simp: comp_def intro!: map_cong)
qed simp_all

lemma truthy_json_norm [simp]: "truthy (json_norm v) = truthy v"
  by (cases v) auto

lemma json_norm_JObj_fixed:
  "json_norm (JObj ps) = JObj ps \<longleftrightarrow> (\<forall>(k, x) \<in> set ps. x \<noteq> JUndef \<and> json_norm x = x)"
proof
  assume eq: "json_norm (JObj ps) = JObj ps"
  then have m: "map (\<lambda>(k, v). (k, json_norm v)) (filter (\<lambda>(k, v). v \<noteq> JUndef) ps) = ps" by simp
  then have "length (filter (\<lambda>(k, v). v \<noteq> JUndef) ps) = length ps"
    by (metis length_map)
  then have f: "filter (\<lambda>(k, v). v \<noteq> JUndef) ps = ps"
    by (metis filter_id_conv length_filter_less less_irrefl)
  with m have "map (\<lambda>(k, v). (k, json_norm v)) ps = ps" by simp
  then have "\<forall>p \<in> set ps. (\<lambda>(k, v). (k, json_norm v)) p = p"
    by (metis map_eq_conv map_ident)
  with f show "\<forall>(k, x) \<in> set ps. x \<noteq> JUndef \<and> json_norm x = x"
    by (auto simp: filter_id_conv)
next
  assume "\<forall>(k, x) \<in> set ps. x \<noteq> JUndef \<and> json_norm x = x"
  then show "json_norm (JObj ps) = JObj ps"
    by (induction ps) auto
qed

lemma map_of_update_all:
  "map_of (map (\<lambda>(k', x). if k' = k then (k', v) else (k', x)) ps) k =
     (if k \<in> fst ` set ps then Some v else None)"
  by (induction ps) auto

lemma opt_prop_set_prop_same: "opt_prop (set_prop (JObj ps) k v) k = v"
proof (cases "k \<in> fst ` set ps")
  case False
  then have "map_of ps k = None" by (simp add: map_of_eq_None_iff)
  with False show ?thesis by (simp add: opt_prop_def map_add_def)
qed (simp add: opt_prop_def map_of_update_all)

lemma json_norm_set_prop:
  assumes "json_norm (JObj ps) = JObj ps" and "v \<noteq> JUndef" and "json_norm v = v"
  shows "json_norm (set_prop (JObj ps) k v) = set_prop (JObj ps) k v"
  using assms by (auto simp: json_norm_JObj_fixed split: if_splits simp del: json_norm.simps(2))

lemma opt_prop_truthy_obj:
  "truthy (opt_prop u k) \<Longrightarrow> \<exists>ps x. u = JObj ps \<and> map_of ps k = Some x \<and> opt_prop u k = x"
  by (cases u) (auto simp: opt_prop_def split: option.splits)

end
