(* ===== verification/Types.thy ===== *)
theory Types
  imports Prelude
begin

text \<open>
  The data model of \<open>src/src/types/index.ts\<close> and the shape of the traffic between the
  frontend and its REST backend.  The interfaces \<open>City\<close>, \<open>Country\<close>, \<open>EventType\<close>,
  \<open>Dresscode\<close> and \<open>CommentDto\<close> become records with their scalar fields (the nested
  back-references \<open>country\<close>, \<open>events\<close>, \<open>comments\<close> are never read by the code
  and are left out).  \<open>Event\<close> keeps its three city references as raw JavaScript
  values, because the store compares them with a city identifier and a city name whatever
  their runtime type (\<open>eventStore.ts\<close>, getter \<open>filteredEvents\<close>).
  A request is its method, its path relative to the API base URL, its query parameters
  and its body; a backend reply is an HTTP failure or the response body.
\<close>

section \<open>Domain records\<close>

record country =
  countryId :: int
  country_name :: string

record city =
  cityId :: int
  city_name :: string
  flags :: int
  city_countryId :: int

record event_type =
  eventTypeId :: int
  event_type_name :: string
  event_type_description :: string

record dresscode =
  dresscodeId :: int
  dresscode_name :: string
  dresscode_description :: string
  iconUrl :: string

record event =
  eventId :: int
  event_name :: string
  event_description :: string
  dateOfEvent :: string
  event_dateCreated :: string
  event_eventTypeId :: int
  ev_cityId :: jsval
  ev_city :: jsval
  ev_cityName :: jsval
  event_dresscodeId :: int

record comment_dto =
  commentId :: int
  comment_text :: string
  comment_dateCreated :: string
  comment_userId :: jsval
  comment_userName :: jsval
  userEmail :: string
  comment_eventId :: int
  eventName :: string
  eventDescription :: string

section \<open>Requests and replies\<close>

datatype http_method = GET | POST | PUT | DELETE

record request =
  req_method :: http_method
  req_url :: string
  req_params :: "(string \<times> int) list"
  req_body :: jsval

text \<open>An axios rejection: an HTTP status outside 2xx, or no response at all.\<close>

datatype http_error = HttpStatus int | NetworkError

datatype 'a response = Failed http_error | Ok 'a

text \<open>The body of a reply to an endpoint declared to return an array.\<close>

datatype 'a array_body = IsArray "'a list" | NotArray

end
