(* ===== verification/Services.thy ===== *)
theory Services
  imports Types
begin

text \<open>
  The transport client and the domain services (\<open>src/src/api/\<close>).  The backend is a
  record of reply functions, one per endpoint the services call; a service call returns
  its result together with the request it sent, so that the stores above can log the
  traffic and theorems can speak about which requests an action makes and in which order.
  \<open>ApiClient.get/post\<close> rethrow every axios rejection after logging it
  (\<open>handleError\<close>), and every method of \<open>EventService\<close> and \<open>CommentService\<close>
  catches it and returns a safe default: \<open>array_or_empty\<close> is that composition for the
  array endpoints.  \<open>AuthService\<close> posts with a bare axios call (no base URL, no
  interceptor) and normalises the \<open>userId\<close> of the reply.
\<close>

section \<open>Backend\<close>

record backend =
  events_api :: "(string \<times> int) list \<Rightarrow> event array_body response"
  event_by_id_api :: "int \<Rightarrow> event response"
  event_comment_api :: "int \<Rightarrow> jsval \<Rightarrow> jsval response"
  countries_api :: "country array_body response"
  cities_api :: "int \<Rightarrow> city array_body response"
  event_types_api :: "event_type array_body response"
  dresscodes_api :: "dresscode array_body response"
  comment_post_api :: "comment_dto \<Rightarrow> jsval response"
  comments_api :: "int \<Rightarrow> comment_dto array_body response"
  login_api :: "string \<Rightarrow> string \<Rightarrow> jsval response"
  register_api :: "string \<Rightarrow> string \<Rightarrow> jsval response"

section \<open>ApiClient\<close>

definition API_TIMEOUT :: nat where
  "API_TIMEOUT = 10000"

definition get_req :: "string \<Rightarrow> (string \<times> int) list \<Rightarrow> request" where
  "get_req url params = \<lparr>req_method = GET, req_url = url, req_params = params, req_body = JUndef\<rparr>"

definition post_req :: "string \<Rightarrow> jsval \<Rightarrow> request" where
  "post_req url body = \<lparr>req_method = POST, req_url = url, req_params = [], req_body = body\<rparr>"

text \<open>The auth-token request interceptor: the \<open>Authorization\<close> header it adds, read
  from storage at call time.  A stored text that does not parse is logged and ignored.\<close>

definition auth_header :: "user_item \<Rightarrow> string option" where
  "auth_header item =
     (case item of
        None \<Rightarrow> None
      | Some t \<Rightarrow>
          if \<not> stored_truthy t then None
          else (case parse_stored t of
                  None \<Rightarrow> None
                | Some user \<Rightarrow>
                    if truthy user \<and> truthy (opt_prop user ''token'')
                    then Some (''Bearer '' @ js_to_string (opt_prop user ''token''))
                    else None))"

text \<open>\<open>handleError\<close>: the status and message it logs.\<close>

fun error_status :: "http_error \<Rightarrow> string" where
  "error_status (HttpStatus n) = (if n \<noteq> 0 then int_to_string n else ''Network Error'')"
| "error_status NetworkError = ''Network Error''"

section \<open>EventService\<close>

definition EVENTS :: string where "EVENTS = ''EventApi''"
definition COUNTRIES :: string where "COUNTRIES = ''CountryApi''"
definition CITIES :: string where "CITIES = ''CityApi''"
definition EVENT_TYPES :: string where "EVENT_TYPES = ''EventTypeApi''"
definition DRESSCODES :: string where "DRESSCODES = ''DresscodeApi''"

text \<open>\<open>try { r = await get(..); return Array.isArray(r) ? r : [] } catch { return [] }\<close>\<close>

fun array_or_empty :: "'a array_body response \<Rightarrow> 'a list" where
  "array_or_empty (Ok (IsArray xs)) = xs"
| "array_or_empty (Ok NotArray) = []"
| "array_or_empty (Failed e) = []"

definition getAllEvents :: "backend \<Rightarrow> (string \<times> int) list \<Rightarrow> event list \<times> request" where
  "getAllEvents b filters = (array_or_empty (events_api b filters), get_req EVENTS filters)"

definition getEventById :: "backend \<Rightarrow> int \<Rightarrow> event option \<times> request" where
  "getEventById b i =
     ((case event_by_id_api b i of Failed e \<Rightarrow> None | Ok ev \<Rightarrow> Some ev),
      get_req (EVENTS @ ''/'' @ int_to_string i) [])"

definition addComment_event :: "backend \<Rightarrow> int \<Rightarrow> string \<Rightarrow> bool \<times> request" where
  "addComment_event b i content =
     (let body = JObj [(''content'', JStr content)] in
      ((case event_comment_api b i body of Failed e \<Rightarrow> False | Ok r \<Rightarrow> True),
       post_req (EVENTS @ ''/'' @ int_to_string i @ ''/comments'') body))"

definition getCountries :: "backend \<Rightarrow> country list \<times> request" where
  "getCountries b = (array_or_empty (countries_api b), get_req COUNTRIES [])"

definition getCities :: "backend \<Rightarrow> int \<Rightarrow> city list \<times> request" where
  "getCities b cid = (array_or_empty (cities_api b cid), get_req CITIES [(''countryId'', cid)])"

definition getEventTypes :: "backend \<Rightarrow> event_type list \<times> request" where
  "getEventTypes b = (array_or_empty (event_types_api b), get_req EVENT_TYPES [])"

definition getDresscodes :: "backend \<Rightarrow> dresscode list \<times> request" where
  "getDresscodes b = (array_or_empty (dresscodes_api b), get_req DRESSCODES [])"

section \<open>CommentService\<close>

definition COMMENTS :: string where "COMMENTS = ''CommentApi''"

text \<open>The comment object as axios serialises it into the request body.\<close>

definition comment_json :: "comment_dto \<Rightarrow> jsval" where
  "comment_json c = JObj
     [(''commentId'', JNum (commentId c)), (''text'', JStr (comment_text c)),
      (''dateCreated'', JStr (comment_dateCreated c)), (''userId'', comment_userId c),
      (''userName'', comment_userName c), (''userEmail'', JStr (userEmail c)),
      (''eventId'', JNum (comment_eventId c)), (''eventName'', JStr (eventName c)),
      (''eventDescription'', JStr (eventDescription c))]"

definition createComment :: "backend \<Rightarrow> comment_dto \<Rightarrow> bool \<times> request" where
  "createComment b c =
     ((case comment_post_api b c of Failed e \<Rightarrow> False | Ok r \<Rightarrow> True),
      post_req COMMENTS (comment_json c))"

definition getCommentsByEventId_svc :: "backend \<Rightarrow> int \<Rightarrow> comment_dto list \<times> request" where
  "getCommentsByEventId_svc b eid =
     (array_or_empty (comments_api b eid), get_req COMMENTS [(''eventId'', eid)])"

section \<open>AuthService\<close>

record auth_response =
  ar_username :: string
  ar_token :: jsval
  ar_success :: bool
  ar_message :: string
  ar_userId :: jsval

definition LOGIN_URL :: string where
  "LOGIN_URL = ''http://backend:5151/api/Auth/login?api-version=1''"

definition REGISTER_URL :: string where
  "REGISTER_URL = ''http://backend:5151/api/Auth/register?api-version=1''"

text \<open>The extraction of the user identifier from \<open>response.data.userId\<close>: an object
  with a truthy \<open>id\<close>, else the value of its first own property when that key and value
  are truthy, else a string or number as it is; the submitted username otherwise.\<close>

definition extract_userId :: "string \<Rightarrow> jsval \<Rightarrow> jsval" where
  "extract_userId username uid =
     (if truthy uid then
        (if is_object uid \<and> truthy (opt_prop uid ''id'') then opt_prop uid ''id''
         else if is_object uid then
           (case first_entry uid of
              Some (k, v) \<Rightarrow> if k \<noteq> [] \<and> truthy v then v else JStr username
            | None \<Rightarrow> JStr username)
         else (case uid of JStr s \<Rightarrow> uid | JNum n \<Rightarrow> uid | _ \<Rightarrow> JStr username))
      else JStr username)"

text \<open>The failed-response object of the catch block.\<close>

definition auth_failure :: "string \<Rightarrow> auth_response" where
  "auth_failure msg =
     \<lparr>ar_username = [], ar_token = JStr [], ar_success = False, ar_message = msg, ar_userId = JStr []\<rparr>"

text \<open>The body of \<open>login\<close> and \<open>register\<close> after the post: reading
  \<open>response.data.userId\<close> throws when the body is \<open>null\<close>, which the catch block
  turns into the failed response.\<close>

definition auth_reply :: "string \<Rightarrow> string \<Rightarrow> string \<Rightarrow> jsval response \<Rightarrow> auth_response" where
  "auth_reply ok_msg fail_msg username r =
     (case r of
        Failed e \<Rightarrow> auth_failure fail_msg
      | Ok data \<Rightarrow>
          (case get_prop data ''userId'' of
             None \<Rightarrow> auth_failure fail_msg
           | Some uid \<Rightarrow>
               \<lparr>ar_username = username, ar_token = opt_prop data ''token'', ar_success = True,
                ar_message = ok_msg, ar_userId = extract_userId username uid\<rparr>))"

definition auth_payload :: "string \<Rightarrow> string \<Rightarrow> jsval" where
  "auth_payload username password = JObj [(''username'', JStr username), (''password'', JStr password)]"

definition service_login :: "backend \<Rightarrow> string \<Rightarrow> string \<Rightarrow> auth_response \<times> request" where
  "service_login b username password =
     (auth_reply ''Login successful'' ''Login failed. Please try again.'' username
        (login_api b username password),
      post_req LOGIN_URL (auth_payload username password))"

definition service_register :: "backend \<Rightarrow> string \<Rightarrow> string \<Rightarrow> auth_response \<times> request" where
  "service_register b username password =
     (auth_reply ''Registration successful'' ''Registration failed. Please try again.'' username
        (register_api b username password),
      post_req REGISTER_URL (auth_payload username password))"

text \<open>A backend that rejects every request, the base of concrete scenarios.\<close>

definition null_backend :: backend where
  "null_backend =
     \<lparr>events_api = (\<lambda>_. Failed NetworkError), event_by_id_api = (\<lambda>_. Failed NetworkError),
      event_comment_api = (\<lambda>_ _. Failed NetworkError), countries_api = Failed NetworkError,
      cities_api = (\<lambda>_. Failed NetworkError), event_types_api = Failed NetworkError,
      dresscodes_api = Failed NetworkError, comment_post_api = (\<lambda>_. Failed NetworkError),
      comments_api = (\<lambda>_. Failed NetworkError), login_api = (\<lambda>_ _. Failed NetworkError),
      register_api = (\<lambda>_ _. Failed NetworkError)\<rparr>"

section \<open>Properties of the services\<close>

lemma extract_userId_truthy: "username \<noteq> [] \<Longrightarrow> truthy (extract_userId username uid)"
  by (cases uid) (auto simp: extract_userId_def split: option.splits prod.splits list.splits)

lemma get_prop_None_iff: "get_prop v k = None \<longleftrightarrow> v = JNull \<or> v = JUndef"
  by (cases v) auto


text \<open>C15. \<open>AuthService.login\<close> reports success exactly when the backend answers with a
  body other than \<open>null\<close>; a rejection, or a \<open>null\<close> body whose \<open>userId\<close> read
  throws, gives the failed response object.\<close>

theorem service_login_success_iff:
  "ar_success (fst (service_login b u p)) \<longleftrightarrow>
     (\<exists>data. login_api b u p = Ok data \<and> data \<noteq> JNull \<and> data \<noteq> JUndef)"
  by (auto simp: service_login_def auth_reply_def auth_failure_def get_prop_None_iff
      split: response.splits option.splits)


end
