(* ===== verification/AuthStore.thy ===== *)
theory AuthStore
  imports Services
begin

text \<open>
  The Pinia store \<open>useAuthStore\<close> of \<open>src/src/stores/authStore.ts\<close>: the current
  user (a JavaScript value, \<open>null\<close> when anonymous), the loading flag, the error message
  and \<open>isAuthenticated\<close>, together with the \<open>localStorage\<close> entry \<open>'user'\<close> the store
  writes on every \<open>setUser\<close> and reads in \<open>initializeAuth\<close>.  The world
  \<open>auth_world\<close> holds the store, that storage entry and the log of requests sent.
  \<open>login\<close> and \<open>register\<close> return the boolean the source returns, paired with the
  new world; their \<open>catch\<close> blocks are unreachable because the service never rejects.
\<close>

section \<open>State\<close>

record auth_store =
  auth_user :: jsval
  auth_loading :: bool
  auth_error :: "string option"
  isAuthenticated :: bool

definition init_auth :: auth_store where
  "init_auth = \<lparr>auth_user = JNull, auth_loading = False, auth_error = None, isAuthenticated = False\<rparr>"

record auth_world =
  ast :: auth_store
  storage :: user_item
  auth_sent :: "request list"

section \<open>Actions\<close>

text \<open>The fallback of \<open>setUser\<close>: a user object without a truthy \<open>userId\<close> but with
  a truthy \<open>username\<close> gets the username as its \<open>userId\<close> (the object is mutated).\<close>

definition ensure_userId :: "jsval \<Rightarrow> jsval" where
  "ensure_userId user =
     (if truthy user \<and> \<not> truthy (opt_prop user ''userId'') \<and> truthy (opt_prop user ''username'')
      then set_prop user ''userId'' (opt_prop user ''username'') else user)"

text \<open>\<open>setUser\<close>: a truthy user is persisted, anything else erases the entry.\<close>

definition setUser :: "jsval \<Rightarrow> auth_world \<Rightarrow> auth_world" where
  "setUser user w =
     (let user' = ensure_userId user
      in w\<lparr>ast := (ast w)\<lparr>auth_user := user', isAuthenticated := truthy user'\<rparr>,
           storage := (if truthy user' then store_json user' else None)\<rparr>)"

definition initializeAuth :: "auth_world \<Rightarrow> auth_world" where
  "initializeAuth w =
     (case storage w of
        None \<Rightarrow> w
      | Some t \<Rightarrow>
          if \<not> stored_truthy t then w
          else (case parse_stored t of
                  None \<Rightarrow> w\<lparr>storage := None\<rparr>
                | Some user \<Rightarrow> setUser user w))"

text \<open>The user object \<open>login\<close> and \<open>register\<close> build from a successful response.\<close>

definition user_of_response :: "auth_response \<Rightarrow> jsval" where
  "user_of_response r =
     JObj [(''username'', JStr (ar_username r)), (''token'', ar_token r), (''userId'', ar_userId r)]"

text \<open>The common body of \<open>login\<close> and \<open>register\<close> once the service has answered.\<close>

definition finish_auth :: "string \<Rightarrow> auth_response \<times> request \<Rightarrow> auth_world \<Rightarrow> bool \<times> auth_world" where
  "finish_auth fallback rr w =
     (let (resp, r) = rr;
          w1 = w\<lparr>ast := (ast w)\<lparr>auth_loading := True, auth_error := None\<rparr>, auth_sent := auth_sent w @ [r]\<rparr>
      in if ar_success resp \<and> truthy (ar_token resp)
         then (True, let w2 = setUser (user_of_response resp) w1 in w2\<lparr>ast := (ast w2)\<lparr>auth_loading := False\<rparr>\<rparr>)
         else (False, w1\<lparr>ast := (ast w1)\<lparr>auth_loading := False,
                 auth_error := Some (if ar_message resp \<noteq> [] then ar_message resp else fallback)\<rparr>\<rparr>))"

definition login :: "backend \<Rightarrow> string \<Rightarrow> string \<Rightarrow> auth_world \<Rightarrow> bool \<times> auth_world" where
  "login b username password w =
     finish_auth ''Login failed. Please try again.'' (service_login b username password) w"

definition register :: "backend \<Rightarrow> string \<Rightarrow> string \<Rightarrow> auth_world \<Rightarrow> bool \<times> auth_world" where
  "register b username password w =
     finish_auth ''Registration failed. Please try again.'' (service_register b username password) w"

definition logout :: "auth_world \<Rightarrow> auth_world" where
  "logout w = setUser JNull w"

section \<open>Getters\<close>

definition getIsAuthenticated :: "auth_store \<Rightarrow> bool" where
  "getIsAuthenticated s = isAuthenticated s"

definition getUser :: "auth_store \<Rightarrow> jsval" where
  "getUser s = auth_user s"

definition getToken :: "auth_store \<Rightarrow> jsval" where
  "getToken s = (let t = opt_prop (auth_user s) ''token'' in if truthy t then t else JNull)"

definition getUsername :: "auth_store \<Rightarrow> jsval" where
  "getUsername s = (let u = opt_prop (auth_user s) ''username'' in if truthy u then u else JNull)"

section \<open>Runs\<close>

datatype auth_action =
    InitializeAuth
  | Login string string
  | Register string string
  | Logout

fun auth_step :: "backend \<Rightarrow> auth_action \<Rightarrow> auth_world \<Rightarrow> auth_world" where
  "auth_step b InitializeAuth w = initializeAuth w"
| "auth_step b (Login u p) w = snd (login b u p w)"
| "auth_step b (Register u p) w = snd (register b u p w)"
| "auth_step b Logout w = logout w"

fun auth_run :: "backend \<Rightarrow> auth_action list \<Rightarrow> auth_world \<Rightarrow> auth_world" where
  "auth_run b [] w = w"
| "auth_run b (a # as) w = auth_run b as (auth_step b a w)"

text \<open>A page load: the in-memory store starts afresh, the storage entry survives.\<close>

definition reload :: "auth_world \<Rightarrow> auth_world" where
  "reload w = w\<lparr>ast := init_auth\<rparr>"

text \<open>The session is consistent when an authenticated store has its user persisted
  and an anonymous one leaves no token for the transport client to send.\<close>

definition session_ok :: "auth_world \<Rightarrow> bool" where
  "session_ok w =
     ((isAuthenticated (ast w) \<longrightarrow> storage w = store_json (auth_user (ast w)))
      \<and> (\<not> isAuthenticated (ast w) \<longrightarrow> auth_header (storage w) = None))"

text \<open>Concrete data for the witnesses.\<close>

definition ann_reply :: jsval where
  "ann_reply = JObj [(''token'', JStr ''tok''), (''userId'', JStr ''42'')]"

definition ann_user :: jsval where
  "ann_user = JObj [(''username'', JStr ''ann''), (''token'', JStr ''tok''), (''userId'', JStr ''42'')]"

definition anon_world :: auth_world where
  "anon_world = \<lparr>ast = init_auth, storage = None, auth_sent = []\<rparr>"

section \<open>Lemmas\<close>

lemma truthy_ensure_userId [simp]: "truthy (ensure_userId u) = truthy u"
  by (cases u) (auto simp: ensure_userId_def)

lemma ensure_userId_idem [simp]: "ensure_userId (ensure_userId u) = ensure_userId u"
proof (cases "truthy u \<and> \<not> truthy (opt_prop u ''userId'') \<and> truthy (opt_prop u ''username'')")
  case True
  then obtain ps where u: "u = JObj ps" using opt_prop_truthy_obj by blast
  with True have "truthy (opt_prop (ensure_userId u) ''userId'')"
    by (simp add: ensure_userId_def opt_prop_set_prop_same del: set_prop.simps)
  then show ?thesis by (simp add: ensure_userId_def[of "ensure_userId u"])
next
  case False
  then have "ensure_userId u = u" unfolding ensure_userId_def by (rule if_not_P)
  then show ?thesis by simp
qed

lemma json_norm_ensure_userId:
  assumes n: "json_norm u = u"
  shows "json_norm (ensure_userId u) = ensure_userId u"
proof (cases "truthy u \<and> \<not> truthy (opt_prop u ''userId'') \<and> truthy (opt_prop u ''username'')")
  case True
  then obtain ps x where u: "u = JObj ps" and m: "map_of ps ''username'' = Some x"
    and v: "opt_prop u ''username'' = x" using opt_prop_truthy_obj by blast
  from m have "(''username'', x) \<in> set ps" by (rule map_of_SomeD)
  with n u have "x \<noteq> JUndef \<and> json_norm x = x" by (auto simp: json_norm_JObj_fixed simp del: json_norm.simps(2))
  with True u v n show ?thesis by (simp add: ensure_userId_def json_norm_set_prop del: json_norm.simps(2) set_prop.simps)
next
  case False
  then have "ensure_userId u = u" unfolding ensure_userId_def by (rule if_not_P)
  with n show ?thesis by simp
qed

lemma session_ok_setUser: "session_ok (setUser u w)"
  by (simp add: session_ok_def setUser_def Let_def auth_header_def)

lemma initializeAuth_cases:
  "initializeAuth w = w \<or> initializeAuth w = w\<lparr>storage := None\<rparr> \<and> (\<exists>s. storage w = Some (StoredText s))
   \<or> (\<exists>u. initializeAuth w = setUser u w)"
  by (auto simp: initializeAuth_def split: option.splits elim: parse_stored.elims)

lemma session_ok_initializeAuth:
  assumes ok: "session_ok w"
  shows "session_ok (initializeAuth w)"
  using initializeAuth_cases[of w]
proof (elim disjE conjE exE)
  fix s
  assume eq: "initializeAuth w = w\<lparr>storage := None\<rparr>" and st: "storage w = Some (StoredText s)"
  from ok st have "\<not> isAuthenticated (ast w)" by (auto simp: session_ok_def store_json_def)
  with eq show ?thesis by (simp add: session_ok_def auth_header_def)
qed (simp_all add: ok session_ok_setUser)

lemma session_ok_finish_auth: "session_ok w \<Longrightarrow> session_ok (snd (finish_auth m rr w))"
  by (cases rr) (simp add: finish_auth_def Let_def session_ok_def setUser_def auth_header_def)

lemma session_ok_auth_step: "session_ok w \<Longrightarrow> session_ok (auth_step b a w)"
  by (cases a) (simp_all add: session_ok_initializeAuth session_ok_finish_auth login_def register_def
      logout_def session_ok_setUser)

lemma session_ok_boot: "session_ok (initializeAuth (reload w))"
proof (cases "storage w")
  case None
  then show ?thesis by (simp add: initializeAuth_def reload_def init_auth_def session_ok_def auth_header_def)
next
  case (Some t)
  show ?thesis
  proof (cases t)
    case (StoredJson u)
    with Some have "initializeAuth (reload w) = setUser u (reload w)"
      by (simp add: initializeAuth_def reload_def)
    then show ?thesis by (simp add: session_ok_setUser)
  next
    case (StoredText s)
    with Some show ?thesis
      by (simp add: initializeAuth_def reload_def init_auth_def session_ok_def auth_header_def)
  qed
qed

lemma user_of_response_userId:
  "opt_prop (user_of_response r) ''userId'' = ar_userId r"
  by (simp add: user_of_response_def opt_prop_def)

lemma ensure_userId_keep: "truthy (opt_prop u ''userId'') \<Longrightarrow> ensure_userId u = u"
  by (simp add: ensure_userId_def)

lemma login_accepted:
  assumes "login_api b u p = Ok data" and "get_prop data ''userId'' = Some uid"
    and "truthy (opt_prop data ''token'')" and "u \<noteq> []"
  shows "login b u p w =
    (let user = JObj [(''username'', JStr u), (''token'', opt_prop data ''token''), (''userId'', extract_userId u uid)] in
     (True, w\<lparr>ast := (ast w)\<lparr>auth_user := user, isAuthenticated := True, auth_loading := False, auth_error := None\<rparr>,
               storage := store_json user, auth_sent := auth_sent w @ [post_req LOGIN_URL (auth_payload u p)]\<rparr>))"
proof -
  let ?resp = "fst (service_login b u p)"
  have resp: "?resp = \<lparr>ar_username = u, ar_token = opt_prop data ''token'', ar_success = True,
                       ar_message = ''Login successful'', ar_userId = extract_userId u uid\<rparr>"
    using assms(1,2) by (simp add: service_login_def auth_reply_def)
  have uid: "truthy (extract_userId u uid)" using assms(4) by (rule extract_userId_truthy)
  then have keep: "ensure_userId (user_of_response ?resp) = user_of_response ?resp"
    by (simp add: ensure_userId_keep user_of_response_userId resp)
  show ?thesis
    using assms(3) uid keep resp
    by (simp add: login_def finish_auth_def setUser_def Let_def user_of_response_def
        service_login_def split: prod.splits)
qed

section \<open>Properties of the session\<close>

text \<open>C16. A login the backend accepts with a body holding a truthy token, for a
  non-empty username, authenticates: the user object is \<open>{username, token, userId}\<close>
  with the normalised, truthy \<open>userId\<close>, it is persisted, loading is over, no error is
  shown, and exactly the login request was sent.\<close>

theorem login_success:
  assumes "login_api b u p = Ok data" and "get_prop data ''userId'' = Some uid"
    and "truthy (opt_prop data ''token'')" and "u \<noteq> []"
  shows "let r = login b u p w;
             user = JObj [(''username'', JStr u), (''token'', opt_prop data ''token''),
                          (''userId'', extract_userId u uid)] in
         fst r \<and> isAuthenticated (ast (snd r)) \<and> auth_user (ast (snd r)) = user
         \<and> storage (snd r) = store_json user \<and> truthy (opt_prop user ''userId'')
         \<and> \<not> auth_loading (ast (snd r)) \<and> auth_error (ast (snd r)) = None
         \<and> auth_sent (snd r) = auth_sent w @ [post_req LOGIN_URL (auth_payload u p)]"
  using login_accepted[OF assms] extract_userId_truthy[OF assms(4), of uid]
  by (simp add: Let_def opt_prop_def)

text \<open>C17. A login the backend accepts without a truthy token fails, and the store shows
  the service's success message \<open>'Login successful'\<close> as its error; nothing else of
  the session changes.\<close>

theorem login_without_token_error:
  assumes "login_api b u p = Ok data" and "get_prop data ''userId'' = Some uid"
    and "\<not> truthy (opt_prop data ''token'')"
  shows "login b u p w =
           (False, w\<lparr>ast := (ast w)\<lparr>auth_loading := False, auth_error := Some ''Login successful''\<rparr>,
                     auth_sent := auth_sent w @ [post_req LOGIN_URL (auth_payload u p)]\<rparr>)"
  using assms by (simp add: login_def finish_auth_def service_login_def auth_reply_def)

text \<open>C18. A login the transport rejects fails with \<open>'Login failed. Please try
  again.'\<close>; the user, the authentication flag and the stored session are unchanged.\<close>

theorem login_transport_failure:
  assumes "login_api b u p = Failed e"
  shows "login b u p w =
           (False, w\<lparr>ast := (ast w)\<lparr>auth_loading := False, auth_error := Some ''Login failed. Please try again.''\<rparr>,
                     auth_sent := auth_sent w @ [post_req LOGIN_URL (auth_payload u p)]\<rparr>)"
  using assms by (simp add: login_def finish_auth_def service_login_def auth_reply_def auth_failure_def)

text \<open>C19. A truthy JSON user persisted by \<open>setUser\<close> and hydrated by
  \<open>initializeAuth\<close> after a page load gives back the same user, authenticated, and
  leaves the stored entry as it was.\<close>

theorem persist_hydrate_roundtrip:
  assumes "truthy u" and "json_norm u = u"
  shows "let w1 = setUser u w; w2 = initializeAuth (reload w1) in
         auth_user (ast w2) = auth_user (ast w1) \<and> isAuthenticated (ast w2) \<and> storage w2 = storage w1"
proof -
  have n: "json_norm (ensure_userId u) = ensure_userId u" using assms(2) by (rule json_norm_ensure_userId)
  show ?thesis using assms n by (simp add: setUser_def initializeAuth_def reload_def store_json_def Let_def)
qed

text \<open>C20. After the start-up hydration from whatever the storage holds, every run of
  logins, registrations, logouts and hydrations keeps the session consistent: an
  authenticated store has exactly its user persisted, an anonymous one leaves no token
  for the transport client's \<open>Authorization\<close> header.\<close>

theorem session_ok_runs: "session_ok (auth_run b as (initializeAuth (reload w)))"
proof -
  have "session_ok w' \<Longrightarrow> session_ok (auth_run b as w')" for w'
    by (induction as arbitrary: w') (simp_all add: session_ok_auth_step)
  then show ?thesis by (simp add: session_ok_boot)
qed

text \<open>C21. Hydrating from a stored text that is not JSON erases it and leaves the store
  anonymous; an empty stored text is falsy and is left in place.\<close>

theorem hydrate_malformed:
  assumes "t \<noteq> []"
  shows "let w' = initializeAuth (reload (w\<lparr>storage := Some (StoredText t)\<rparr>)) in
           ast w' = init_auth \<and> storage w' = None
         \<and> storage (initializeAuth (reload (w\<lparr>storage := Some (StoredText [])\<rparr>))) = Some (StoredText [])"
  using assms by (simp add: initializeAuth_def reload_def)

section \<open>Witnesses\<close>

theorem login_success_witness:
  "fst (login (null_backend\<lparr>login_api := (\<lambda>_ _. Ok ann_reply)\<rparr>) ''ann'' ''pw'' anon_world)
   \<and> auth_user (ast (snd (login (null_backend\<lparr>login_api := (\<lambda>_ _. Ok ann_reply)\<rparr>) ''ann'' ''pw'' anon_world))) = ann_user"
proof -
  let ?b = "null_backend\<lparr>login_api := (\<lambda>_ _. Ok ann_reply)\<rparr>"
  have h: "login_api ?b ''ann'' ''pw'' = Ok ann_reply" "get_prop ann_reply ''userId'' = Some (JStr ''42'')"
    "truthy (opt_prop ann_reply ''token'')" "''ann'' \<noteq> []"
    by (simp_all add: ann_reply_def opt_prop_def)
  from login_success[OF h, of anon_world] show ?thesis
    by (simp add: Let_def ann_user_def extract_userId_def ann_reply_def opt_prop_def)
qed

theorem login_without_token_error_witness:
  "login (null_backend\<lparr>login_api := (\<lambda>_ _. Ok (JObj [(''userId'', JStr ''42'')]))\<rparr>) ''ann'' ''pw'' anon_world
   = (False, anon_world\<lparr>ast := init_auth\<lparr>auth_error := Some ''Login successful''\<rparr>,
                        auth_sent := [post_req LOGIN_URL (auth_payload ''ann'' ''pw'')]\<rparr>)"
proof -
  let ?b = "null_backend\<lparr>login_api := (\<lambda>_ _. Ok (JObj [(''userId'', JStr ''42'')]))\<rparr>"
  have h: "login_api ?b ''ann'' ''pw'' = Ok (JObj [(''userId'', JStr ''42'')])"
    "get_prop (JObj [(''userId'', JStr ''42'')]) ''userId'' = Some (JStr ''42'')"
    "\<not> truthy (opt_prop (JObj [(''userId'', JStr ''42'')]) ''token'')"
    by (simp_all add: opt_prop_def)
  from login_without_token_error[OF h, of anon_world] show ?thesis
    by (simp add: anon_world_def init_auth_def)
qed

theorem login_transport_failure_witness:
  "login null_backend ''ann'' ''pw'' anon_world
   = (False, anon_world\<lparr>ast := init_auth\<lparr>auth_error := Some ''Login failed. Please try again.''\<rparr>,
                        auth_sent := [post_req LOGIN_URL (auth_payload ''ann'' ''pw'')]\<rparr>)"
proof -
  have h: "login_api null_backend ''ann'' ''pw'' = Failed NetworkError" by (simp add: null_backend_def)
  from login_transport_failure[OF h, of anon_world] show ?thesis
    by (simp add: anon_world_def init_auth_def)
qed

theorem persist_hydrate_roundtrip_witness:
  "truthy ann_user \<and> json_norm ann_user = ann_user
   \<and> auth_user (ast (initializeAuth (reload (setUser ann_user anon_world)))) = ann_user"
proof -
  have h: "truthy ann_user" "json_norm ann_user = ann_user" by (simp_all add: ann_user_def)
  have e: "auth_user (ast (setUser ann_user anon_world)) = ann_user"
    by (simp add: setUser_def ensure_userId_def ann_user_def opt_prop_def Let_def)
  from persist_hydrate_roundtrip[OF h, of anon_world] h e show ?thesis by (simp add: Let_def)
qed

theorem hydrate_malformed_witness:
  "''{oops'' \<noteq> [] \<and> storage (initializeAuth (reload (anon_world\<lparr>storage := Some (StoredText ''{oops'')\<rparr>))) = None"
  using hydrate_malformed[of "''{oops''" anon_world] by (simp add: Let_def)

theorem session_ok_runs_witness:
  "let W = auth_run (null_backend\<lparr>login_api := (\<lambda>_ _. Ok ann_reply)\<rparr>) [Login ''ann'' ''pw'', Logout]
             (initializeAuth (reload anon_world)) in
   \<not> isAuthenticated (ast W) \<and> auth_header (storage W) = None"
proof -
  let ?b = "null_backend\<lparr>login_api := (\<lambda>_ _. Ok ann_reply)\<rparr>"
  let ?W = "auth_run ?b [Login ''ann'' ''pw'', Logout] (initializeAuth (reload anon_world))"
  have a: "\<not> isAuthenticated (ast ?W)"
    by (simp add: logout_def setUser_def ensure_userId_def)
  from session_ok_runs[of ?b "[Login ''ann'' ''pw'', Logout]" anon_world] a show ?thesis
    by (simp add: session_ok_def Let_def)
qed

end
