(* ===== verification/CommentStore.thy ===== *)
theory CommentStore
  imports AuthStore
begin

text \<open>
  The Pinia store \<open>useCommentStore\<close> of \<open>src/src/stores/commentStore.ts\<close>: the
  comments of one event, a loading flag and an error message.  It reads the auth store's
  user (\<open>useAuthStore()\<close>), so its actions take the auth store's state as an argument:
  that is the whole interface between the two stores.  The clock read by
  \<open>new Date().toISOString()\<close> is an argument too.  The world \<open>cm_world\<close> adds the
  log of requests sent.  \<open>getUserId\<close> throws when the user has no truthy \<open>userId\<close>;
  the thrown error is the \<open>Inl\<close> of its result, caught by \<open>addComment\<close>.
\<close>

section \<open>State\<close>

record comment_store =
  comments :: "comment_dto list"
  cm_loading :: bool
  cm_error :: "string option"

definition init_comments :: comment_store where
  "init_comments = \<lparr>comments = [], cm_loading = False, cm_error = None\<rparr>"

record cm_world =
  cst :: comment_store
  cm_sent :: "request list"

section \<open>Actions\<close>

definition getUserId :: "auth_store \<Rightarrow> string + jsval" where
  "getUserId a =
     (let uid = opt_prop (auth_user a) ''userId'' in
      if \<not> truthy uid then Inl ''User ID not available. Please log in again.'' else Inr uid)"

definition getCommentsByEventId :: "backend \<Rightarrow> int \<Rightarrow> cm_world \<Rightarrow> comment_dto list \<times> cm_world" where
  "getCommentsByEventId b eid w =
     (let w1 = w\<lparr>cst := (cst w)\<lparr>cm_loading := True, cm_error := None\<rparr>\<rparr>;
          (cs, r) = getCommentsByEventId_svc b eid;
          w2 = w1\<lparr>cm_sent := cm_sent w1 @ [r], cst := (cst w1)\<lparr>comments := cs\<rparr>\<rparr>
      in (cs, w2\<lparr>cst := (cst w2)\<lparr>cm_loading := False\<rparr>\<rparr>))"

text \<open>The comment object \<open>addComment\<close> posts.\<close>

definition new_comment :: "auth_store \<Rightarrow> jsval \<Rightarrow> string \<Rightarrow> int \<Rightarrow> string \<Rightarrow> string \<Rightarrow> string \<Rightarrow> comment_dto" where
  "new_comment a uid now eid content evName evDesc =
     (let un = opt_prop (auth_user a) ''username'' in
      \<lparr>commentId = 0, comment_text = content, comment_dateCreated = now, comment_userId = uid,
       comment_userName = (if truthy un then un else uid), userEmail = [], comment_eventId = eid,
       eventName = evName, eventDescription = evDesc\<rparr>)"

definition addComment ::
  "backend \<Rightarrow> auth_store \<Rightarrow> string \<Rightarrow> int \<Rightarrow> string \<Rightarrow> string \<Rightarrow> string \<Rightarrow> cm_world \<Rightarrow> bool \<times> cm_world" where
  "addComment b a now eid content evName evDesc w =
     (let w1 = w\<lparr>cst := (cst w)\<lparr>cm_loading := True, cm_error := None\<rparr>\<rparr> in
      case getUserId a of
        Inl msg \<Rightarrow>
          (False, w1\<lparr>cst := (cst w1)\<lparr>cm_error := Some (if msg \<noteq> [] then msg else ''Failed to add comment''),
                                     cm_loading := False\<rparr>\<rparr>)
      | Inr uid \<Rightarrow>
          if \<not> truthy uid
          then (False, w1\<lparr>cst := (cst w1)\<lparr>cm_error := Some ''You must be logged in to leave a comment'',
                                            cm_loading := False\<rparr>\<rparr>)
          else
            let (ok, r) = createComment b (new_comment a uid now eid content evName evDesc);
                w2 = w1\<lparr>cm_sent := cm_sent w1 @ [r]\<rparr>
            in if ok
               then (True, let w3 = snd (getCommentsByEventId b eid w2) in
                           w3\<lparr>cst := (cst w3)\<lparr>cm_loading := False\<rparr>\<rparr>)
               else (False, w2\<lparr>cst := (cst w2)\<lparr>cm_loading := False\<rparr>\<rparr>))"

definition clearComments :: "cm_world \<Rightarrow> cm_world" where
  "clearComments w = w\<lparr>cst := (cst w)\<lparr>comments := [], cm_error := None\<rparr>\<rparr>"

section \<open>Getters\<close>

definition getComments :: "comment_store \<Rightarrow> comment_dto list" where
  "getComments s = comments s"

definition isLoading :: "comment_store \<Rightarrow> bool" where
  "isLoading s = cm_loading s"

definition getError :: "comment_store \<Rightarrow> string option" where
  "getError s = cm_error s"

text \<open>Concrete data for the witnesses.\<close>

definition ann_session :: auth_store where
  "ann_session = init_auth\<lparr>auth_user := ann_user, isAuthenticated := True\<rparr>"

definition empty_cm :: cm_world where
  "empty_cm = \<lparr>cst = init_comments, cm_sent = []\<rparr>"

section \<open>Lemmas\<close>

text \<open>Whatever the backend answers, a user with a truthy id makes \<open>addComment\<close> post the
  comment built from that id first.\<close>

lemma addComment_posts:
  assumes "truthy (opt_prop (auth_user a) ''userId'')"
  shows "\<exists>rest. cm_sent (snd (addComment b a now eid content evName evDesc w)) =
           cm_sent w @ post_req COMMENTS (comment_json (new_comment a (opt_prop (auth_user a) ''userId'')
                                                          now eid content evName evDesc)) # rest"
  using assms
  by (cases "comment_post_api b (new_comment a (opt_prop (auth_user a) ''userId'') now eid content evName evDesc)")
     (simp_all add: addComment_def getUserId_def createComment_def getCommentsByEventId_def
        getCommentsByEventId_svc_def Let_def)

section \<open>Properties of the comment store\<close>

text \<open>C22. Without a truthy \<open>userId\<close> on the auth store's user, \<open>addComment\<close> fails
  with the explicit message, sends nothing and leaves the comments as they were.\<close>

theorem addComment_requires_session:
  assumes "\<not> truthy (opt_prop (auth_user a) ''userId'')"
  shows "addComment b a now eid content evName evDesc w =
           (False, w\<lparr>cst := (cst w)\<lparr>cm_loading := False,
                       cm_error := Some ''User ID not available. Please log in again.''\<rparr>\<rparr>)"
  using assms by (simp add: addComment_def getUserId_def)

text \<open>C23. With a truthy \<open>userId\<close> and a backend that accepts the post, \<open>addComment\<close>
  succeeds: it posts the comment (id 0, the user's id, the username or else the id as
  author name) and then reloads the event's comments, in that order, and ends with no
  error and not loading.\<close>

theorem addComment_success:
  assumes "truthy (opt_prop (auth_user a) ''userId'')"
    and "comment_post_api b (new_comment a (opt_prop (auth_user a) ''userId'') now eid content evName evDesc) = Ok r"
  shows "let res = addComment b a now eid content evName evDesc w;
             c = new_comment a (opt_prop (auth_user a) ''userId'') now eid content evName evDesc in
         fst res \<and> comments (cst (snd res)) = array_or_empty (comments_api b eid)
         \<and> cm_sent (snd res) = cm_sent w @ [post_req COMMENTS (comment_json c), get_req COMMENTS [(''eventId'', eid)]]
         \<and> \<not> cm_loading (cst (snd res)) \<and> cm_error (cst (snd res)) = None
         \<and> commentId c = 0 \<and> comment_userId c = opt_prop (auth_user a) ''userId''"
  using assms
  by (simp add: addComment_def getUserId_def createComment_def getCommentsByEventId_def
      getCommentsByEventId_svc_def Let_def new_comment_def)

text \<open>C24. When the backend rejects the post, \<open>addComment\<close> returns \<open>false\<close> but sets
  no error: the interface cannot tell a rejected comment from a successful one by the
  store's \<open>error\<close>.\<close>

theorem addComment_rejected_no_error:
  assumes "truthy (opt_prop (auth_user a) ''userId'')"
    and "comment_post_api b (new_comment a (opt_prop (auth_user a) ''userId'') now eid content evName evDesc) = Failed e"
  shows "let res = addComment b a now eid content evName evDesc w in
         \<not> fst res \<and> cm_error (cst (snd res)) = None \<and> comments (cst (snd res)) = comments (cst w)"
  using assms by (simp add: addComment_def getUserId_def createComment_def Let_def)

section \<open>Witnesses\<close>

theorem addComment_requires_session_witness:
  "addComment null_backend init_auth ''t0'' 1 ''hi'' ''gala'' ''d'' empty_cm =
     (False, empty_cm\<lparr>cst := init_comments\<lparr>cm_error := Some ''User ID not available. Please log in again.''\<rparr>\<rparr>)"
proof -
  have h: "\<not> truthy (opt_prop (auth_user init_auth) ''userId'')" by (simp add: init_auth_def opt_prop_def)
  from addComment_requires_session[OF h, of null_backend "''t0''" 1 "''hi''" "''gala''" "''d''" empty_cm]
  show ?thesis by (simp add: empty_cm_def init_comments_def)
qed

theorem addComment_success_witness:
  "let res = addComment (null_backend\<lparr>comment_post_api := (\<lambda>_. Ok JNull)\<rparr>) ann_session ''t0'' 1 ''hi'' ''gala'' ''d'' empty_cm in
   fst res \<and> comments (cst (snd res)) = [] \<and> length (cm_sent (snd res)) = 2"
proof -
  let ?b = "null_backend\<lparr>comment_post_api := (\<lambda>_. Ok JNull)\<rparr>"
  have h: "truthy (opt_prop (auth_user ann_session) ''userId'')"
    "comment_post_api ?b (new_comment ann_session (opt_prop (auth_user ann_session) ''userId'') ''t0'' 1 ''hi'' ''gala'' ''d'') = Ok JNull"
    by (simp_all add: ann_session_def ann_user_def opt_prop_def)
  from addComment_success[OF h, of empty_cm] show ?thesis
    by (simp add: Let_def null_backend_def empty_cm_def)
qed

theorem addComment_rejected_no_error_witness:
  "let res = addComment null_backend ann_session ''t0'' 1 ''hi'' ''gala'' ''d'' empty_cm in
   \<not> fst res \<and> cm_error (cst (snd res)) = None"
proof -
  have h: "truthy (opt_prop (auth_user ann_session) ''userId'')"
    "comment_post_api null_backend (new_comment ann_session (opt_prop (auth_user ann_session) ''userId'') ''t0'' 1 ''hi'' ''gala'' ''d'') = Failed NetworkError"
    by (simp_all add: ann_session_def ann_user_def opt_prop_def null_backend_def)
  from addComment_rejected_no_error[OF h, of empty_cm] show ?thesis by (simp add: Let_def)
qed

end
