(* ===== verification/TsTypes.thy ===== *)
theory TsTypes
  imports CommentStore
begin

text \<open>
  The TypeScript interfaces of \<open>src/src/types/index.ts\<close> and \<open>src/src/api/authService.ts\<close>
  as structural types over JavaScript values.  A value has an object type when it is a plain
  object whose required members are present with a value of their type and whose optional
  members (\<open>k?: T\<close>) are absent, \<open>undefined\<close> or of their type; further members are
  allowed, as in TypeScript.  The store code declares values of these types
  (\<open>const user: User = ...\<close>); the lemmas show when the values it builds at run time
  conform to the declarations.
\<close>

section \<open>Structural types\<close>

datatype ts_type =
    TAny
  | TString
  | TNumber
  | TBoolean
  | TNull
  | TUnion ts_type ts_type
  | TArray ts_type
  | TObject "(string \<times> ts_type \<times> bool) list"
  | TRef string

type_synonym ts_members = "(string \<times> ts_type \<times> bool) list"

text \<open>A member \<open>(k, p, optional)\<close> of an object type, checked against the members of a
  plain object.\<close>

fun field_ok :: "(string \<times> jsval) list \<Rightarrow> string \<times> (jsval \<Rightarrow> bool) \<times> bool \<Rightarrow> bool" where
  "field_ok ps (k, p, opt) = (case map_of ps k of None \<Rightarrow> opt | Some x \<Rightarrow> p x \<or> (opt \<and> x = JUndef))"

primrec has_type :: "ts_type \<Rightarrow> jsval \<Rightarrow> bool" where
  "has_type TAny = (\<lambda>v. True)"
| "has_type TString = (\<lambda>v. case v of JStr _ \<Rightarrow> True | _ \<Rightarrow> False)"
| "has_type TNumber = (\<lambda>v. case v of JNum _ \<Rightarrow> True | _ \<Rightarrow> False)"
| "has_type TBoolean = (\<lambda>v. case v of JBool _ \<Rightarrow> True | _ \<Rightarrow> False)"
| "has_type TNull = (\<lambda>v. v = JNull)"
| "has_type (TUnion a b) = (\<lambda>v. has_type a v \<or> has_type b v)"
| "has_type (TArray t) = (\<lambda>v. case v of JArr xs \<Rightarrow> list_all (has_type t) xs | _ \<Rightarrow> False)"
| "has_type (TObject fs) =
     (\<lambda>v. case v of JObj ps \<Rightarrow> list_all (field_ok ps) (map (map_prod id (map_prod has_type id)) fs)
                  | _ \<Rightarrow> False)"
| "has_type (TRef n) = (\<lambda>v. False)"

text \<open>\<open>has_type\<close> decides closed types; a type that names an interface (\<open>TRef\<close>, as
  \<open>city: City\<close> inside \<open>Event\<close>) is decided by \<open>conforms\<close> against the declarations
  \<open>env\<close> of the named interfaces.  The interfaces of \<open>index.ts\<close> refer to each other in
  cycles (\<open>Event.city.events\<close>); \<open>conforms\<close> terminates because every unfolding of a
  name descends into a member of the value.\<close>

primrec closed :: "ts_type \<Rightarrow> bool" where
  "closed TAny = True"
| "closed TString = True"
| "closed TNumber = True"
| "closed TBoolean = True"
| "closed TNull = True"
| "closed (TUnion a b) = (closed a \<and> closed b)"
| "closed (TArray t) = closed t"
| "closed (TObject fs) = list_all (\<lambda>(k, c, opt). c) (map (map_prod id (map_prod closed id)) fs)"
| "closed (TRef n) = False"

function conforms :: "(string \<Rightarrow> ts_members option) \<Rightarrow> ts_type \<Rightarrow> jsval \<Rightarrow> bool"
  and members_ok :: "(string \<Rightarrow> ts_members option) \<Rightarrow> ts_members \<Rightarrow> (string \<times> jsval) list \<Rightarrow> bool" where
  "conforms env TAny v = True"
| "conforms env TString v = (case v of JStr _ \<Rightarrow> True | _ \<Rightarrow> False)"
| "conforms env TNumber v = (case v of JNum _ \<Rightarrow> True | _ \<Rightarrow> False)"
| "conforms env TBoolean v = (case v of JBool _ \<Rightarrow> True | _ \<Rightarrow> False)"
| "conforms env TNull v = (v = JNull)"
| "conforms env (TUnion a b) v = (conforms env a v \<or> conforms env b v)"
| "conforms env (TArray t) v = (case v of JArr xs \<Rightarrow> (\<forall>x\<in>set xs. conforms env t x) | _ \<Rightarrow> False)"
| "conforms env (TObject fs) v = (case v of JObj ps \<Rightarrow> members_ok env fs ps | _ \<Rightarrow> False)"
| "conforms env (TRef n) v =
     (case (env n, v) of (Some fs, JObj ps) \<Rightarrow> members_ok env fs ps | _ \<Rightarrow> False)"
| "members_ok env [] ps = True"
| "members_ok env ((k, t, opt) # fs) ps =
     ((case map_of ps k of None \<Rightarrow> opt | Some x \<Rightarrow> conforms env t x \<or> (opt \<and> x = JUndef))
      \<and> members_ok env fs ps)"
  by pat_completeness auto
termination
proof -
  have arr: "x \<in> set xs \<Longrightarrow> size x < size (JArr xs)" for x xs
    by (induction xs) auto
  have obj: "map_of ps k = Some x \<Longrightarrow> size x < size (JObj ps)" for ps k x
    by (induction ps) (auto split: if_splits)
  show ?thesis
    by (relation "measures [case_sum (\<lambda>(e, t, v). 2 * size v + 1) (\<lambda>(e, fs, ps). 2 * size (JObj ps)),
                            case_sum (\<lambda>(e, t, v). size t) (\<lambda>(e, fs, ps). length fs)]")
       (auto dest: arr obj)
qed

section \<open>Interfaces of authService.ts\<close>

definition AuthRequest_t :: ts_type where
  "AuthRequest_t = TObject [(''username'', TString, False), (''password'', TString, False)]"

definition ApiAuthResponse_t :: ts_type where
  "ApiAuthResponse_t =
     TObject [(''token'', TString, False), (''expiration'', TString, False), (''userId'', TString, True)]"

definition User_t :: ts_type where
  "User_t = TObject [(''username'', TString, False), (''token'', TString, False), (''userId'', TString, False)]"

definition AuthResponse_t :: ts_type where
  "AuthResponse_t =
     TObject [(''username'', TString, False), (''token'', TString, False), (''success'', TBoolean, False),
              (''message'', TString, True)]"

section \<open>Interfaces of types/index.ts\<close>

definition ApiResponse_fields :: "ts_type \<Rightarrow> (string \<times> ts_type \<times> bool) list" where
  "ApiResponse_fields T = [(''data'', T, False), (''success'', TBoolean, False), (''message'', TString, True)]"

definition ApiResponse_t :: "ts_type \<Rightarrow> ts_type" where
  "ApiResponse_t T = TObject (ApiResponse_fields T)"

definition PaginatedResponse_t :: "ts_type \<Rightarrow> ts_type" where
  "PaginatedResponse_t T =
     TObject (ApiResponse_fields T @
       [(''totalCount'', TNumber, False), (''pageSize'', TNumber, False), (''currentPage'', TNumber, False),
        (''totalPages'', TNumber, False)])"

definition CreateEventDto_t :: ts_type where
  "CreateEventDto_t =
     TObject [(''name'', TString, False), (''description'', TString, False), (''dateOfEvent'', TString, False),
              (''eventTypeId'', TNumber, False), (''cityId'', TNumber, False), (''dresscodeId'', TNumber, False)]"

definition CreateCommentDto_t :: ts_type where
  "CreateCommentDto_t = TObject [(''text'', TString, False), (''eventId'', TNumber, False)]"

definition CommentDto_t :: ts_type where
  "CommentDto_t =
     TObject [(''commentId'', TNumber, False), (''text'', TString, False), (''dateCreated'', TString, False),
              (''userId'', TString, False), (''userName'', TString, False), (''userEmail'', TString, False),
              (''eventId'', TNumber, False), (''eventName'', TString, False),
              (''eventDescription'', TString, False)]"

definition LoginCredentials_fields :: "(string \<times> ts_type \<times> bool) list" where
  "LoginCredentials_fields = [(''email'', TString, False), (''password'', TString, False)]"

definition LoginCredentials_t :: ts_type where
  "LoginCredentials_t = TObject LoginCredentials_fields"

definition RegisterCredentials_t :: ts_type where
  "RegisterCredentials_t = TObject (LoginCredentials_fields @ [(''userName'', TString, False)])"

definition EventFilters_members :: ts_members where
  "EventFilters_members =
     [(''countryId'', TNumber, True), (''cityId'', TNumber, True), (''eventTypeId'', TNumber, True),
              (''dresscodeId'', TNumber, True), (''fromDate'', TString, True), (''toDate'', TString, True),
              (''searchTerm'', TString, True), (''page'', TNumber, True), (''pageSize'', TNumber, True)]"

definition EventFilters_t :: ts_type where
  "EventFilters_t = TObject EventFilters_members"

text \<open>Login replies for the witnesses: one as \<open>ApiAuthResponse\<close> declares it, one whose
  \<open>userId\<close> is a number.\<close>

definition typed_reply :: jsval where
  "typed_reply = JObj [(''token'', JStr ''tok''), (''expiration'', JStr ''2026-12-01''), (''userId'', JStr ''42'')]"

definition numeric_reply :: jsval where
  "numeric_reply = JObj [(''token'', JStr ''tok''), (''expiration'', JStr ''2026-12-01''), (''userId'', JNum 42)]"

section \<open>Lemmas\<close>

lemma has_type_TString_iff [simp]: "has_type TString v \<longleftrightarrow> (\<exists>s. v = JStr s)"
  by (cases v) auto

declare has_type.simps(2) [simp del]

text \<open>On closed types the checker with declarations is the reference check \<open>has_type\<close>,
  whatever the declarations.\<close>

lemma conforms_closed:
  "closed t \<Longrightarrow> conforms env t v = has_type t v"
  "list_all (\<lambda>(k, c, opt). c) (map (map_prod id (map_prod closed id)) fs) \<Longrightarrow>
     members_ok env fs ps = list_all (field_ok ps) (map (map_prod id (map_prod has_type id)) fs)"
proof (induction env t v and env fs ps rule: conforms_members_ok.induct)
  case (7 env t v)
  then show ?case by (auto simp: list_all_iff split: jsval.splits)
qed (auto simp: has_type.simps(2) split: jsval.splits option.splits)

lemma User_t_fields:
  assumes "has_type User_t v"
  shows "\<exists>i. opt_prop v ''userId'' = JStr i" and "\<exists>s. opt_prop v ''username'' = JStr s"
  using assms by (auto simp: User_t_def opt_prop_def split: jsval.splits option.splits)

lemma comment_json_typed:
  "has_type CommentDto_t (comment_json c) \<longleftrightarrow>
     has_type TString (comment_userId c) \<and> has_type TString (comment_userName c)"
  by (simp add: CommentDto_t_def comment_json_def)

lemma auth_payload_typed: "has_type AuthRequest_t (auth_payload u p)"
  by (simp add: AuthRequest_t_def auth_payload_def)

lemma extract_userId_string: "has_type TString uid \<or> uid = JUndef \<Longrightarrow> \<exists>i. extract_userId u uid = JStr i"
  by (cases uid) (auto simp: extract_userId_def)

lemma ensure_userId_user:
  "has_type User_t (ensure_userId (JObj [(''username'', JStr u), (''token'', JStr t), (''userId'', JStr i)]))"
  by (simp add: ensure_userId_def opt_prop_def User_t_def)

lemma ApiAuthResponse_fields:
  assumes "has_type ApiAuthResponse_t data"
  obtains ps t where "data = JObj ps" and "map_of ps ''token'' = Some (JStr t)"
    and "has_type TString (opt_prop data ''userId'') \<or> opt_prop data ''userId'' = JUndef"
  using assms
  by (cases data) (auto simp: ApiAuthResponse_t_def opt_prop_def split: option.splits)

lemma login_user_typed:
  assumes "login_api b u p = Ok data" and "has_type ApiAuthResponse_t data" and "fst (login b u p w)"
  shows "has_type User_t (auth_user (ast (snd (login b u p w))))"
proof -
  obtain ps t where d: "data = JObj ps" and tok: "map_of ps ''token'' = Some (JStr t)"
    and uid: "has_type TString (opt_prop data ''userId'') \<or> opt_prop data ''userId'' = JUndef"
    using ApiAuthResponse_fields[OF assms(2)] by blast
  obtain i where i: "extract_userId u (opt_prop data ''userId'') = JStr i"
    using extract_userId_string[OF uid] by blast
  have g: "get_prop data ''userId'' = Some (opt_prop data ''userId'')" by (simp add: d opt_prop_def)
  have tk: "opt_prop data ''token'' = JStr t" by (simp add: d tok opt_prop_def)
  have r: "fst (service_login b u p) = \<lparr>ar_username = u, ar_token = JStr t, ar_success = True,
             ar_message = ''Login successful'', ar_userId = JStr i\<rparr>"
    using assms(1) g tk i by (simp add: service_login_def auth_reply_def)
  show ?thesis using assms(3) r
    by (cases "service_login b u p")
       (simp add: login_def finish_auth_def setUser_def Let_def user_of_response_def ensure_userId_user
        split: if_splits)
qed

lemma addComment_typed:
  assumes u: "has_type User_t (auth_user a)"
    and s: "cm_sent (snd (addComment b a now eid content evName evDesc w)) = cm_sent w @ post_req COMMENTS body # rest"
  shows "has_type CommentDto_t body"
proof (cases "truthy (opt_prop (auth_user a) ''userId'')")
  case True
  obtain rest' where "cm_sent (snd (addComment b a now eid content evName evDesc w)) =
      cm_sent w @ post_req COMMENTS (comment_json (new_comment a (opt_prop (auth_user a) ''userId'')
                                                     now eid content evName evDesc)) # rest'"
    using addComment_posts[OF True] by blast
  with s have b: "body = comment_json (new_comment a (opt_prop (auth_user a) ''userId'') now eid content evName evDesc)"
    by (simp add: post_req_def)
  obtain i where i: "opt_prop (auth_user a) ''userId'' = JStr i" using User_t_fields(1)[OF u] by blast
  obtain n where n: "opt_prop (auth_user a) ''username'' = JStr n" using User_t_fields(2)[OF u] by blast
  show ?thesis by (simp add: b comment_json_typed new_comment_def Let_def i n)
next
  case False
  with s show ?thesis by (simp add: addComment_requires_session)
qed

section \<open>Properties\<close>

text \<open>C40. When the backend's login reply conforms to the declared \<open>ApiAuthResponse\<close> and
  the login succeeds, the user object the auth store keeps (and persists) conforms to the
  declared \<open>User\<close> interface, and the comment body \<open>addComment\<close> then posts for that session
  conforms to \<open>CommentDto\<close>.\<close>

theorem login_typed_session:
  assumes "login_api b u p = Ok data" and "has_type ApiAuthResponse_t data" and "fst (login b u p w)"
  shows "has_type User_t (auth_user (ast (snd (login b u p w))))
         \<and> (\<forall>body rest. cm_sent (snd (addComment b' (ast (snd (login b u p w))) now eid content evName evDesc cw))
                         = cm_sent cw @ post_req COMMENTS body # rest \<longrightarrow> has_type CommentDto_t body)"
  using login_user_typed[OF assms] addComment_typed by blast


text \<open>The declaration \<open>userId: string\<close> of \<open>User\<close> is not what the code enforces: a reply
  whose \<open>userId\<close> is a number (outside \<open>ApiAuthResponse\<close>) is accepted, and
  \<open>extract_userId\<close> keeps the number, so the stored user is not a \<open>User\<close>.\<close>

theorem login_numeric_userId_untyped:
  "\<not> has_type ApiAuthResponse_t numeric_reply
   \<and> fst (login (null_backend\<lparr>login_api := (\<lambda>_ _. Ok numeric_reply)\<rparr>) ''ann'' ''pw'' anon_world)
   \<and> \<not> has_type User_t (auth_user (ast (snd (login (null_backend\<lparr>login_api := (\<lambda>_ _. Ok numeric_reply)\<rparr>)
                                               ''ann'' ''pw'' anon_world))))"
  by (simp add: numeric_reply_def ApiAuthResponse_t_def User_t_def login_def finish_auth_def service_login_def
      auth_reply_def extract_userId_def setUser_def user_of_response_def ensure_userId_def opt_prop_def Let_def)

theorem login_typed_session_witness:
  "has_type User_t (auth_user (ast (snd (login (null_backend\<lparr>login_api := (\<lambda>_ _. Ok typed_reply)\<rparr>)
                                         ''ann'' ''pw'' anon_world))))
   \<and> has_type CommentDto_t (comment_json (new_comment
       (ast (snd (login (null_backend\<lparr>login_api := (\<lambda>_ _. Ok typed_reply)\<rparr>) ''ann'' ''pw'' anon_world)))
       (JStr ''42'') ''t0'' 1 ''hi'' ''gala'' ''d''))"
proof -
  let ?b = "null_backend\<lparr>login_api := (\<lambda>_ _. Ok typed_reply)\<rparr>"
  let ?a = "ast (snd (login ?b ''ann'' ''pw'' anon_world))"
  have h: "login_api ?b ''ann'' ''pw'' = Ok typed_reply" "has_type ApiAuthResponse_t typed_reply"
    "fst (login ?b ''ann'' ''pw'' anon_world)"
    by (simp_all add: typed_reply_def ApiAuthResponse_t_def login_def finish_auth_def service_login_def
        auth_reply_def opt_prop_def Let_def)
  note T = login_typed_session[OF h, of null_backend "''t0''" 1 "''hi''" "''gala''" "''d''" empty_cm]
  have u: "opt_prop (auth_user ?a) ''userId'' = JStr ''42''"
    by (simp add: typed_reply_def login_def finish_auth_def service_login_def auth_reply_def
        extract_userId_def setUser_def user_of_response_def ensure_userId_def opt_prop_def Let_def)
  obtain rest where "cm_sent (snd (addComment null_backend ?a ''t0'' 1 ''hi'' ''gala'' ''d'' empty_cm)) =
      cm_sent empty_cm @ post_req COMMENTS (comment_json (new_comment ?a (JStr ''42'') ''t0'' 1 ''hi'' ''gala'' ''d'')) # rest"
    using addComment_posts[of ?a null_backend "''t0''" 1 "''hi''" "''gala''" "''d''" empty_cm] u by auto
  with T show ?thesis by blast
qed

end
