(* ===== verification/DomainTypes.thy ===== *)
theory DomainTypes
  imports TsTypes
begin

text \<open>
  All interfaces of \<open>src/src/types/index.ts\<close> as declarations of named structural types.
  The domain interfaces refer to each other (\<open>City.country\<close>, \<open>Country.cities\<close>,
  \<open>Event.city\<close>, \<open>Comment.user\<close>, \<open>User.comments\<close>, ...), so a member whose type is
  another interface is a reference \<open>TRef\<close> to its name, resolved through \<open>index_env\<close> by
  \<open>conforms\<close>.  The closed interfaces of \<open>TsTypes\<close> (\<open>EventFilters\<close>) are declared too.
  \<open>auth_state_json\<close> is the state object of \<open>useAuthStore\<close> as JavaScript sees it, so that
  it can be compared with the declared \<open>AuthState\<close>.
\<close>

section \<open>Declarations of index.ts\<close>

definition City_members :: ts_members where
  "City_members =
     [(''cityId'', TNumber, False), (''name'', TString, False), (''flags'', TNumber, False),
      (''countryId'', TNumber, False), (''country'', TRef ''Country'', False),
      (''events'', TArray (TRef ''Event''), False)]"

definition Comment_members :: ts_members where
  "Comment_members =
     [(''commentId'', TNumber, False), (''text'', TString, False), (''dateCreated'', TString, False),
      (''eventId'', TNumber, False), (''event'', TRef ''Event'', False), (''userId'', TString, False),
      (''user'', TRef ''User'', False)]"

definition Country_members :: ts_members where
  "Country_members =
     [(''countryId'', TNumber, False), (''name'', TString, False), (''cities'', TArray (TRef ''City''), False)]"

definition Dresscode_members :: ts_members where
  "Dresscode_members =
     [(''dresscodeId'', TNumber, False), (''name'', TString, False), (''description'', TString, False),
      (''iconUrl'', TString, False), (''dateCreated'', TString, False),
      (''events'', TArray (TRef ''Event''), False)]"

definition EventType_members :: ts_members where
  "EventType_members =
     [(''eventTypeId'', TNumber, False), (''name'', TString, False), (''description'', TString, False),
      (''events'', TArray (TRef ''Event''), False)]"

definition User_members :: ts_members where
  "User_members =
     [(''id'', TString, False), (''userName'', TString, False), (''email'', TString, False),
      (''comments'', TArray (TRef ''Comment''), False)]"

definition Event_members :: ts_members where
  "Event_members =
     [(''eventId'', TNumber, False), (''name'', TString, False), (''description'', TString, False),
      (''dateOfEvent'', TString, False), (''dateCreated'', TString, False), (''eventTypeId'', TNumber, False),
      (''eventType'', TRef ''EventType'', False), (''cityId'', TNumber, False), (''city'', TRef ''City'', False),
      (''dresscodeId'', TNumber, False), (''dresscode'', TRef ''Dresscode'', False),
      (''comments'', TArray (TRef ''Comment''), False)]"

definition AuthState_members :: ts_members where
  "AuthState_members =
     [(''user'', TUnion (TRef ''User'') TNull, False), (''isAuthenticated'', TBoolean, False),
      (''token'', TUnion TString TNull, False)]"

definition EventState_members :: ts_members where
  "EventState_members =
     [(''events'', TArray (TRef ''Event''), False), (''loading'', TBoolean, False),
      (''error'', TUnion TString TNull, False), (''filters'', TRef ''EventFilters'', False),
      (''selectedEvent'', TUnion (TRef ''Event'') TNull, False)]"

definition index_decls :: "(string \<times> ts_members) list" where
  "index_decls =
     [(''City'', City_members), (''Comment'', Comment_members), (''Country'', Country_members),
      (''Dresscode'', Dresscode_members), (''EventType'', EventType_members), (''User'', User_members),
      (''Event'', Event_members), (''EventFilters'', EventFilters_members),
      (''AuthState'', AuthState_members), (''EventState'', EventState_members)]"

definition index_env :: "string \<Rightarrow> ts_members option" where
  "index_env = map_of index_decls"

section \<open>The auth store's state object\<close>

text \<open>\<open>state: () => ({ user, loading, error, isAuthenticated })\<close> of \<open>useAuthStore\<close>.\<close>

definition auth_state_json :: "auth_store \<Rightarrow> jsval" where
  "auth_state_json s =
     JObj [(''user'', auth_user s), (''loading'', JBool (auth_loading s)),
           (''error'', (case auth_error s of None \<Rightarrow> JNull | Some m \<Rightarrow> JStr m)),
           (''isAuthenticated'', JBool (isAuthenticated s))]"

text \<open>A country as the backend may send it, with its city and the city's back-reference.\<close>

definition lyon_json :: jsval where
  "lyon_json = JObj [(''cityId'', JNum 7), (''name'', JStr ''Lyon''), (''flags'', JNum 0), (''countryId'', JNum 1),
     (''country'', JObj [(''countryId'', JNum 1), (''name'', JStr ''France''), (''cities'', JArr [])]),
     (''events'', JArr [])]"

definition france_json :: jsval where
  "france_json = JObj [(''countryId'', JNum 1), (''name'', JStr ''France''), (''cities'', JArr [lyon_json])]"

section \<open>Lemmas\<close>

lemma conforms_ref: "env n = Some fs \<Longrightarrow> conforms env (TRef n) v = conforms env (TObject fs) v"
  by (cases v) simp_all

lemma index_env_simps [simp]:
  "index_env ''City'' = Some City_members" "index_env ''Country'' = Some Country_members"
  "index_env ''User'' = Some User_members" "index_env ''EventFilters'' = Some EventFilters_members"
  "index_env ''AuthState'' = Some AuthState_members"
  by (simp_all add: index_env_def index_decls_def)

text \<open>A back-referencing country and city conform to the declared \<open>Country\<close>.\<close>

lemma france_conforms: "conforms index_env (TRef ''Country'') france_json"
  by (simp add: france_json_def lyon_json_def Country_members_def City_members_def)

text \<open>A named closed interface is checked as its structural type: the filters object
  \<open>{}\<close> the event store passes to \<open>getAllEvents\<close> is an \<open>EventFilters\<close>.\<close>

lemma EventFilters_ref: "conforms index_env (TRef ''EventFilters'') v = has_type EventFilters_t v"
proof -
  have "conforms index_env (TRef ''EventFilters'') v = conforms index_env (TObject EventFilters_members) v"
    by (rule conforms_ref) simp
  also have "\<dots> = has_type EventFilters_t v" unfolding EventFilters_t_def
    by (rule conforms_closed(1)) (simp add: EventFilters_members_def)
  finally show ?thesis .
qed

lemma store_filters_conform: "conforms index_env (TRef ''EventFilters'') (JObj [])"
  by (simp add: EventFilters_ref EventFilters_t_def EventFilters_members_def)

text \<open>No state of the auth store is an \<open>AuthState\<close>: the store keeps no \<open>token\<close> member.\<close>

lemma auth_state_not_AuthState: "\<not> conforms index_env (TRef ''AuthState'') (auth_state_json s)"
  by (simp add: auth_state_json_def AuthState_members_def)

text \<open>The user the auth store builds on login (authService's \<open>User\<close>) is not the
  \<open>User\<close> of \<open>index.ts\<close>: it has no \<open>id\<close>.\<close>

lemma store_user_not_index_User: "\<not> conforms index_env (TRef ''User'') (ensure_userId (user_of_response r))"
  by (simp add: ensure_userId_def user_of_response_def User_members_def opt_prop_def)

end
