(* ===== verification/EventStore.thy ===== *)
theory EventStore
  imports Services
begin

text \<open>
  The Pinia store \<open>useEventStore\<close> of \<open>src/src/stores/eventStore.ts\<close>: the
  country \<open>\<rightarrow>\<close> city \<open>\<rightarrow>\<close> events selection cascade with its loading flag and
  loading-timeout guard.  The store's state is the record \<open>event_store\<close>; the world
  \<open>es_world\<close> adds what the browser holds for it: the pending timers (by id, in
  scheduling order), the next timer id, and the log of requests sent to the backend.
  Each action runs to completion against a fixed \<open>backend\<close> (the sequential view:
  no other action runs between its awaits), so an action is a function
  \<open>es_world \<Rightarrow> es_world\<close>; the \<open>try/catch\<close> blocks of the actions never fire,
  because the services they await never reject.  \<open>es_step\<close> and \<open>es_run\<close> run one
  action and a list of actions, a timer firing being one kind of action.
\<close>

section \<open>State\<close>

definition LOADING_TIMEOUT :: nat where
  "LOADING_TIMEOUT = 30000"

record event_store =
  events :: "event list"
  countries :: "country list"
  cities :: "city list"
  selectedCountryId :: "int option"
  selectedCityId :: "int option"
  loading :: bool
  error :: "string option"
  initialized :: bool
  loadingTimeout :: "nat option"

definition init_store :: event_store where
  "init_store =
     \<lparr>events = [], countries = [], cities = [], selectedCountryId = None, selectedCityId = None,
      loading = False, error = None, initialized = False, loadingTimeout = None\<rparr>"

record es_world =
  st :: event_store
  timers :: "nat list"
  next_timer :: nat
  sent :: "request list"

text \<open>Browsers hand out positive timer ids; the first one is 1.\<close>

definition init_world :: es_world where
  "init_world = \<lparr>st = init_store, timers = [], next_timer = 1, sent = []\<rparr>"

section \<open>Host operations\<close>

definition send :: "request \<Rightarrow> es_world \<Rightarrow> es_world" where
  "send r w = w\<lparr>sent := sent w @ [r]\<rparr>"

definition clearTimeout :: "nat \<Rightarrow> es_world \<Rightarrow> es_world" where
  "clearTimeout t w = w\<lparr>timers := removeAll t (timers w)\<rparr>"

text \<open>\<open>if (this.loadingTimeout) clearTimeout(this.loadingTimeout)\<close>\<close>

definition clear_pending :: "es_world \<Rightarrow> es_world" where
  "clear_pending w =
     (case loadingTimeout (st w) of Some t \<Rightarrow> if t \<noteq> 0 then clearTimeout t w else w | None \<Rightarrow> w)"

section \<open>Loading guard\<close>

text \<open>\<open>startLoading\<close>: the \<open>message\<close> argument is unused by the source and omitted.\<close>

definition startLoading :: "es_world \<Rightarrow> es_world" where
  "startLoading w =
     (let w1 = clear_pending (w\<lparr>st := (st w)\<lparr>loading := True, error := None\<rparr>\<rparr>);
          t = next_timer w1
      in w1\<lparr>timers := timers w1 @ [t], next_timer := Suc t,
            st := (st w1)\<lparr>loadingTimeout := Some t\<rparr>\<rparr>)"

definition stopLoading :: "es_world \<Rightarrow> es_world" where
  "stopLoading w =
     (let w1 = w\<lparr>st := (st w)\<lparr>loading := False\<rparr>\<rparr> in
      case loadingTimeout (st w1) of
        Some t \<Rightarrow> if t \<noteq> 0 then (clearTimeout t w1)\<lparr>st := (st w1)\<lparr>loadingTimeout := None\<rparr>\<rparr> else w1
      | None \<Rightarrow> w1)"

text \<open>The callback \<open>startLoading\<close> schedules.\<close>

definition timeout_callback :: "event_store \<Rightarrow> event_store" where
  "timeout_callback s =
     (if loading s then s\<lparr>loading := False, error := Some ''Request timed out. Please try again.''\<rparr>
      else s)"

text \<open>The event loop runs a pending timer's callback once and forgets the timer.\<close>

definition fire_timer :: "nat \<Rightarrow> es_world \<Rightarrow> es_world" where
  "fire_timer t w =
     (if t \<in> set (timers w)
      then w\<lparr>timers := removeAll t (timers w), st := timeout_callback (st w)\<rparr>
      else w)"

section \<open>Actions\<close>

definition loadEvents :: "backend \<Rightarrow> es_world \<Rightarrow> es_world" where
  "loadEvents b w =
     (if \<not> truthy_num (selectedCityId (st w))
      then w\<lparr>st := (st w)\<lparr>events := [], error := Some ''Please select a city to view events''\<rparr>\<rparr>
      else
        let w1 = startLoading w;
            (evs, r) = getAllEvents b [];
            w2 = send r w1
        in stopLoading (w2\<lparr>st := (st w2)\<lparr>events := evs,
                             error := (if evs = [] then Some ''No events found'' else None)\<rparr>\<rparr>))"

definition loadCountries :: "backend \<Rightarrow> es_world \<Rightarrow> es_world" where
  "loadCountries b w =
     (let w1 = startLoading w;
          (cs, r) = getCountries b;
          w2 = send r w1;
          w3 = w2\<lparr>st := (st w2)\<lparr>countries := cs\<rparr>\<rparr>
      in stopLoading (if cs = [] then w3\<lparr>st := (st w3)\<lparr>error := Some ''No countries available''\<rparr>\<rparr>
                      else w3))"

definition loadCities :: "backend \<Rightarrow> int \<Rightarrow> es_world \<Rightarrow> es_world" where
  "loadCities b cid w =
     (let w1 = startLoading w;
          (cis, r) = getCities b cid;
          w2 = send r w1;
          w3 = w2\<lparr>st := (st w2)\<lparr>cities := cis\<rparr>\<rparr>
      in stopLoading (if cis = []
                      then w3\<lparr>st := (st w3)\<lparr>error := Some ''No cities available for the selected country''\<rparr>\<rparr>
                      else w3))"

text \<open>\<open>initialize\<close>: each early \<open>return\<close> still runs the \<open>finally\<close> block
  (\<open>stopLoading\<close>).\<close>

definition initialize :: "backend \<Rightarrow> es_world \<Rightarrow> es_world" where
  "initialize b w =
     (if initialized (st w) then w
      else
        let w1 = startLoading w;
            (cs, r1) = getCountries b;
            w2 = send r1 w1;
            w3 = w2\<lparr>st := (st w2)\<lparr>countries := cs\<rparr>\<rparr>
        in stopLoading
             (case cs of
                [] \<Rightarrow> w3\<lparr>st := (st w3)\<lparr>error := Some ''No countries available''\<rparr>\<rparr>
              | c # _ \<Rightarrow>
                  let w4 = w3\<lparr>st := (st w3)\<lparr>selectedCountryId := Some (countryId c)\<rparr>\<rparr>;
                      (cis, r2) = getCities b (countryId c);
                      w5 = send r2 w4;
                      w6 = w5\<lparr>st := (st w5)\<lparr>cities := cis\<rparr>\<rparr>
                  in (case cis of
                        [] \<Rightarrow> w6\<lparr>st := (st w6)\<lparr>error := Some ''No cities available for the selected country''\<rparr>\<rparr>
                      | ci # _ \<Rightarrow>
                          loadEvents b (w6\<lparr>st := (st w6)\<lparr>selectedCityId := Some (cityId ci),
                                                          initialized := True\<rparr>\<rparr>))))"

text \<open>The city picked after the cities of country \<open>c\<close> are reloaded: the first one whose
  country reference is \<open>c\<close>, else the first one of the list.\<close>

definition pick_city :: "int \<Rightarrow> city list \<Rightarrow> int option" where
  "pick_city c cis =
     (case cis of
        [] \<Rightarrow> None
      | c0 # _ \<Rightarrow> Some (case find (\<lambda>x. city_countryId x = c) cis of Some x \<Rightarrow> cityId x | None \<Rightarrow> cityId c0))"

definition setCountryFilter :: "backend \<Rightarrow> int option \<Rightarrow> es_world \<Rightarrow> es_world" where
  "setCountryFilter b cid w =
     (case cid of
        None \<Rightarrow> w
      | Some c \<Rightarrow>
          if c = 0 then w
          else
            let w1 = w\<lparr>st := (st w)\<lparr>selectedCountryId := Some c, events := []\<rparr>\<rparr>;
                w2 = loadCities b c w1
            in if cities (st w2) \<noteq> []
               then loadEvents b (w2\<lparr>st := (st w2)\<lparr>selectedCityId := pick_city c (cities (st w2))\<rparr>\<rparr>)
               else w2\<lparr>st := (st w2)\<lparr>selectedCityId := None\<rparr>\<rparr>)"

definition setCityFilter :: "backend \<Rightarrow> int option \<Rightarrow> es_world \<Rightarrow> es_world" where
  "setCityFilter b cid w =
     (let w1 = (if \<not> truthy_num cid \<and> cities (st w) \<noteq> []
                then w\<lparr>st := (st w)\<lparr>selectedCityId := Some (cityId (hd (cities (st w))))\<rparr>\<rparr>
                else if truthy_num cid then w\<lparr>st := (st w)\<lparr>selectedCityId := cid\<rparr>\<rparr>
                else w)
      in loadEvents b w1)"

definition resetFilters :: "backend \<Rightarrow> es_world \<Rightarrow> es_world" where
  "resetFilters b w =
     (case countries (st w) of
        c # _ \<Rightarrow> setCountryFilter b (Some (countryId c)) w
      | [] \<Rightarrow>
          let w1 = loadCountries b w in
          (case countries (st w1) of
             c # _ \<Rightarrow> setCountryFilter b (Some (countryId c)) w1
           | [] \<Rightarrow> w1))"

section \<open>Getters\<close>

text \<open>\<open>filteredEvents\<close>: \<open>state.events\<close> is always an array in the model, so the
  first safety check never fires.  The three disjuncts are the source's, with
  JavaScript's strict equality: a city reference matches only a number equal to the
  selected id, or a string equal to the selected city's name.\<close>

definition event_matches :: "int \<Rightarrow> city \<Rightarrow> event \<Rightarrow> bool" where
  "event_matches n sc e =
     ((truthy (ev_cityId e) \<and> ev_cityId e = JNum n)
      \<or> (truthy (ev_city e) \<and> ev_city e = JStr (city_name sc))
      \<or> (truthy (ev_cityName e) \<and> ev_cityName e = JStr (city_name sc)))"

definition filteredEvents :: "event_store \<Rightarrow> event list" where
  "filteredEvents s =
     (case selectedCityId s of
        None \<Rightarrow> []
      | Some n \<Rightarrow>
          if n = 0 then []
          else (case find (\<lambda>c. cityId c = n) (cities s) of
                  None \<Rightarrow> []
                | Some sc \<Rightarrow> filter (event_matches n sc) (events s)))"

definition hasActiveFilters :: "event_store \<Rightarrow> bool" where
  "hasActiveFilters s = (selectedCountryId s \<noteq> None \<and> selectedCityId s \<noteq> None)"

definition selectedCountry :: "event_store \<Rightarrow> country option" where
  "selectedCountry s =
     (case selectedCountryId s of
        None \<Rightarrow> None
      | Some n \<Rightarrow> if n = 0 then None else find (\<lambda>c. countryId c = n) (countries s))"

definition selectedCity :: "event_store \<Rightarrow> city option" where
  "selectedCity s =
     (case selectedCityId s of
        None \<Rightarrow> None
      | Some n \<Rightarrow> if n = 0 then None else find (\<lambda>c. cityId c = n) (cities s))"

section \<open>Runs\<close>

datatype es_action =
    Initialize
  | LoadEvents
  | LoadCountries
  | LoadCities int
  | SetCountryFilter "int option"
  | SetCityFilter "int option"
  | ResetFilters
  | TimerFires nat

fun es_step :: "backend \<Rightarrow> es_action \<Rightarrow> es_world \<Rightarrow> es_world" where
  "es_step b Initialize w = initialize b w"
| "es_step b LoadEvents w = loadEvents b w"
| "es_step b LoadCountries w = loadCountries b w"
| "es_step b (LoadCities c) w = loadCities b c w"
| "es_step b (SetCountryFilter c) w = setCountryFilter b c w"
| "es_step b (SetCityFilter c) w = setCityFilter b c w"
| "es_step b ResetFilters w = resetFilters b w"
| "es_step b (TimerFires t) w = fire_timer t w"

fun es_run :: "backend \<Rightarrow> es_action list \<Rightarrow> es_world \<Rightarrow> es_world" where
  "es_run b [] w = w"
| "es_run b (a # as) w = es_run b as (es_step b a w)"

section \<open>Properties: predicates\<close>

text \<open>A world is quiescent when no action is in progress: nothing loading, no pending
  timer, no recorded timer id, and the next timer id positive (as browsers guarantee).
  Between two actions of the sequential model the world is quiescent.\<close>

definition quiescent :: "es_world \<Rightarrow> bool" where
  "quiescent w \<longleftrightarrow> timers w = [] \<and> \<not> loading (st w) \<and> loadingTimeout (st w) = None \<and> 0 < next_timer w"

text \<open>The selection invariant of the cascade: no city without a country, and with a
  country selected, a city is selected exactly when the loaded city list is non-empty.\<close>

definition sel_inv :: "event_store \<Rightarrow> bool" where
  "sel_inv s =
     ((selectedCountryId s = None \<longrightarrow> cities s = [] \<and> selectedCityId s = None)
      \<and> (selectedCountryId s \<noteq> None \<longrightarrow> (selectedCityId s = None \<longleftrightarrow> cities s = [])))"

text \<open>The actions the user interface issues: \<open>initialize\<close> on start-up (before any
  selection) or when already initialised, a city from the loaded list or none, never a
  bare \<open>loadCities\<close>.\<close>

fun ui_ok :: "es_action \<Rightarrow> es_world \<Rightarrow> bool" where
  "ui_ok Initialize w = (initialized (st w) \<or> selectedCountryId (st w) = None)"
| "ui_ok (SetCityFilter cid) w = (case cid of None \<Rightarrow> True | Some n \<Rightarrow> n \<in> set (map cityId (cities (st w))))"
| "ui_ok (LoadCities c) w = False"
| "ui_ok _ w = True"

text \<open>A backend serving fixed lists, for concrete runs.\<close>

definition fixture_backend :: "country list \<Rightarrow> (int \<Rightarrow> city list) \<Rightarrow> event list \<Rightarrow> backend" where
  "fixture_backend cs ci evs =
     \<lparr>events_api = (\<lambda>_. Ok (IsArray evs)), event_by_id_api = (\<lambda>_. Failed NetworkError),
      event_comment_api = (\<lambda>_ _. Failed NetworkError), countries_api = Ok (IsArray cs),
      cities_api = (\<lambda>c. Ok (IsArray (ci c))), event_types_api = Ok NotArray,
      dresscodes_api = Ok NotArray, comment_post_api = (\<lambda>_. Failed NetworkError),
      comments_api = (\<lambda>_. Ok NotArray), login_api = (\<lambda>_ _. Failed NetworkError),
      register_api = (\<lambda>_ _. Failed NetworkError)\<rparr>"

text \<open>Concrete data for the witnesses.\<close>

definition demo_backend :: backend where
  "demo_backend = fixture_backend [\<lparr>countryId = 2, country_name = ''B''\<rparr>]
     (\<lambda>c. [\<lparr>cityId = 5, city_name = ''Paris'', flags = 0, city_countryId = 2\<rparr>]) []"

definition paris :: city where
  "paris = \<lparr>cityId = 5, city_name = ''Paris'', flags = 0, city_countryId = 2\<rparr>"

definition gala :: event where
  "gala = \<lparr>eventId = 1, event_name = ''Gala'', event_description = [], dateOfEvent = [],
           event_dateCreated = [], event_eventTypeId = 1, ev_cityId = JNum 5,
           ev_city = JStr ''Paris'', ev_cityName = JUndef, event_dresscodeId = 1\<rparr>"

definition paris_store :: event_store where
  "paris_store = init_store\<lparr>cities := [paris], selectedCountryId := Some 2, selectedCityId := Some 5,
                            events := [gala]\<rparr>"

text \<open>The worlds reachable from the initial one by actions the interface issues.\<close>

inductive ui_reachable :: "backend \<Rightarrow> es_world \<Rightarrow> bool" for b where
  ui_init: "ui_reachable b init_world"
| ui_step: "ui_reachable b w \<Longrightarrow> ui_ok a w \<Longrightarrow> ui_reachable b (es_step b a w)"

section \<open>Lemmas\<close>

lemma startLoading_quiescent:
  "quiescent w \<Longrightarrow> startLoading w =
     w\<lparr>timers := [next_timer w], next_timer := Suc (next_timer w),
       st := (st w)\<lparr>loading := True, error := None, loadingTimeout := Some (next_timer w)\<rparr>\<rparr>"
  by (simp add: startLoading_def clear_pending_def quiescent_def Let_def)

lemma stopLoading_armed:
  "loadingTimeout (st w) = Some t \<Longrightarrow> 0 < t \<Longrightarrow> timers w = [t] \<Longrightarrow>
   stopLoading w = w\<lparr>timers := [], st := (st w)\<lparr>loading := False, loadingTimeout := None\<rparr>\<rparr>"
  by (simp add: stopLoading_def clearTimeout_def)

lemma stopLoading_idle:
  "loadingTimeout (st w) = None \<Longrightarrow> stopLoading w = w\<lparr>st := (st w)\<lparr>loading := False\<rparr>\<rparr>"
  by (simp add: stopLoading_def)

lemma loadEvents_quiescent:
  "quiescent w \<Longrightarrow> loadEvents b w =
     (if \<not> truthy_num (selectedCityId (st w))
      then w\<lparr>st := (st w)\<lparr>events := [], error := Some ''Please select a city to view events''\<rparr>\<rparr>
      else w\<lparr>next_timer := Suc (next_timer w), sent := sent w @ [snd (getAllEvents b [])],
             st := (st w)\<lparr>events := fst (getAllEvents b []),
                         error := (if fst (getAllEvents b []) = [] then Some ''No events found'' else None)\<rparr>\<rparr>)"
  by (auto simp: loadEvents_def startLoading_quiescent stopLoading_def clearTimeout_def send_def
      quiescent_def split: prod.splits)

lemma loadCities_quiescent:
  "quiescent w \<Longrightarrow> loadCities b c w =
     w\<lparr>next_timer := Suc (next_timer w), sent := sent w @ [snd (getCities b c)],
       st := (st w)\<lparr>cities := fst (getCities b c),
                   error := (if fst (getCities b c) = [] then Some ''No cities available for the selected country'' else None)\<rparr>\<rparr>"
  by (auto simp: loadCities_def startLoading_quiescent stopLoading_def clearTimeout_def send_def
      quiescent_def split: prod.splits)

lemma loadCountries_quiescent:
  "quiescent w \<Longrightarrow> loadCountries b w =
     w\<lparr>next_timer := Suc (next_timer w), sent := sent w @ [snd (getCountries b)],
       st := (st w)\<lparr>countries := fst (getCountries b),
                   error := (if fst (getCountries b) = [] then Some ''No countries available'' else None)\<rparr>\<rparr>"
  by (auto simp: loadCountries_def startLoading_quiescent stopLoading_def clearTimeout_def send_def
      quiescent_def split: prod.splits)

lemma quiescent_update_st [simp]:
  "loading s = loading (st w) \<Longrightarrow> loadingTimeout s = loadingTimeout (st w) \<Longrightarrow>
   quiescent (w\<lparr>st := s\<rparr>) = quiescent w"
  "quiescent (w\<lparr>sent := rs\<rparr>) = quiescent w"
  "quiescent w \<Longrightarrow> quiescent (w\<lparr>next_timer := Suc (next_timer w)\<rparr>)"
  by (auto simp: quiescent_def)

lemma stopLoading_loadEvents:
  "loadingTimeout (st w) = Some t \<Longrightarrow> 0 < t \<Longrightarrow> timers w = [t] \<Longrightarrow>
   stopLoading (loadEvents b w) = loadEvents b (stopLoading w)"
  by (simp add: loadEvents_def startLoading_def stopLoading_def clear_pending_def clearTimeout_def
      send_def Let_def split: prod.splits)

lemma initialize_quiescent:
  assumes "quiescent w" and "\<not> initialized (st w)"
  shows "initialize b w =
   (case fst (getCountries b) of
      [] \<Rightarrow> w\<lparr>next_timer := Suc (next_timer w), sent := sent w @ [snd (getCountries b)],
              st := (st w)\<lparr>countries := [], error := Some ''No countries available''\<rparr>\<rparr>
    | c # _ \<Rightarrow>
        (let w' = w\<lparr>next_timer := Suc (next_timer w),
                     sent := sent w @ [snd (getCountries b), snd (getCities b (countryId c))],
                     st := (st w)\<lparr>countries := fst (getCountries b), selectedCountryId := Some (countryId c),
                                 cities := fst (getCities b (countryId c)), error := None\<rparr>\<rparr>
         in case fst (getCities b (countryId c)) of
              [] \<Rightarrow> w'\<lparr>st := (st w')\<lparr>error := Some ''No cities available for the selected country''\<rparr>\<rparr>
            | ci # _ \<Rightarrow> loadEvents b (w'\<lparr>st := (st w')\<lparr>selectedCityId := Some (cityId ci), initialized := True\<rparr>\<rparr>)))"
proof -
  from assms(1) have q: "timers w = []" "\<not> loading (st w)" "loadingTimeout (st w) = None" "0 < next_timer w"
    by (simp_all add: quiescent_def)
  obtain cs r1 where g1: "getCountries b = (cs, r1)" by (cases "getCountries b")
  obtain cis r2 where g2: "getCities b (countryId (hd cs)) = (cis, r2)" by (cases "getCities b (countryId (hd cs))")
  show ?thesis
  proof (cases cs)
    case Nil
    with q assms(2) g1 show ?thesis
      by (simp add: initialize_def startLoading_quiescent[OF assms(1)] stopLoading_armed send_def)
  next
    case (Cons c rest)
    with g2 have g2': "getCities b (countryId c) = (cis, r2)" by simp
    show ?thesis
    proof (cases cis)
      case Nil
      with Cons q assms(2) g1 g2' show ?thesis
        by (simp add: initialize_def startLoading_quiescent[OF assms(1)] stopLoading_armed send_def)
    next
      case (Cons ci more)
      with \<open>cs = c # rest\<close> q assms(2) g1 g2' show ?thesis
        by (simp add: initialize_def startLoading_quiescent[OF assms(1)] stopLoading_loadEvents
            stopLoading_armed send_def)
          (auto intro!: arg_cong[where f = "loadEvents b"] es_world.equality event_store.equality)
    qed
  qed
qed

lemma st_startLoading [simp]:
  "st (startLoading w) = (st w)\<lparr>loading := True, error := None, loadingTimeout := Some (next_timer w)\<rparr>"
  by (simp add: startLoading_def clear_pending_def clearTimeout_def Let_def split: option.splits)

lemma sent_startLoading [simp]: "sent (startLoading w) = sent w"
  by (simp add: startLoading_def clear_pending_def clearTimeout_def Let_def split: option.splits)

lemma st_stopLoading [simp]:
  "st (stopLoading w) = (st w)\<lparr>loading := False,
     loadingTimeout := (case loadingTimeout (st w) of Some t \<Rightarrow> if t \<noteq> 0 then None else Some t | None \<Rightarrow> None)\<rparr>"
  by (simp add: stopLoading_def clearTimeout_def Let_def split: option.splits)

lemma sent_stopLoading [simp]: "sent (stopLoading w) = sent w"
  by (simp add: stopLoading_def clearTimeout_def Let_def split: option.splits)

lemma loadEvents_frame [simp]:
  "selectedCountryId (st (loadEvents b w)) = selectedCountryId (st w)"
  "selectedCityId (st (loadEvents b w)) = selectedCityId (st w)"
  "cities (st (loadEvents b w)) = cities (st w)"
  "countries (st (loadEvents b w)) = countries (st w)"
  "initialized (st (loadEvents b w)) = initialized (st w)"
  by (simp_all add: loadEvents_def send_def Let_def split: prod.splits)

lemma loadCountries_frame [simp]:
  "selectedCountryId (st (loadCountries b w)) = selectedCountryId (st w)"
  "selectedCityId (st (loadCountries b w)) = selectedCityId (st w)"
  "cities (st (loadCountries b w)) = cities (st w)"
  "initialized (st (loadCountries b w)) = initialized (st w)"
  by (simp_all add: loadCountries_def send_def Let_def split: prod.splits)

lemma fire_timer_frame [simp]:
  "selectedCountryId (st (fire_timer t w)) = selectedCountryId (st w)"
  "selectedCityId (st (fire_timer t w)) = selectedCityId (st w)"
  "cities (st (fire_timer t w)) = cities (st w)"
  by (simp_all add: fire_timer_def timeout_callback_def)

lemma quiescent_loadEvents: "quiescent w \<Longrightarrow> quiescent (loadEvents b w)"
  by (simp add: loadEvents_quiescent quiescent_def)

lemma quiescent_loadCountries: "quiescent w \<Longrightarrow> quiescent (loadCountries b w)"
  by (simp add: loadCountries_quiescent quiescent_def)

lemma quiescent_loadCities: "quiescent w \<Longrightarrow> quiescent (loadCities b c w)"
  by (simp add: loadCities_quiescent quiescent_def)

lemma setCountryFilter_noop: "\<not> truthy_num c \<Longrightarrow> setCountryFilter b c w = w"
  by (cases c) (simp_all add: setCountryFilter_def)

lemma quiescent_setCountryFilter:
  assumes q: "quiescent w"
  shows "quiescent (setCountryFilter b c w)"
proof (cases "truthy_num c")
  case True
  then obtain n where "c = Some n" "n \<noteq> 0" by (cases c) auto
  with q show ?thesis by (simp add: setCountryFilter_def loadCities_quiescent Let_def quiescent_loadEvents)
qed (simp add: setCountryFilter_noop q)

lemma quiescent_initialize:
  assumes q: "quiescent w"
  shows "quiescent (initialize b w)"
proof (cases "initialized (st w)")
  case False
  with q show ?thesis
    by (simp add: initialize_quiescent Let_def quiescent_loadEvents split: list.splits)
qed (simp add: initialize_def q)

lemma quiescent_setCityFilter: "quiescent w \<Longrightarrow> quiescent (setCityFilter b c w)"
  by (simp add: setCityFilter_def Let_def quiescent_loadEvents)

lemma quiescent_resetFilters: "quiescent w \<Longrightarrow> quiescent (resetFilters b w)"
  by (simp add: resetFilters_def Let_def quiescent_setCountryFilter quiescent_loadCountries split: list.splits)

lemma fire_timer_quiescent: "quiescent w \<Longrightarrow> fire_timer t w = w"
  by (simp add: fire_timer_def quiescent_def)

lemma quiescent_es_step: "quiescent w \<Longrightarrow> quiescent (es_step b a w)"
  by (cases a) (simp_all add: quiescent_initialize quiescent_loadEvents quiescent_loadCountries
      quiescent_loadCities quiescent_setCountryFilter quiescent_setCityFilter quiescent_resetFilters
      fire_timer_quiescent)

lemma pick_city_None_iff [simp]: "pick_city c cis = None \<longleftrightarrow> cis = []"
  by (simp add: pick_city_def split: list.splits)

lemma sel_inv_setCountryFilter:
  "quiescent w \<Longrightarrow> sel_inv (st w) \<Longrightarrow> sel_inv (st (setCountryFilter b c w))"
proof (cases "truthy_num c")
  case True
  assume q: "quiescent w"
  from True obtain n where "c = Some n" "n \<noteq> 0" by (cases c) auto
  with q show ?thesis
    by (simp add: setCountryFilter_def loadCities_quiescent Let_def sel_inv_def)
qed (simp add: setCountryFilter_noop)

lemma sel_inv_initialize:
  assumes q: "quiescent w" and inv: "sel_inv (st w)" and ok: "ui_ok Initialize w"
  shows "sel_inv (st (initialize b w))"
proof (cases "initialized (st w)")
  case False
  with ok inv have "selectedCountryId (st w) = None" "cities (st w) = []" "selectedCityId (st w) = None"
    by (simp_all add: sel_inv_def)
  with False q show ?thesis
    by (simp add: initialize_quiescent Let_def sel_inv_def split: list.splits)
qed (simp add: initialize_def inv)

lemma sel_inv_setCityFilter:
  assumes inv: "sel_inv (st w)" and ok: "ui_ok (SetCityFilter c) w"
  shows "sel_inv (st (setCityFilter b c w))"
proof (cases "cities (st w)")
  case Nil
  with ok have "\<not> truthy_num c" by (cases c) auto
  with Nil inv show ?thesis by (simp add: setCityFilter_def sel_inv_def)
next
  case (Cons x xs)
  with inv show ?thesis by (auto simp: setCityFilter_def sel_inv_def js_simps)
qed

lemma sel_inv_resetFilters:
  assumes q: "quiescent w" and inv: "sel_inv (st w)"
  shows "sel_inv (st (resetFilters b w))"
proof (cases "countries (st w)")
  case Nil
  have q': "quiescent (loadCountries b w)" using q by (rule quiescent_loadCountries)
  have inv': "sel_inv (st (loadCountries b w))" using inv by (simp add: sel_inv_def)
  show ?thesis using Nil q' inv'
    by (simp add: resetFilters_def Let_def sel_inv_setCountryFilter split: list.split)
qed (simp add: resetFilters_def sel_inv_setCountryFilter q inv)

lemma sel_inv_es_step:
  "quiescent w \<Longrightarrow> sel_inv (st w) \<Longrightarrow> ui_ok a w \<Longrightarrow> sel_inv (st (es_step b a w))"
  by (cases a) (simp_all add: sel_inv_initialize sel_inv_setCityFilter sel_inv_setCountryFilter
      sel_inv_resetFilters, simp_all add: sel_inv_def)

lemma quiescent_init_world: "quiescent init_world"
  by (simp add: quiescent_def init_world_def init_store_def)

lemma sel_inv_init_world: "sel_inv (st init_world)"
  by (simp add: sel_inv_def init_world_def init_store_def)

lemma find_city_Some:
  "find (\<lambda>c. cityId c = n) cis = Some sc \<Longrightarrow> sc \<in> set cis \<and> cityId sc = n"
  by (auto simp: find_Some_iff)

lemma find_city_exists:
  "n \<in> set (map cityId cis) \<Longrightarrow> \<exists>sc. find (\<lambda>c. cityId c = n) cis = Some sc"
  by (cases "find (\<lambda>c. cityId c = n) cis") (auto simp: find_None_iff)

section \<open>Properties of the selection cascade\<close>

text \<open>C1. \<open>setCountryFilter c\<close> for a truthy id, from a quiescent world: the country is
  selected, the cities are those the backend returns for it, the city is the first one
  whose country reference is \<open>c\<close> (or else the first one, or none when the list is
  empty), the countries are untouched, the events are reloaded when a truthy city was
  picked and cleared otherwise, and the world is quiescent again.\<close>

theorem setCountryFilter_cascade:
  assumes "quiescent w" and "c \<noteq> 0"
  shows "let w' = setCountryFilter b (Some c) w; cis = array_or_empty (cities_api b c) in
     selectedCountryId (st w') = Some c \<and> cities (st w') = cis \<and> countries (st w') = countries (st w)
     \<and> selectedCityId (st w') =
          (case cis of [] \<Rightarrow> None
           | c0 # _ \<Rightarrow> Some (case find (\<lambda>x. city_countryId x = c) cis of Some x \<Rightarrow> cityId x | None \<Rightarrow> cityId c0))
     \<and> events (st w') = (if truthy_num (selectedCityId (st w')) then array_or_empty (events_api b []) else [])
     \<and> quiescent w'"
  using assms quiescent_setCountryFilter[OF assms(1), of b "Some c"]
  by (simp add: setCountryFilter_def loadCities_quiescent Let_def loadEvents_quiescent getCities_def getAllEvents_def
      pick_city_def split: list.splits)

text \<open>C2. In every world reachable by the actions the interface issues, the selection
  invariant holds (a city is selected exactly when a country is selected and its city
  list is non-empty) and the world is quiescent.\<close>

theorem ui_reachable_sel_inv: "ui_reachable b w \<Longrightarrow> sel_inv (st w) \<and> quiescent w"
proof (induction rule: ui_reachable.induct)
  case ui_init
  show ?case by (simp add: quiescent_init_world sel_inv_init_world)
next
  case (ui_step w a)
  then show ?case by (simp add: sel_inv_es_step quiescent_es_step)
qed


text \<open>C4. The requests \<open>setCountryFilter c\<close> sends, in order: the cities of \<open>c\<close>,
  then all events if and only if a truthy city was picked.\<close>

theorem setCountryFilter_requests:
  assumes "quiescent w" and "c \<noteq> 0"
  shows "sent (setCountryFilter b (Some c) w) =
           sent w @ [get_req CITIES [(''countryId'', c)]]
           @ (if truthy_num (selectedCityId (st (setCountryFilter b (Some c) w))) then [get_req EVENTS []] else [])"
  using assms
  by (simp add: setCountryFilter_def loadCities_quiescent Let_def loadEvents_quiescent getCities_def getAllEvents_def
      split: list.splits)

text \<open>C5. Every run of actions from a quiescent world ends quiescent: the loading flag
  is cleared and no loading timer is pending, so no timeout callback fires afterwards.\<close>

theorem quiescent_es_run_no_timeout:
  assumes "quiescent w"
  shows "quiescent (es_run b as w) \<and> (\<forall>t. es_step b (TimerFires t) (es_run b as w) = es_run b as w)"
proof -
  have "quiescent (es_run b as w)"
    using assms by (induction as arbitrary: w) (simp_all add: quiescent_es_step)
  then show ?thesis by (simp add: fire_timer_quiescent)
qed


text \<open>C7. Every event \<open>filteredEvents\<close> shows is a loaded event that refers to the
  selected city (a truthy id among the loaded cities) by its id or, as a string, by its
  name.\<close>

theorem filteredEvents_sound:
  assumes "e \<in> set (filteredEvents s)"
  shows "e \<in> set (events s) \<and> (\<exists>sc \<in> set (cities s). selectedCityId s = Some (cityId sc) \<and> cityId sc \<noteq> 0 \<and>
           (ev_cityId e = JNum (cityId sc) \<or> ev_city e = JStr (city_name sc) \<or> ev_cityName e = JStr (city_name sc)))"
proof -
  from assms have "filteredEvents s \<noteq> []" by auto
  then obtain n where sel: "selectedCityId s = Some n" "n \<noteq> 0"
    by (auto simp: filteredEvents_def split: option.splits if_splits)
  obtain sc where f: "find (\<lambda>c. cityId c = n) (cities s) = Some sc"
    and e: "e \<in> set (filter (event_matches n sc) (events s))"
  proof (cases "find (\<lambda>c. cityId c = n) (cities s)")
    case None
    with assms sel show ?thesis by (simp add: filteredEvents_def)
  next
    case (Some sc)
    with assms sel show ?thesis by (intro that) (auto simp: filteredEvents_def)
  qed
  from find_city_Some[OF f] have "sc \<in> set (cities s)" "cityId sc = n" by simp_all
  with sel e show ?thesis by (auto simp: event_matches_def)
qed

text \<open>C8. A loaded event whose \<open>cityId\<close> is the selected city's truthy id is shown,
  provided that city is among the loaded cities.\<close>

theorem filteredEvents_by_id:
  assumes "selectedCityId s = Some n" and "n \<noteq> 0" and "n \<in> set (map cityId (cities s))"
    and "e \<in> set (events s)" and "ev_cityId e = JNum n"
  shows "e \<in> set (filteredEvents s)"
proof -
  obtain sc where "find (\<lambda>c. cityId c = n) (cities s) = Some sc"
    using find_city_exists[OF assms(3)] by blast
  with assms show ?thesis by (simp add: filteredEvents_def event_matches_def)
qed



text \<open>\<open>setCityFilter null\<close> with cities loaded selects the first city.\<close>

theorem setCityFilter_null_fallback:
  assumes "cities (st w) = c0 # cs"
  shows "selectedCityId (st (setCityFilter b None w)) = Some (cityId c0)"
  using assms by (simp add: setCityFilter_def)

text \<open>C12. \<open>loadEvents\<close> contacts the backend exactly when a truthy city id is selected.\<close>

theorem loadEvents_contacts_backend_iff:
  "sent (loadEvents b w) = sent w \<longleftrightarrow> \<not> truthy_num (selectedCityId (st w))"
  by (simp add: loadEvents_def send_def Let_def split: prod.splits)

text \<open>C13. \<open>setCountryFilter\<close> with \<open>null\<close> or with the id \<open>0\<close> changes nothing.\<close>

theorem setCountryFilter_zero_noop: "setCountryFilter b None w = w \<and> setCountryFilter b (Some 0) w = w"
  by (simp add: setCountryFilter_def)

section \<open>Witnesses\<close>

theorem setCountryFilter_cascade_witness:
  "quiescent init_world \<and> (2::int) \<noteq> 0
   \<and> selectedCityId (st (setCountryFilter demo_backend (Some 2) init_world)) = Some 5"
proof -
  have q: "quiescent init_world" by (rule quiescent_init_world)
  from setCountryFilter_cascade[OF q, of 2 demo_backend]
  have "selectedCityId (st (setCountryFilter demo_backend (Some 2) init_world)) = Some 5"
    by (simp add: Let_def demo_backend_def fixture_backend_def)
  with q show ?thesis by simp
qed

theorem ui_reachable_sel_inv_witness:
  "ui_reachable demo_backend (es_step demo_backend Initialize init_world)
   \<and> sel_inv (st (es_step demo_backend Initialize init_world))"
proof -
  have r: "ui_reachable demo_backend (es_step demo_backend Initialize init_world)"
    by (rule ui_step[OF ui_init]) (simp add: init_world_def init_store_def)
  from r ui_reachable_sel_inv[OF r] show ?thesis by simp
qed

theorem setCountryFilter_requests_witness:
  "quiescent init_world \<and> (2::int) \<noteq> 0
   \<and> sent (setCountryFilter demo_backend (Some 2) init_world) =
       [get_req CITIES [(''countryId'', 2)], get_req EVENTS []]"
proof -
  have q: "quiescent init_world" by (rule quiescent_init_world)
  have sel: "selectedCityId (st (setCountryFilter demo_backend (Some 2) init_world)) = Some 5"
    by code_simp
  from setCountryFilter_requests[OF q, of 2 demo_backend] sel q show ?thesis
    by (simp add: init_world_def)
qed

theorem quiescent_es_run_no_timeout_witness:
  "quiescent init_world
   \<and> es_step demo_backend (TimerFires 1) (es_run demo_backend [Initialize, ResetFilters] init_world)
       = es_run demo_backend [Initialize, ResetFilters] init_world"
  using quiescent_es_run_no_timeout[OF quiescent_init_world, of demo_backend "[Initialize, ResetFilters]"]
    quiescent_init_world
  by blast


theorem filteredEvents_sound_witness:
  "gala \<in> set (filteredEvents paris_store)
   \<and> (\<exists>sc \<in> set (cities paris_store). selectedCityId paris_store = Some (cityId sc) \<and> cityId sc \<noteq> 0)"
proof -
  have m: "gala \<in> set (filteredEvents paris_store)"
    by (simp add: filteredEvents_def event_matches_def paris_store_def paris_def gala_def init_store_def)
  from filteredEvents_sound[OF m] m show ?thesis by blast
qed

theorem filteredEvents_by_id_witness:
  "selectedCityId paris_store = Some 5 \<and> (5::int) \<noteq> 0 \<and> 5 \<in> set (map cityId (cities paris_store))
   \<and> gala \<in> set (events paris_store) \<and> ev_cityId gala = JNum 5
   \<and> gala \<in> set (filteredEvents paris_store)"
proof -
  have h: "selectedCityId paris_store = Some 5" "(5::int) \<noteq> 0" "5 \<in> set (map cityId (cities paris_store))"
    "gala \<in> set (events paris_store)" "ev_cityId gala = JNum 5"
    by (simp_all add: paris_store_def paris_def gala_def init_store_def)
  from filteredEvents_by_id[OF h] h show ?thesis by simp
qed

theorem setCityFilter_null_fallback_witness:
  "cities (st (init_world\<lparr>st := paris_store\<rparr>)) = paris # []
   \<and> selectedCityId (st (setCityFilter demo_backend None (init_world\<lparr>st := paris_store\<rparr>))) = Some 5"
proof -
  have h: "cities (st (init_world\<lparr>st := paris_store\<rparr>)) = paris # []"
    by (simp add: paris_store_def init_store_def)
  from setCityFilter_null_fallback[OF h, of demo_backend] h show ?thesis by (simp add: paris_def)
qed

end
