(* ===== verification/EventStoreAsync.thy ===== *)
theory EventStoreAsync
  imports EventStore
begin

text \<open>
  The event store's actions as the browser runs them: an \<open>async\<close> action runs
  synchronously up to its first network \<open>await\<close>, sends the request and suspends; the
  rest of its body runs when the response arrives, on the store as it is then.  Other
  actions, other responses and the loading timer may run in between.  An action
  suspended at an \<open>await\<close> is a \<open>thread\<close>: \<open>Wait k\<close> resumes with the continuation
  \<open>k\<close> on the current world.  Actions are written in continuation-passing style
  (\<open>kont \<Rightarrow> kont\<close>): the continuation is what the caller does after an
  \<open>await this.loadCities(...)\<close>.  The async state \<open>as_state\<close> is the world and the pool
  of in-flight continuations; \<open>as_step\<close> lets the user or the timer start an action
  (\<open>Act\<close>) or a response arrive (\<open>Respond i\<close>, the \<open>i\<close>-th in-flight request).
  The chain of microtasks between two network responses runs without interruption.
\<close>

section \<open>Threads\<close>

datatype thread = Fin | Wait "es_world \<Rightarrow> es_world \<times> thread"

type_synonym kont = "es_world \<Rightarrow> es_world \<times> thread"

text \<open>Running a thread to its end, each awaited response arriving at once; and the
  number of responses it waits for on the way.\<close>

primrec settle :: "thread \<Rightarrow> es_world \<Rightarrow> es_world" where
  "settle Fin = (\<lambda>w. w)"
| "settle (Wait k) = (\<lambda>w. case map_prod id settle (k w) of (w', f) \<Rightarrow> f w')"

primrec nwait :: "thread \<Rightarrow> es_world \<Rightarrow> nat" where
  "nwait Fin = (\<lambda>w. 0)"
| "nwait (Wait k) = (\<lambda>w. Suc (case map_prod id nwait (k w) of (w', f) \<Rightarrow> f w'))"

definition run_k :: "kont \<Rightarrow> es_world \<Rightarrow> es_world" where
  "run_k k w = (case k w of (w', th) \<Rightarrow> settle th w')"

definition done_k :: kont where
  "done_k w = (w, Fin)"

text \<open>\<open>await service(...)\<close>: the request goes out now, the continuation waits.\<close>

definition await_req :: "request \<Rightarrow> kont \<Rightarrow> kont" where
  "await_req r k w = (send r w, Wait k)"

section \<open>Actions, split at their awaits\<close>

definition loadEvents_a :: "backend \<Rightarrow> kont \<Rightarrow> kont" where
  "loadEvents_a b k w =
     (if \<not> truthy_num (selectedCityId (st w))
      then k (w\<lparr>st := (st w)\<lparr>events := [], error := Some ''Please select a city to view events''\<rparr>\<rparr>)
      else
        let (evs, r) = getAllEvents b []
        in await_req r (\<lambda>w2. k (stopLoading (w2\<lparr>st := (st w2)\<lparr>events := evs,
                                error := (if evs = [] then Some ''No events found'' else None)\<rparr>\<rparr>)))
             (startLoading w))"

definition loadCountries_a :: "backend \<Rightarrow> kont \<Rightarrow> kont" where
  "loadCountries_a b k w =
     (let (cs, r) = getCountries b
      in await_req r (\<lambda>w2. let w3 = w2\<lparr>st := (st w2)\<lparr>countries := cs\<rparr>\<rparr>
                           in k (stopLoading (if cs = [] then w3\<lparr>st := (st w3)\<lparr>error := Some ''No countries available''\<rparr>\<rparr>
                                              else w3)))
           (startLoading w))"

definition loadCities_a :: "backend \<Rightarrow> int \<Rightarrow> kont \<Rightarrow> kont" where
  "loadCities_a b cid k w =
     (let (cis, r) = getCities b cid
      in await_req r (\<lambda>w2. let w3 = w2\<lparr>st := (st w2)\<lparr>cities := cis\<rparr>\<rparr>
                           in k (stopLoading (if cis = []
                                              then w3\<lparr>st := (st w3)\<lparr>error := Some ''No cities available for the selected country''\<rparr>\<rparr>
                                              else w3)))
           (startLoading w))"

definition initialize_a :: "backend \<Rightarrow> kont \<Rightarrow> kont" where
  "initialize_a b k w =
     (if initialized (st w) then k w
      else
        let (cs, r1) = getCountries b
        in await_req r1
             (\<lambda>w2. let w3 = w2\<lparr>st := (st w2)\<lparr>countries := cs\<rparr>\<rparr> in
                (case cs of
                   [] \<Rightarrow> k (stopLoading (w3\<lparr>st := (st w3)\<lparr>error := Some ''No countries available''\<rparr>\<rparr>))
                 | c # _ \<Rightarrow>
                     let w4 = w3\<lparr>st := (st w3)\<lparr>selectedCountryId := Some (countryId c)\<rparr>\<rparr>;
                         (cis, r2) = getCities b (countryId c)
                     in await_req r2
                          (\<lambda>w5. let w6 = w5\<lparr>st := (st w5)\<lparr>cities := cis\<rparr>\<rparr> in
                             (case cis of
                                [] \<Rightarrow> k (stopLoading (w6\<lparr>st := (st w6)\<lparr>error := Some ''No cities available for the selected country''\<rparr>\<rparr>))
                              | ci # _ \<Rightarrow>
                                  loadEvents_a b (\<lambda>w7. k (stopLoading w7))
                                    (w6\<lparr>st := (st w6)\<lparr>selectedCityId := Some (cityId ci), initialized := True\<rparr>\<rparr>)))
                          w4))
             (startLoading w))"

definition setCountryFilter_a :: "backend \<Rightarrow> int option \<Rightarrow> kont \<Rightarrow> kont" where
  "setCountryFilter_a b cid k w =
     (case cid of
        None \<Rightarrow> k w
      | Some c \<Rightarrow>
          if c = 0 then k w
          else
            loadCities_a b c
              (\<lambda>w2. if cities (st w2) \<noteq> []
                    then loadEvents_a b k (w2\<lparr>st := (st w2)\<lparr>selectedCityId := pick_city c (cities (st w2))\<rparr>\<rparr>)
                    else k (w2\<lparr>st := (st w2)\<lparr>selectedCityId := None\<rparr>\<rparr>))
              (w\<lparr>st := (st w)\<lparr>selectedCountryId := Some c, events := []\<rparr>\<rparr>))"

definition setCityFilter_a :: "backend \<Rightarrow> int option \<Rightarrow> kont \<Rightarrow> kont" where
  "setCityFilter_a b cid k w =
     loadEvents_a b k
       (if \<not> truthy_num cid \<and> cities (st w) \<noteq> []
        then w\<lparr>st := (st w)\<lparr>selectedCityId := Some (cityId (hd (cities (st w))))\<rparr>\<rparr>
        else if truthy_num cid then w\<lparr>st := (st w)\<lparr>selectedCityId := cid\<rparr>\<rparr>
        else w)"

definition resetFilters_a :: "backend \<Rightarrow> kont \<Rightarrow> kont" where
  "resetFilters_a b k w =
     (case countries (st w) of
        c # _ \<Rightarrow> setCountryFilter_a b (Some (countryId c)) k w
      | [] \<Rightarrow>
          loadCountries_a b
            (\<lambda>w1. case countries (st w1) of
                    c # _ \<Rightarrow> setCountryFilter_a b (Some (countryId c)) k w1
                  | [] \<Rightarrow> k w1)
            w)"

fun act_a :: "backend \<Rightarrow> es_action \<Rightarrow> kont \<Rightarrow> kont" where
  "act_a b Initialize = initialize_a b"
| "act_a b LoadEvents = loadEvents_a b"
| "act_a b LoadCountries = loadCountries_a b"
| "act_a b (LoadCities c) = loadCities_a b c"
| "act_a b (SetCountryFilter c) = setCountryFilter_a b c"
| "act_a b (SetCityFilter c) = setCityFilter_a b c"
| "act_a b ResetFilters = resetFilters_a b"
| "act_a b (TimerFires t) = (\<lambda>k w. k (fire_timer t w))"

section \<open>Interleaved runs\<close>

record as_state =
  aw :: es_world
  pool :: "kont list"

definition as_init :: as_state where
  "as_init = \<lparr>aw = init_world, pool = []\<rparr>"

datatype as_event = Act es_action | Respond nat

fun enq :: "thread \<Rightarrow> kont list \<Rightarrow> kont list" where
  "enq Fin p = p"
| "enq (Wait k) p = p @ [k]"

text \<open>A response resumes its continuation in place; a finished action leaves the pool.\<close>

fun resume :: "nat \<Rightarrow> thread \<Rightarrow> kont list \<Rightarrow> kont list" where
  "resume i Fin p = take i p @ drop (Suc i) p"
| "resume i (Wait k) p = p[i := k]"

fun as_step :: "backend \<Rightarrow> as_event \<Rightarrow> as_state \<Rightarrow> as_state" where
  "as_step b (Act a) s = (case act_a b a done_k (aw s) of (w, th) \<Rightarrow> \<lparr>aw = w, pool = enq th (pool s)\<rparr>)"
| "as_step b (Respond i) s =
     (if i < length (pool s)
      then (case (pool s ! i) (aw s) of (w, th) \<Rightarrow> \<lparr>aw = w, pool = resume i th (pool s)\<rparr>)
      else s)"

fun as_run :: "backend \<Rightarrow> as_event list \<Rightarrow> as_state \<Rightarrow> as_state" where
  "as_run b [] s = s"
| "as_run b (e # es) s = as_run b es (as_step b e s)"

text \<open>The schedule of the sequential model: each action starts when the previous one has
  finished, and its responses arrive one after the other.\<close>

fun seq_sched :: "backend \<Rightarrow> es_action list \<Rightarrow> es_world \<Rightarrow> as_event list" where
  "seq_sched b [] w = []"
| "seq_sched b (a # as) w =
     (case act_a b a done_k w of (w', th) \<Rightarrow>
        Act a # replicate (nwait th w') (Respond 0) @ seq_sched b as (es_step b a w))"

section \<open>Concrete data for the witnesses\<close>

text \<open>Two countries with one city each, and no events.\<close>

definition lyon :: city where
  "lyon = \<lparr>cityId = 7, city_name = ''Lyon'', flags = 0, city_countryId = 1\<rparr>"

definition two_country_backend :: backend where
  "two_country_backend = fixture_backend [\<lparr>countryId = 1, country_name = ''A''\<rparr>, \<lparr>countryId = 2, country_name = ''B''\<rparr>]
     (\<lambda>c. if c = 1 then [lyon] else [paris]) []"

definition paris_world :: es_world where
  "paris_world = init_world\<lparr>st := paris_store\<rparr>"

section \<open>Refinement of the sequential model\<close>

lemma settle_map_prod [simp]:
  "(case map_prod id settle p of (w', f) \<Rightarrow> f w') = (case p of (w', th) \<Rightarrow> settle th w')"
  by (cases p) simp

lemma run_k_done [simp]: "run_k done_k w = w"
  by (simp add: run_k_def done_k_def)

lemma run_k_await [simp]: "run_k (await_req r k) w = run_k k (send r w)"
  by (simp add: run_k_def await_req_def split: prod.splits)

lemma run_k_loadEvents: "run_k (loadEvents_a b k) w = run_k k (loadEvents b w)"
  by (simp add: loadEvents_a_def loadEvents_def run_k_def await_req_def split: prod.splits)

lemma run_k_loadCountries: "run_k (loadCountries_a b k) w = run_k k (loadCountries b w)"
  by (simp add: loadCountries_a_def loadCountries_def run_k_def await_req_def Let_def split: prod.splits)

lemma run_k_loadCities: "run_k (loadCities_a b c k) w = run_k k (loadCities b c w)"
  by (simp add: loadCities_a_def loadCities_def run_k_def await_req_def Let_def split: prod.splits)

lemma settle_loadEvents [simp]:
  "(case loadEvents_a b k w of (w', th) \<Rightarrow> settle th w') = run_k k (loadEvents b w)"
  using run_k_loadEvents[of b k w] by (simp add: run_k_def)

lemma settle_loadCities [simp]:
  "(case loadCities_a b c k w of (w', th) \<Rightarrow> settle th w') = run_k k (loadCities b c w)"
  using run_k_loadCities[of b c k w] by (simp add: run_k_def)

lemma settle_loadCountries [simp]:
  "(case loadCountries_a b k w of (w', th) \<Rightarrow> settle th w') = run_k k (loadCountries b w)"
  using run_k_loadCountries[of b k w] by (simp add: run_k_def)

lemma run_k_initialize: "run_k (initialize_a b k) w = run_k k (initialize b w)"
proof (cases "initialized (st w)")
  case False
  obtain cs r1 where g1: "getCountries b = (cs, r1)" by (cases "getCountries b")
  obtain cis r2 where g2: "getCities b (countryId (hd cs)) = (cis, r2)" by (cases "getCities b (countryId (hd cs))")
  show ?thesis
  proof (cases cs)
    case Nil
    with False g1 show ?thesis
      by (simp add: initialize_a_def initialize_def run_k_def await_req_def Let_def)
  next
    case (Cons c rest)
    with False g1 g2 show ?thesis
      by (cases cis) (simp_all add: initialize_a_def initialize_def run_k_def await_req_def Let_def)
  qed
qed (simp add: initialize_a_def initialize_def run_k_def)

lemma run_k_setCountryFilter: "run_k (setCountryFilter_a b c k) w = run_k k (setCountryFilter b c w)"
  by (simp add: setCountryFilter_a_def setCountryFilter_def run_k_def Let_def split: option.splits)

lemma settle_setCountryFilter [simp]:
  "(case setCountryFilter_a b c k w of (w', th) \<Rightarrow> settle th w') = run_k k (setCountryFilter b c w)"
  using run_k_setCountryFilter[of b c k w] by (simp add: run_k_def)

lemma run_k_setCityFilter: "run_k (setCityFilter_a b c k) w = run_k k (setCityFilter b c w)"
  by (simp add: setCityFilter_a_def setCityFilter_def run_k_def Let_def)

lemma run_k_resetFilters: "run_k (resetFilters_a b k) w = run_k k (resetFilters b w)"
  by (simp add: resetFilters_a_def resetFilters_def run_k_def Let_def split: list.splits)

lemma run_k_act: "run_k (act_a b a done_k) w = es_step b a w"
  by (cases a) (simp_all add: run_k_initialize run_k_loadEvents run_k_loadCountries run_k_loadCities
      run_k_setCountryFilter run_k_setCityFilter run_k_resetFilters, simp add: run_k_def done_k_def)

lemma as_run_append: "as_run b (xs @ ys) s = as_run b ys (as_run b xs s)"
  by (induction xs arbitrary: s) simp_all

lemma resume_single: "resume 0 th [k] = enq th []"
  by (cases th) simp_all

lemma as_run_settle:
  "as_run b (replicate (nwait th w) (Respond 0)) \<lparr>aw = w, pool = enq th []\<rparr> = \<lparr>aw = settle th w, pool = []\<rparr>"
proof (induction th arbitrary: w)
  case Fin
  show ?case by simp
next
  case (Wait k)
  obtain w' th' where kw: "k w = (w', th')" by (cases "k w")
  have "th' \<in> Basic_BNFs.snds (k w)" by (simp add: kw prod_set_simps)
  then have ih: "as_run b (replicate (nwait th' w') (Respond 0)) \<lparr>aw = w', pool = enq th' []\<rparr> = \<lparr>aw = settle th' w', pool = []\<rparr>"
    using Wait by blast
  show ?case using ih kw by (simp add: resume_single)
qed

lemma as_step_act_settle:
  assumes "pool s = []" and "act_a b a done_k (aw s) = (w', th)"
  shows "as_run b (replicate (nwait th w') (Respond 0)) (as_step b (Act a) s) = \<lparr>aw = es_step b a (aw s), pool = []\<rparr>"
  using assms as_run_settle[of b th w'] run_k_act[of b a "aw s"] by (simp add: run_k_def)

lemma startLoading_armed:
  "loadingTimeout (st w) = Some t \<Longrightarrow> 0 < t \<Longrightarrow> timers w = [t] \<Longrightarrow>
   startLoading w = w\<lparr>timers := [next_timer w], next_timer := Suc (next_timer w),
     st := (st w)\<lparr>loading := True, error := None, loadingTimeout := Some (next_timer w)\<rparr>\<rparr>"
  by (simp add: startLoading_def clear_pending_def clearTimeout_def Let_def)

lemma startLoading_idle:
  "loadingTimeout (st w) = None \<Longrightarrow>
   startLoading w = w\<lparr>timers := timers w @ [next_timer w], next_timer := Suc (next_timer w),
     st := (st w)\<lparr>loading := True, error := None, loadingTimeout := Some (next_timer w)\<rparr>\<rparr>"
  by (simp add: startLoading_def clear_pending_def Let_def)


section \<open>Interleavings\<close>

text \<open>C33. The loading guard under a response that comes late: the timer fires while
  \<open>loadEvents\<close> waits, clearing \<open>loading\<close> and reporting the timeout once; when the
  response then arrives, the events are stored, the timeout message is replaced by the
  load's own result (\<open>null\<close> when events came back) and the world is quiescent again.\<close>

theorem timeout_then_late_response:
  assumes q: "quiescent w" and c: "truthy_num (selectedCityId (st w))"
  shows "let s1 = as_step b (Act LoadEvents) \<lparr>aw = w, pool = []\<rparr>;
             s2 = as_step b (Act (TimerFires (next_timer w))) s1;
             s3 = as_step b (Respond 0) s2;
             evs = array_or_empty (events_api b []) in
         loading (st (aw s1)) \<and> timers (aw s1) = [next_timer w] \<and> length (pool s1) = 1
         \<and> \<not> loading (st (aw s2)) \<and> error (st (aw s2)) = Some ''Request timed out. Please try again.''
         \<and> timers (aw s2) = [] \<and> length (pool s2) = 1
         \<and> pool s3 = [] \<and> \<not> loading (st (aw s3)) \<and> events (st (aw s3)) = evs
         \<and> error (st (aw s3)) = (if evs = [] then Some ''No events found'' else None) \<and> quiescent (aw s3)"
  using q c
  by (simp add: loadEvents_a_def await_req_def startLoading_quiescent getAllEvents_def send_def done_k_def
      fire_timer_def timeout_callback_def stopLoading_def clearTimeout_def quiescent_def Let_def)

text \<open>C34. Two loads in flight share one guard: \<open>loadEvents\<close> started while
  \<open>loadCities\<close> waits clears the cities timer and arms its own; when the cities response
  arrives, its \<open>stopLoading\<close> clears the events timer and \<open>loading\<close>, while the events
  request is still in flight, so no timeout can fire for it any more.\<close>

theorem concurrent_loads_drop_guard:
  assumes q: "quiescent w" and c: "truthy_num (selectedCityId (st w))"
  shows "let s = as_run b [Act (LoadCities n), Act LoadEvents, Respond 0] \<lparr>aw = w, pool = []\<rparr> in
         length (pool s) = 1 \<and> \<not> loading (st (aw s)) \<and> timers (aw s) = [] \<and> loadingTimeout (st (aw s)) = None
         \<and> (\<forall>t. aw (as_step b (Act (TimerFires t)) s) = aw s)"
proof -
  have q': "timers w = [] \<and> \<not> loading (st w) \<and> loadingTimeout (st w) = None \<and> 0 < next_timer w"
    using q by (simp add: quiescent_def)
  show ?thesis
    using q' c
    by (simp add: loadEvents_a_def loadCities_a_def await_req_def startLoading_quiescent[OF q] startLoading_armed
        getAllEvents_def getCities_def send_def done_k_def fire_timer_def stopLoading_armed Let_def)
qed

text \<open>C35. Two country selections in flight: the last response wins, not the last
  request.  When the cities of the first country arrive after those of the second, the
  store shows the second country selected with the first country's cities and city.\<close>

theorem last_response_wins:
  assumes q: "quiescent w" and "c1 \<noteq> 0" and "c2 \<noteq> 0" and ne: "array_or_empty (cities_api b c1) \<noteq> []"
  shows "let s = as_run b [Act (SetCountryFilter (Some c1)), Act (SetCountryFilter (Some c2)), Respond 1, Respond 0]
                   \<lparr>aw = w, pool = []\<rparr>;
             cis1 = array_or_empty (cities_api b c1) in
         selectedCountryId (st (aw s)) = Some c2 \<and> cities (st (aw s)) = cis1
         \<and> selectedCityId (st (aw s)) = pick_city c1 cis1"
proof -
  have q': "timers w = [] \<and> \<not> loading (st w) \<and> loadingTimeout (st w) = None \<and> 0 < next_timer w"
    using q by (simp add: quiescent_def)
  show ?thesis
    using q' assms(2,3) ne
    by (simp add: setCountryFilter_a_def loadEvents_a_def loadCities_a_def await_req_def startLoading_quiescent[OF q]
        startLoading_armed startLoading_idle getAllEvents_def getCities_def send_def done_k_def stopLoading_armed
        stopLoading_idle Let_def)
qed

section \<open>Witnesses\<close>


theorem timeout_then_late_response_witness:
  "quiescent paris_world \<and> truthy_num (selectedCityId (st paris_world)) \<and>
   error (st (aw (as_step demo_backend (Act (TimerFires 1)) (as_step demo_backend (Act LoadEvents) \<lparr>aw = paris_world, pool = []\<rparr>))))
     = Some ''Request timed out. Please try again.''"
proof -
  have h: "quiescent paris_world" "truthy_num (selectedCityId (st paris_world))"
    by (simp_all add: quiescent_def paris_world_def init_world_def paris_store_def init_store_def)
  have n: "next_timer paris_world = 1" by (simp add: paris_world_def init_world_def)
  from timeout_then_late_response[OF h, of demo_backend] h n show ?thesis by (simp add: Let_def)
qed

theorem concurrent_loads_drop_guard_witness:
  "quiescent paris_world \<and> truthy_num (selectedCityId (st paris_world)) \<and>
   timers (aw (as_run demo_backend [Act (LoadCities 2), Act LoadEvents, Respond 0] \<lparr>aw = paris_world, pool = []\<rparr>)) = []"
proof -
  have h: "quiescent paris_world" "truthy_num (selectedCityId (st paris_world))"
    by (simp_all add: quiescent_def paris_world_def init_world_def paris_store_def init_store_def)
  from concurrent_loads_drop_guard[OF h, where n = 2 and b = demo_backend] h show ?thesis by (simp add: Let_def)
qed

theorem last_response_wins_witness:
  "let s = as_run two_country_backend
             [Act (SetCountryFilter (Some 1)), Act (SetCountryFilter (Some 2)), Respond 1, Respond 0]
             \<lparr>aw = init_world, pool = []\<rparr> in
   selectedCountryId (st (aw s)) = Some 2 \<and> cities (st (aw s)) = [lyon] \<and> selectedCityId (st (aw s)) = Some 7"
proof -
  have h: "quiescent init_world" "(1::int) \<noteq> 0" "(2::int) \<noteq> 0"
    "array_or_empty (cities_api two_country_backend 1) \<noteq> []"
    by (simp_all add: quiescent_def init_world_def init_store_def two_country_backend_def fixture_backend_def)
  have c: "array_or_empty (cities_api two_country_backend 1) = [lyon]"
    by (simp add: two_country_backend_def fixture_backend_def)
  have p: "pick_city 1 [lyon] = Some 7" by (simp add: pick_city_def lyon_def)
  from last_response_wins[OF h] c p show ?thesis by (simp add: Let_def)
qed

end
