(* ===== verification/AsyncInvariants.thy ===== *)
theory AsyncInvariants
  imports EventStoreAsync
begin

text \<open>
  Invariants of the interleaved runs of \<open>EventStoreAsync\<close>.  A continuation in flight
  is an arbitrary function in the pool, so an invariant of the world is carried by a
  predicate on threads: \<open>good P th\<close> says that each resumption of \<open>th\<close> keeps \<open>P\<close>.
  Every action, composed in continuation-passing style, keeps every timer invariant
  (\<open>kgood_act\<close>), so \<open>P\<close> holds after every schedule.  Two timer invariants are used: \<open>tinv\<close>
  (at most one pending loading timer, the one \<open>loadingTimeout\<close> records) and
  \<open>timer_retired t\<close> (timer \<open>t\<close> has fired or been cleared and its id will not be reused).
\<close>

section \<open>Predicates\<close>

text \<open>A predicate on worlds is a timer invariant when the host operations and the
  store writes that leave \<open>loadingTimeout\<close> alone preserve it; a thread keeps it when
  every resumption from a world satisfying it ends in such a world, and so on for the
  rest of the thread.\<close>

definition timer_inv :: "(es_world \<Rightarrow> bool) \<Rightarrow> bool" where
  "timer_inv P \<longleftrightarrow>
     (\<forall>w. P w \<longrightarrow> P (startLoading w)) \<and> (\<forall>w. P w \<longrightarrow> P (stopLoading w))
     \<and> (\<forall>w r. P w \<longrightarrow> P (send r w)) \<and> (\<forall>w t. P w \<longrightarrow> P (fire_timer t w))
     \<and> (\<forall>w s. P w \<longrightarrow> loadingTimeout s = loadingTimeout (st w) \<longrightarrow> P (w\<lparr>st := s\<rparr>))"

primrec good :: "(es_world \<Rightarrow> bool) \<Rightarrow> thread \<Rightarrow> bool" where
  "good P Fin = True"
| "good P (Wait k) = (\<forall>w. case map_prod id (good P) (k w) of (w', g) \<Rightarrow> (P w \<longrightarrow> P w') \<and> g)"

definition kgood :: "(es_world \<Rightarrow> bool) \<Rightarrow> kont \<Rightarrow> bool" where
  "kgood P k \<longleftrightarrow> (\<forall>w. (P w \<longrightarrow> P (fst (k w))) \<and> good P (snd (k w)))"

text \<open>The continuations in flight keep every timer invariant.\<close>

definition pool_ok :: "as_state \<Rightarrow> bool" where
  "pool_ok s \<longleftrightarrow> (\<forall>P. timer_inv P \<longrightarrow> (\<forall>k\<in>set (pool s). kgood P k))"

text \<open>The loading guard's timers: at most one pending timer, the one \<open>loadingTimeout\<close>
  records, and every recorded id positive and already handed out.\<close>

definition tinv :: "es_world \<Rightarrow> bool" where
  "tinv w \<longleftrightarrow> length (timers w) \<le> 1 \<and> (\<forall>t\<in>set (timers w). loadingTimeout (st w) = Some t)
     \<and> (\<forall>t\<in>set_option (loadingTimeout (st w)). 0 < t \<and> t < next_timer w) \<and> 0 < next_timer w"

text \<open>A timer id that has been handed out and is no longer pending.\<close>

definition timer_retired :: "nat \<Rightarrow> es_world \<Rightarrow> bool" where
  "timer_retired t w \<longleftrightarrow> t < next_timer w \<and> t \<notin> set (timers w)"

text \<open>A thread finishes after at most \<open>n\<close> more responses, whatever the world is when
  each of them arrives.\<close>

primrec within :: "thread \<Rightarrow> nat \<Rightarrow> bool" where
  "within Fin = (\<lambda>n. True)"
| "within (Wait k) = (\<lambda>n. 0 < n \<and> (\<forall>w. case map_prod id within (k w) of (w', f) \<Rightarrow> f (n - 1)))"

definition kwithin :: "nat \<Rightarrow> kont \<Rightarrow> bool" where
  "kwithin n k \<longleftrightarrow> (\<forall>w. within (snd (k w)) n)"

definition pool_within :: "as_state \<Rightarrow> bool" where
  "pool_within s \<longleftrightarrow> (\<forall>k\<in>set (pool s). kwithin 2 k)"

text \<open>Running a thread: each of its pending requests is answered in turn, and before each
  response the rest of the program (other actions, timers, other responses) may change the
  world as \<open>env\<close> says.  The fuel is the number of responses granted.\<close>

primrec drive :: "nat \<Rightarrow> (nat \<Rightarrow> es_world \<Rightarrow> es_world) \<Rightarrow> thread \<Rightarrow> es_world \<Rightarrow> es_world \<times> thread" where
  "drive 0 env th w = (w, th)"
| "drive (Suc n) env th w =
     (case th of Fin \<Rightarrow> (w, Fin) | Wait k \<Rightarrow> (case k (env n w) of (w', th') \<Rightarrow> drive n env th' w'))"

section \<open>Lemmas\<close>

lemma case_map_prod_snd [simp]:
  "(case map_prod id g p of (w', x) \<Rightarrow> Q w' x) = Q (fst p) (g (snd p))"
  by (cases p) simp

lemma good_Wait [simp]: "good P (Wait k) = kgood P k"
  by (simp add: kgood_def)

declare good.simps(2) [simp del]

lemma kgood_done [simp]: "kgood P done_k"
  by (simp add: kgood_def done_k_def)

lemma timer_invD:
  assumes "timer_inv P" and "P w"
  shows "P (startLoading w)" "P (stopLoading w)" "P (send r w)" "P (fire_timer t w)"
    "loadingTimeout s = loadingTimeout (st w) \<Longrightarrow> P (w\<lparr>st := s\<rparr>)"
  using assms by (simp_all add: timer_inv_def)

lemma kgoodD:
  assumes "kgood P k"
  shows "P w \<Longrightarrow> P (fst (k w))" and "good P (snd (k w))"
  using assms by (simp_all add: kgood_def)

lemma kgood_loadEvents:
  assumes P: "timer_inv P" and k: "kgood P k"
  shows "kgood P (loadEvents_a b k)"
  by (simp add: kgood_def loadEvents_a_def await_req_def timer_invD[OF P] kgoodD[OF k] split: prod.splits)

lemma kgood_loadCities:
  assumes P: "timer_inv P" and k: "kgood P k"
  shows "kgood P (loadCities_a b c k)"
  by (simp add: kgood_def loadCities_a_def await_req_def timer_invD[OF P] kgoodD[OF k] Let_def split: prod.splits)

lemma kgood_loadCountries:
  assumes P: "timer_inv P" and k: "kgood P k"
  shows "kgood P (loadCountries_a b k)"
  by (simp add: kgood_def loadCountries_a_def await_req_def timer_invD[OF P] kgoodD[OF k] Let_def split: prod.splits)

lemma kgood_initialize:
  assumes P: "timer_inv P" and k: "kgood P k"
  shows "kgood P (initialize_a b k)"
proof -
  have k7: "kgood P (\<lambda>w7. k (stopLoading w7))"
    by (simp add: kgood_def timer_invD[OF P] kgoodD[OF k])
  note ev = kgoodD[OF kgood_loadEvents[OF P k7]]
  show ?thesis
    by (simp add: kgood_def initialize_a_def await_req_def timer_invD[OF P] kgoodD[OF k] ev Let_def
        split: prod.splits list.splits)
qed

lemma kgood_loadEvents_D:
  "timer_inv P \<Longrightarrow> kgood P k \<Longrightarrow> P w \<Longrightarrow> P (fst (loadEvents_a b k w))"
  "timer_inv P \<Longrightarrow> kgood P k \<Longrightarrow> good P (snd (loadEvents_a b k w))"
  by (simp_all add: kgoodD kgood_loadEvents)

lemma kgood_setCountryFilter:
  assumes P: "timer_inv P" and k: "kgood P k"
  shows "kgood P (setCountryFilter_a b c k)"
proof -
  have K: "kgood P (\<lambda>w2. if cities (st w2) \<noteq> []
                    then loadEvents_a b k (w2\<lparr>st := (st w2)\<lparr>selectedCityId := pick_city n (cities (st w2))\<rparr>\<rparr>)
                    else k (w2\<lparr>st := (st w2)\<lparr>selectedCityId := None\<rparr>\<rparr>))" for n
    by (simp add: kgood_def timer_invD[OF P] kgoodD[OF k] kgood_loadEvents_D[OF P k])
  show ?thesis
    by (simp add: kgood_def setCountryFilter_a_def timer_invD[OF P] kgoodD[OF k]
        kgoodD[OF kgood_loadCities[OF P K]]  split: option.splits)
qed

lemma kgood_setCityFilter:
  assumes P: "timer_inv P" and k: "kgood P k"
  shows "kgood P (setCityFilter_a b c k)"
  by (simp add: kgood_def setCityFilter_a_def timer_invD[OF P] kgood_loadEvents_D[OF P k])

lemma kgood_setCountryFilter_D:
  "timer_inv P \<Longrightarrow> kgood P k \<Longrightarrow> P w \<Longrightarrow> P (fst (setCountryFilter_a b c k w))"
  "timer_inv P \<Longrightarrow> kgood P k \<Longrightarrow> good P (snd (setCountryFilter_a b c k w))"
  by (simp_all add: kgoodD kgood_setCountryFilter)

lemma kgood_resetFilters:
  assumes P: "timer_inv P" and k: "kgood P k"
  shows "kgood P (resetFilters_a b k)"
proof -
  have K: "kgood P (\<lambda>w1. case countries (st w1) of
                    c # _ \<Rightarrow> setCountryFilter_a b (Some (countryId c)) k w1
                  | [] \<Rightarrow> k w1)"
    by (simp add: kgood_def kgoodD[OF k] kgood_setCountryFilter_D[OF P k] split: list.splits)
  show ?thesis
    by (simp add: kgood_def resetFilters_a_def kgoodD[OF k] kgood_setCountryFilter_D[OF P k]
        kgoodD[OF kgood_loadCountries[OF P K]] split: list.splits)
qed

lemma kgood_act: "timer_inv P \<Longrightarrow> kgood P k \<Longrightarrow> kgood P (act_a b a k)"
proof (cases a)
  case (TimerFires t)
  assume P: "timer_inv P" and k: "kgood P k"
  with TimerFires show ?thesis by (simp add: kgood_def timer_invD[OF P] kgoodD[OF k])
qed (simp_all add: kgood_initialize kgood_loadEvents kgood_loadCountries kgood_loadCities
      kgood_setCountryFilter kgood_setCityFilter kgood_resetFilters)

lemma set_resume_subset: "set (resume i th p) \<subseteq> set p \<union> (case th of Fin \<Rightarrow> {} | Wait k \<Rightarrow> {k})"
  by (cases th) (auto dest: in_set_takeD in_set_dropD set_update_subset_insert[THEN subsetD])

lemma pool_ok_enq:
  "pool_ok s \<Longrightarrow> (\<And>P. timer_inv P \<Longrightarrow> good P th) \<Longrightarrow> set p \<subseteq> set (pool s) \<union> (case th of Fin \<Rightarrow> {} | Wait k \<Rightarrow> {k})
   \<Longrightarrow> pool_ok \<lparr>aw = w, pool = p\<rparr>"
  by (cases th) (auto simp: pool_ok_def)

lemma pool_ok_step: "pool_ok s \<Longrightarrow> pool_ok (as_step b e s)"
proof (cases e)
  case (Act a)
  assume ok: "pool_ok s"
  obtain w' th where act: "act_a b a done_k (aw s) = (w', th)" by (cases "act_a b a done_k (aw s)")
  have "timer_inv P \<Longrightarrow> good P th" for P
    using kgoodD(2)[OF kgood_act[OF _ kgood_done], of P b a "aw s"] act by simp
  from pool_ok_enq[OF ok this, where p = "enq th (pool s)" and w = w'] act Act show ?thesis
    by (cases th) simp_all
next
  case (Respond i)
  assume ok: "pool_ok s"
  show ?thesis
  proof (cases "i < length (pool s)")
    case True
    obtain w' th where res: "(pool s ! i) (aw s) = (w', th)" by (cases "(pool s ! i) (aw s)")
    have "timer_inv P \<Longrightarrow> kgood P (pool s ! i)" for P using ok True by (auto simp: pool_ok_def)
    then have "timer_inv P \<Longrightarrow> good P th" for P using kgoodD(2)[of P "pool s ! i" "aw s"] res by simp
    from pool_ok_enq[OF ok this set_resume_subset[of i th "pool s"], where w = w'] res True Respond show ?thesis by simp
  qed (simp add: Respond ok)
qed

lemma inv_step:
  assumes P: "timer_inv P" and ok: "pool_ok s" and w: "P (aw s)"
  shows "P (aw (as_step b e s))"
proof (cases e)
  case (Act a)
  obtain w' th where "act_a b a done_k (aw s) = (w', th)" by (cases "act_a b a done_k (aw s)")
  then show ?thesis using Act kgoodD(1)[OF kgood_act[OF P kgood_done] w, of b a] by simp
next
  case (Respond i)
  show ?thesis
  proof (cases "i < length (pool s)")
    case True
    obtain w' th where res: "(pool s ! i) (aw s) = (w', th)" by (cases "(pool s ! i) (aw s)")
    have "kgood P (pool s ! i)" using ok P True by (auto simp: pool_ok_def)
    from kgoodD(1)[OF this w] res True Respond show ?thesis by simp
  qed (simp add: Respond w)
qed

lemma inv_run:
  "timer_inv P \<Longrightarrow> pool_ok s \<Longrightarrow> P (aw s) \<Longrightarrow> P (aw (as_run b es s)) \<and> pool_ok (as_run b es s)"
  by (induction es arbitrary: s) (simp_all add: inv_step pool_ok_step)

lemma removeAll_single: "length xs \<le> 1 \<Longrightarrow> \<forall>x\<in>set xs. x = t \<Longrightarrow> removeAll t xs = []"
  by (cases xs) auto

lemma tinv_no_timeout: "tinv w \<Longrightarrow> loadingTimeout (st w) = None \<Longrightarrow> timers w = []"
  by (cases "timers w") (auto simp: tinv_def)

lemma tinv_clear: "tinv w \<Longrightarrow> loadingTimeout (st w) = Some t \<Longrightarrow> removeAll t (timers w) = []"
  by (rule removeAll_single) (auto simp: tinv_def)

lemma pool_ok_init: "pool_ok as_init"
  by (simp add: pool_ok_def as_init_def)

lemma tinv_init: "tinv init_world"
  by (simp add: tinv_def init_world_def init_store_def)


lemma tinv_startLoading_form:
  assumes "tinv w"
  shows "timers (startLoading w) = [next_timer w] \<and> next_timer (startLoading w) = Suc (next_timer w)
         \<and> loadingTimeout (st (startLoading w)) = Some (next_timer w)"
proof (cases "loadingTimeout (st w)")
  case None
  then show ?thesis using tinv_no_timeout[OF assms]
    by (simp add: startLoading_def clear_pending_def Let_def)
next
  case (Some t)
  then have "0 < t" using assms by (simp add: tinv_def)
  with Some show ?thesis using tinv_clear[OF assms Some]
    by (simp add: startLoading_def clear_pending_def clearTimeout_def Let_def)
qed

lemma tinv_stopLoading_form:
  assumes "tinv w"
  shows "timers (stopLoading w) = [] \<and> next_timer (stopLoading w) = next_timer w
         \<and> loadingTimeout (st (stopLoading w)) = None"
proof (cases "loadingTimeout (st w)")
  case None
  then show ?thesis using tinv_no_timeout[OF assms] by (simp add: stopLoading_def)
next
  case (Some t)
  then have "0 < t" using assms by (simp add: tinv_def)
  with Some show ?thesis using tinv_clear[OF assms Some]
    by (simp add: stopLoading_def clearTimeout_def)
qed

lemma fire_timer_form:
  "set (timers (fire_timer t w)) \<subseteq> set (timers w) \<and> length (timers (fire_timer t w)) \<le> length (timers w)
   \<and> next_timer (fire_timer t w) = next_timer w \<and> loadingTimeout (st (fire_timer t w)) = loadingTimeout (st w)"
  by (simp add: fire_timer_def timeout_callback_def length_removeAll_less_eq)

lemma tinv_startLoading: "tinv w \<Longrightarrow> tinv (startLoading w)"
  using tinv_startLoading_form[of w] unfolding tinv_def by simp

lemma tinv_stopLoading: "tinv w \<Longrightarrow> tinv (stopLoading w)"
  using tinv_stopLoading_form[of w] unfolding tinv_def by simp

lemma tinv_fire_timer: "tinv w \<Longrightarrow> tinv (fire_timer t w)"
  using fire_timer_form[of t w] unfolding tinv_def by (metis order_trans subsetD)

lemma timer_inv_tinv: "timer_inv tinv"
  unfolding timer_inv_def
  by (intro conjI allI impI tinv_startLoading tinv_stopLoading tinv_fire_timer)
     (simp_all add: send_def tinv_def)

lemma timer_inv_retired: "timer_inv (timer_retired t)"
proof -
  have start: "timer_retired t (startLoading w)" if "timer_retired t w" for w
  proof -
    have "set (timers (startLoading w)) \<subseteq> insert (next_timer w) (set (timers w))"
      "next_timer (startLoading w) = Suc (next_timer w)"
      by (auto simp: startLoading_def clear_pending_def clearTimeout_def Let_def split: option.splits)
    with that show ?thesis by (auto simp: timer_retired_def)
  qed
  have stop: "timer_retired t (stopLoading w)" if "timer_retired t w" for w
    using that by (auto simp: timer_retired_def stopLoading_def clearTimeout_def Let_def split: option.splits)
  have fire: "timer_retired t (fire_timer t' w)" if "timer_retired t w" for w t'
    using that fire_timer_form[of t' w] by (auto simp: timer_retired_def)
  show ?thesis unfolding timer_inv_def
    using start stop fire by (auto simp: timer_retired_def send_def)
qed

lemma within_Wait [simp]: "within (Wait k) n \<longleftrightarrow> 0 < n \<and> kwithin (n - 1) k"
  by (simp add: kwithin_def)

declare within.simps(2) [simp del]

lemma within_mono: "within th n \<Longrightarrow> n \<le> m \<Longrightarrow> within th m"
proof (induction th arbitrary: n m)
  case (Wait k)
  have "within (snd (k w)) (m - 1)" for w
  proof -
    have "snd (k w) \<in> Basic_BNFs.snds (k w)" by (simp add: snds.intros)
    moreover have "within (snd (k w)) (n - 1)" using Wait.prems(1) by (simp add: kwithin_def)
    ultimately show ?thesis using Wait.IH[of "k w" "snd (k w)" "n - 1" "m - 1"] Wait.prems(2) by simp
  qed
  then show ?case using Wait.prems by (simp add: kwithin_def)
qed simp

lemma kwithinD: "kwithin n k \<Longrightarrow> n \<le> m \<Longrightarrow> within (snd (k w)) m"
  by (auto simp: kwithin_def intro: within_mono)

lemma kwithin_done [simp]: "kwithin n done_k"
  by (simp add: kwithin_def done_k_def)

lemma kwithin_loadEvents: "kwithin n k \<Longrightarrow> kwithin (Suc n) (loadEvents_a b k)"
  by (auto simp: kwithin_def loadEvents_a_def await_req_def kwithinD split: prod.splits)

lemma kwithin_loadCities: "kwithin n k \<Longrightarrow> kwithin (Suc n) (loadCities_a b c k)"
  by (auto simp: kwithin_def loadCities_a_def await_req_def Let_def split: prod.splits)

lemma kwithin_loadCountries: "kwithin n k \<Longrightarrow> kwithin (Suc n) (loadCountries_a b k)"
  by (auto simp: kwithin_def loadCountries_a_def await_req_def Let_def split: prod.splits)

lemma kwithin_initialize: "kwithin n k \<Longrightarrow> kwithin (n + 3) (initialize_a b k)"
proof -
  assume k: "kwithin n k"
  have k7: "kwithin n (\<lambda>w7. k (stopLoading w7))" using k by (simp add: kwithin_def)
  note ev = kwithin_loadEvents[OF k7, of b, unfolded kwithin_def, rule_format]
  show ?thesis
    using k ev by (auto simp: kwithin_def initialize_a_def await_req_def Let_def kwithinD
        split: prod.splits list.splits)
qed

lemma kwithin_setCountryFilter: "kwithin n k \<Longrightarrow> kwithin (n + 2) (setCountryFilter_a b c k)"
proof -
  assume k: "kwithin n k"
  have K: "kwithin (Suc n) (\<lambda>w2. if cities (st w2) \<noteq> []
                    then loadEvents_a b k (w2\<lparr>st := (st w2)\<lparr>selectedCityId := pick_city m (cities (st w2))\<rparr>\<rparr>)
                    else k (w2\<lparr>st := (st w2)\<lparr>selectedCityId := None\<rparr>\<rparr>))" for m
    using kwithin_loadEvents[OF k, of b] k by (auto simp: kwithin_def kwithinD)
  show ?thesis
    using kwithin_loadCities[OF K] k by (auto simp: kwithin_def setCountryFilter_a_def kwithinD split: option.splits)
qed

lemma kwithin_setCityFilter: "kwithin n k \<Longrightarrow> kwithin (Suc n) (setCityFilter_a b c k)"
  using kwithin_loadEvents[of n k b] by (simp add: kwithin_def setCityFilter_a_def)

lemma kwithin_resetFilters: "kwithin n k \<Longrightarrow> kwithin (n + 3) (resetFilters_a b k)"
proof -
  assume k: "kwithin n k"
  have K: "kwithin (n + 2) (\<lambda>w1. case countries (st w1) of
                    c # _ \<Rightarrow> setCountryFilter_a b (Some (countryId c)) k w1
                  | [] \<Rightarrow> k w1)"
    using kwithin_setCountryFilter[OF k, of b] k by (auto simp: kwithin_def kwithinD split: list.splits)
  show ?thesis
    using kwithin_loadCountries[OF K, of b]
    by (simp add: kwithin_def resetFilters_a_def kwithinD[OF kwithin_setCountryFilter[OF k]] eval_nat_numeral
        split: list.splits)
qed


lemma kwithin_act: "kwithin 3 (act_a b a done_k)"
proof (cases a)
  case Initialize
  then show ?thesis using kwithin_initialize[OF kwithin_done[of 0], of b] by simp
next
  case (SetCountryFilter c)
  then show ?thesis using kwithin_setCountryFilter[OF kwithin_done[of 1], of b c] by (simp add: numeral_3_eq_3)
next
  case ResetFilters
  then show ?thesis using kwithin_resetFilters[OF kwithin_done[of 0], of b] by simp
next
  case (TimerFires t)
  then show ?thesis by (simp add: kwithin_def done_k_def)
qed (auto intro: kwithin_loadEvents kwithin_loadCountries kwithin_loadCities kwithin_setCityFilter
      simp: numeral_3_eq_3)

lemma kwithin_apply: "kwithin n k \<Longrightarrow> k w = (w', th) \<Longrightarrow> within th n"
  by (metis kwithin_def snd_conv)

lemma drain_head:
  "kwithin n k \<Longrightarrow> \<exists>m\<le>Suc n. \<exists>w'. as_run b (replicate m (Respond 0)) \<lparr>aw = w, pool = k # rest\<rparr> = \<lparr>aw = w', pool = rest\<rparr>"
proof (induction n arbitrary: k w)
  case 0
  obtain w' th where kw: "k w = (w', th)" by (cases "k w")
  have "within th 0" using kwithin_apply[OF 0 kw] .
  then have "th = Fin" by (cases th) simp_all
  with kw have "as_run b (replicate 1 (Respond 0)) \<lparr>aw = w, pool = k # rest\<rparr> = \<lparr>aw = w', pool = rest\<rparr>" by simp
  moreover have "(1::nat) \<le> Suc 0" by simp
  ultimately show ?case by blast
next
  case (Suc n)
  obtain w' th where kw: "k w = (w', th)" by (cases "k w")
  have wth: "within th (Suc n)" using kwithin_apply[OF Suc.prems kw] .
  show ?case
  proof (cases th)
    case Fin
    with kw have "as_run b (replicate 1 (Respond 0)) \<lparr>aw = w, pool = k # rest\<rparr> = \<lparr>aw = w', pool = rest\<rparr>" by simp
    moreover have "(1::nat) \<le> Suc (Suc n)" by simp
    ultimately show ?thesis by blast
  next
    case (Wait k')
    with wth have "kwithin n k'" by simp
    from Suc.IH[OF this, of w'] obtain m w'' where
      m: "m \<le> Suc n" "as_run b (replicate m (Respond 0)) \<lparr>aw = w', pool = k' # rest\<rparr> = \<lparr>aw = w'', pool = rest\<rparr>" by blast
    have "as_run b (replicate (Suc m) (Respond 0)) \<lparr>aw = w, pool = k # rest\<rparr> = \<lparr>aw = w'', pool = rest\<rparr>"
      using kw Wait m(2) by simp
    moreover have "Suc m \<le> Suc (Suc n)" using m(1) by simp
    ultimately show ?thesis by blast
  qed
qed

lemma drain_all:
  "\<forall>k\<in>set p. kwithin 2 k \<Longrightarrow> \<exists>m\<le>3 * length p. \<exists>w'. as_run b (replicate m (Respond 0)) \<lparr>aw = w, pool = p\<rparr> = \<lparr>aw = w', pool = []\<rparr>"
proof (induction p arbitrary: w)
  case Nil
  have "as_run b (replicate 0 (Respond 0)) \<lparr>aw = w, pool = []\<rparr> = \<lparr>aw = w, pool = []\<rparr>" by simp
  then show ?case by blast
next
  case (Cons k p)
  from drain_head[of 2 k b w p] Cons.prems obtain m1 w1 where
    h: "m1 \<le> 3" "as_run b (replicate m1 (Respond 0)) \<lparr>aw = w, pool = k # p\<rparr> = \<lparr>aw = w1, pool = p\<rparr>"
    by (auto simp: numeral_3_eq_3)
  from Cons.IH[of w1] Cons.prems obtain m2 w2 where
    t: "m2 \<le> 3 * length p" "as_run b (replicate m2 (Respond 0)) \<lparr>aw = w1, pool = p\<rparr> = \<lparr>aw = w2, pool = []\<rparr>" by auto
  have "as_run b (replicate (m1 + m2) (Respond 0)) \<lparr>aw = w, pool = k # p\<rparr> = \<lparr>aw = w2, pool = []\<rparr>"
    using h(2) t(2) by (simp add: replicate_add as_run_append)
  moreover have "m1 + m2 \<le> 3 * length (k # p)" using h(1) t(1) by simp
  ultimately show ?case by blast
qed

lemma pool_within_step: "pool_within s \<Longrightarrow> pool_within (as_step b e s)"
proof (cases e)
  case (Act a)
  assume pw: "pool_within s"
  obtain w' th where act: "act_a b a done_k (aw s) = (w', th)" by (cases "act_a b a done_k (aw s)")
  have "within th 3" using kwithin_apply[OF kwithin_act act] .
  with pw act Act show ?thesis by (cases th) (auto simp: pool_within_def numeral_3_eq_3 numeral_2_eq_2)
next
  case (Respond i)
  assume pw: "pool_within s"
  show ?thesis
  proof (cases "i < length (pool s)")
    case True
    obtain w' th where res: "(pool s ! i) (aw s) = (w', th)" by (cases "(pool s ! i) (aw s)")
    have "kwithin 2 (pool s ! i)" using pw True by (simp add: pool_within_def)
    from kwithin_apply[OF this res] have wth: "within th 2" .
    show ?thesis
    proof (cases th)
      case Fin
      then show ?thesis using pw res True Respond set_resume_subset[of i th "pool s"]
        by (auto simp: pool_within_def)
    next
      case (Wait k')
      with wth have "kwithin 1 k'" by simp
      then have "kwithin 2 k'" by (auto simp: kwithin_def intro: within_mono)
      then show ?thesis using pw res True Respond Wait set_resume_subset[of i th "pool s"]
        by (auto simp: pool_within_def)
    qed
  qed (simp add: Respond pw)
qed

lemma pool_within_run: "pool_within (as_run b es as_init)"
proof -
  have step: "pool_within s \<Longrightarrow> pool_within (as_run b es s)" for s
    by (induction es arbitrary: s) (simp_all add: pool_within_step)
  have "pool_within as_init" by (simp add: pool_within_def as_init_def)
  then show ?thesis by (rule step)
qed

lemma nwait_within: "within th n \<Longrightarrow> nwait th w \<le> n"
proof (induction th arbitrary: w n)
  case (Wait k)
  obtain w' th' where kw: "k w = (w', th')" by (cases "k w")
  have "th' \<in> Basic_BNFs.snds (k w)" by (simp add: kw prod_set_simps)
  moreover have "within th' (n - 1)" using Wait.prems kwithin_apply[where n = "n - 1" and k = k and w = w and th = th'] kw by simp
  ultimately have "nwait th' w' \<le> n - 1" using Wait.IH[OF rangeI] by blast
  then show ?case using Wait.prems kw by auto
qed simp

lemma within_drive: "within th n \<Longrightarrow> snd (drive n env th w) = Fin"
proof (induction n arbitrary: th w)
  case 0
  then show ?case by (cases th) simp_all
next
  case (Suc n)
  show ?case
  proof (cases th)
    case (Wait k)
    obtain w' th' where r: "k (env n w) = (w', th')" by (cases "k (env n w)")
    from Suc.prems Wait have "kwithin n k" by simp
    then have "within th' n" using r by (rule kwithin_apply)
    with Suc.IH r Wait show ?thesis by simp
  qed simp
qed

section \<open>Properties of interleaved runs\<close>


text \<open>C29. Under every schedule of user actions, timer firings and responses arriving
  in any order, at most one loading timer is pending, it is the one
  \<open>loadingTimeout\<close> records, and every recorded id is positive and already handed out.\<close>

theorem async_timer_inv: "tinv (aw (as_run b es as_init))"
  using inv_run[OF timer_inv_tinv pool_ok_init] tinv_init by (simp add: as_init_def)




section \<open>Witnesses\<close>

theorem async_timer_inv_witness:
  "length (timers (aw (as_run demo_backend [Act (LoadCities 2), Act LoadEvents] as_init))) \<le> 1"
  using async_timer_inv[of demo_backend "[Act (LoadCities 2), Act LoadEvents]"] by (simp add: tinv_def)


end
