(* ===== verification/TimedRuns.thy ===== *)
theory TimedRuns
  imports AsyncInvariants
begin

text \<open>
  The interleaved runs of \<open>EventStoreAsync\<close> with a clock.  The axios instance of
  \<open>ApiClient\<close> is created with \<open>timeout: 10000\<close> (\<open>API_TIMEOUT\<close>): every request the
  event store sends through \<open>EventService\<close> is answered, or rejected and turned into the
  service's default, at most 10 s after it was sent.  \<open>startLoading\<close> arms its timer with
  \<open>setTimeout(.., LOADING_TIMEOUT)\<close>, due 30 s later, and a browser runs a timer's
  callback no earlier than its due time.  A timed state records the clock, the due time
  of each timer, and for each action in flight the time its pending request was sent;
  \<open>t_enabled\<close> says which events the browser and the network allow: the clock may not
  pass the deadline of a pending request, and a timer fires only once due.
\<close>

section \<open>Timed runs\<close>

record t_state =
  tw :: es_world
  tpool :: "(kont \<times> nat) list"
  clock :: nat
  due :: "nat \<Rightarrow> nat"

definition t_init :: t_state where
  "t_init = \<lparr>tw = init_world, tpool = [], clock = 0, due = (\<lambda>t. 0)\<rparr>"

text \<open>The timers a step arms are the ids from the world's \<open>next_timer\<close> on; they fall due
  \<open>LOADING_TIMEOUT\<close> after the current time.\<close>

definition stamp :: "es_world \<Rightarrow> nat \<Rightarrow> (nat \<Rightarrow> nat) \<Rightarrow> nat \<Rightarrow> nat" where
  "stamp w n d = (\<lambda>t. if next_timer w \<le> t then n + LOADING_TIMEOUT else d t)"

datatype t_event = TAct es_action | TRespond nat | TFire nat | TTick nat

fun user_action :: "es_action \<Rightarrow> bool" where
  "user_action (TimerFires t) = False"
| "user_action a = True"

fun t_enabled :: "t_event \<Rightarrow> t_state \<Rightarrow> bool" where
  "t_enabled (TAct a) s = user_action a"
| "t_enabled (TRespond i) s = (i < length (tpool s))"
| "t_enabled (TFire t) s = (t \<in> set (timers (tw s)) \<and> due s t \<le> clock s)"
| "t_enabled (TTick d) s = (\<forall>(k, a)\<in>set (tpool s). clock s + d \<le> a + API_TIMEOUT)"

text \<open>The pool of the timed model: each thread in flight with the time its request was sent.\<close>

fun t_enq :: "thread \<Rightarrow> nat \<Rightarrow> (kont \<times> nat) list \<Rightarrow> (kont \<times> nat) list" where
  "t_enq Fin n p = p"
| "t_enq (Wait k) n p = p @ [(k, n)]"

fun t_resume :: "nat \<Rightarrow> thread \<Rightarrow> nat \<Rightarrow> (kont \<times> nat) list \<Rightarrow> (kont \<times> nat) list" where
  "t_resume i Fin n p = take i p @ drop (Suc i) p"
| "t_resume i (Wait k) n p = p[i := (k, n)]"

fun t_step :: "backend \<Rightarrow> t_event \<Rightarrow> t_state \<Rightarrow> t_state" where
  "t_step b (TAct a) s =
     (case act_a b a done_k (tw s) of (w, th) \<Rightarrow>
        s\<lparr>tw := w, tpool := t_enq th (clock s) (tpool s), due := stamp (tw s) (clock s) (due s)\<rparr>)"
| "t_step b (TRespond i) s =
     (case fst (tpool s ! i) (tw s) of (w, th) \<Rightarrow>
        s\<lparr>tw := w, tpool := t_resume i th (clock s) (tpool s), due := stamp (tw s) (clock s) (due s)\<rparr>)"
| "t_step b (TFire t) s = s\<lparr>tw := fire_timer t (tw s)\<rparr>"
| "t_step b (TTick d) s = s\<lparr>clock := clock s + d\<rparr>"

inductive t_reach :: "backend \<Rightarrow> t_state \<Rightarrow> bool" for b where
  t_start: "t_reach b t_init"
| t_next: "t_reach b s \<Longrightarrow> t_enabled e s \<Longrightarrow> t_reach b (t_step b e s)"

section \<open>Ownership of the pending timer\<close>

text \<open>A continuation handles the pending timer within \<open>n\<close> responses when, resumed in a
  world where the timer is pending, it clears it or waits again and handles it within
  \<open>n - 1\<close> more.\<close>

fun handles :: "nat \<Rightarrow> kont \<Rightarrow> bool" where
  "handles 0 k = False"
| "handles (Suc n) k =
     (\<forall>w t. tinv w \<longrightarrow> t \<in> set (timers w) \<longrightarrow>
        t \<notin> set (timers (fst (k w))) \<or> (\<exists>k'. snd (k w) = Wait k' \<and> handles n k'))"

text \<open>A resumption owns the timers it arms: the thread it returns handles them within two
  responses.\<close>

definition owned :: "es_world \<Rightarrow> es_world \<times> thread \<Rightarrow> bool" where
  "owned w r \<longleftrightarrow> (tinv w \<longrightarrow>
     (\<forall>t\<in>set (timers (fst r)). next_timer w \<le> t \<longrightarrow> (\<exists>k'. snd r = Wait k' \<and> handles 2 k')))"

primrec tgood :: "thread \<Rightarrow> bool" where
  "tgood Fin = True"
| "tgood (Wait k) = (\<forall>w. case map_prod id tgood (k w) of (w', g) \<Rightarrow> owned w (k w) \<and> g)"

definition ktgood :: "kont \<Rightarrow> bool" where
  "ktgood k \<longleftrightarrow> (\<forall>w. owned w (k w) \<and> tgood (snd (k w)))"

definition kall :: "kont \<Rightarrow> bool" where
  "kall k \<longleftrightarrow> (\<forall>P. timer_inv P \<longrightarrow> kgood P k)"

definition pend :: "nat \<Rightarrow> es_world \<Rightarrow> bool" where
  "pend t w \<longleftrightarrow> loadingTimeout (st w) = Some t \<and> 0 < t \<and> t < next_timer w"

definition t_inv :: "t_state \<Rightarrow> bool" where
  "t_inv s \<longleftrightarrow> tinv (tw s)
     \<and> (\<forall>(k, a)\<in>set (tpool s). a \<le> clock s \<and> clock s \<le> a + API_TIMEOUT \<and> ktgood k \<and> kall k)
     \<and> (\<forall>t\<in>set (timers (tw s)). \<exists>(k, a)\<in>set (tpool s). \<exists>h. handles h k \<and> a + h * API_TIMEOUT < due s t)"

text \<open>A concrete timed run: \<open>loadCountries\<close> starts against a backend that never
  answers, and ten seconds pass.\<close>

definition timed_demo :: t_state where
  "timed_demo = t_step null_backend (TTick 10000) (t_step null_backend (TAct LoadCountries) t_init)"

section \<open>Lemmas\<close>

subsection \<open>Threads and timers\<close>

lemma tgood_Wait [simp]: "tgood (Wait k) = ktgood k"
  by (simp add: ktgood_def)

declare tgood.simps(2) [simp del]

lemma kallD:
  assumes "kall k" and "timer_inv P"
  shows "P w \<Longrightarrow> P (fst (k w))" and "good P (snd (k w))"
  using assms by (simp_all add: kall_def kgoodD)

lemma kall_done [simp]: "kall done_k"
  by (simp add: kall_def)

lemma kall_act: "kall k \<Longrightarrow> kall (act_a b a k)"
  by (simp add: kall_def kgood_act)

lemma tinv_st [simp]: "loadingTimeout s = loadingTimeout (st w) \<Longrightarrow> tinv (w\<lparr>st := s\<rparr>) = tinv w"
  by (simp add: tinv_def)

lemma tinv_send [simp]: "tinv (send r w) = tinv w"
  by (simp add: tinv_def send_def)

lemma next_timer_stopLoading [simp]: "next_timer (stopLoading w) = next_timer w"
  by (simp add: stopLoading_def clearTimeout_def Let_def split: option.splits)

lemma pend_tinv: "tinv w \<Longrightarrow> t \<in> set (timers w) \<Longrightarrow> pend t w"
  by (auto simp: tinv_def pend_def)

lemma tinv_timer_lt: "tinv w \<Longrightarrow> t \<in> set (timers w) \<Longrightarrow> t < next_timer w"
  using pend_tinv by (simp add: pend_def)

lemma retire_stop: "pend t w \<Longrightarrow> timer_retired t (stopLoading w)"
  by (auto simp: pend_def timer_retired_def stopLoading_def clearTimeout_def)

lemma retire_start: "pend t w \<Longrightarrow> timer_retired t (startLoading w)"
  by (auto simp: pend_def timer_retired_def startLoading_def clear_pending_def clearTimeout_def Let_def)

lemma retire_send [simp]: "timer_retired t (send r w) = timer_retired t w"
  by (simp add: timer_retired_def send_def)

lemma retire_k: "kall k \<Longrightarrow> timer_retired t w \<Longrightarrow> timer_retired t (fst (k w))"
  using kallD(1)[OF _ timer_inv_retired] by blast

lemma retire_old:
  "kall k \<Longrightarrow> t < next_timer w \<Longrightarrow> t \<in> set (timers (fst (k w))) \<Longrightarrow> t \<in> set (timers w)"
  using retire_k[of k t w] by (auto simp: timer_retired_def)

subsection \<open>Handling and ownership\<close>

lemma handles_retire: "(\<And>w t. pend t w \<Longrightarrow> timer_retired t (fst (k w))) \<Longrightarrow> handles (Suc n) k"
  by (auto simp: timer_retired_def dest: pend_tinv)

lemma handles_SucI:
  "(\<And>w t. tinv w \<Longrightarrow> t \<in> set (timers w) \<Longrightarrow>
      t \<notin> set (timers (fst (k w))) \<or> (\<exists>k'. snd (k w) = Wait k' \<and> handles n k'))
   \<Longrightarrow> handles (Suc n) k"
  by simp

lemma handles_mono: "handles n k \<Longrightarrow> n \<le> m \<Longrightarrow> handles m k"
proof (induction n arbitrary: k m)
  case (Suc n)
  then obtain m' where m: "m = Suc m'" and le: "n \<le> m'" by (cases m) auto
  show ?case
    using Suc.prems(1) Suc.IH[OF _ le] unfolding m handles.simps by blast
qed simp

lemma owned_wait: "handles 2 K \<Longrightarrow> owned w (w', Wait K)"
  by (simp add: owned_def)

lemma ktgood_owned:
  "ktgood k \<Longrightarrow> (tinv w \<longrightarrow> tinv w') \<Longrightarrow> next_timer w' = next_timer w \<Longrightarrow> owned w (k w')"
  by (auto simp: ktgood_def owned_def)

lemma ktgood_tgood: "ktgood k \<Longrightarrow> tgood (snd (k w))"
  by (simp add: ktgood_def)

lemma ktgood_done [simp]: "ktgood done_k"
  by (auto simp: ktgood_def owned_def done_k_def dest: tinv_timer_lt)

lemma retire_loadEvents_stop:
  "kall k \<Longrightarrow> pend t w \<Longrightarrow> timer_retired t (fst (loadEvents_a b (\<lambda>w7. k (stopLoading w7)) w))"
  by (simp add: loadEvents_a_def await_req_def retire_k retire_stop retire_start pend_def split: prod.splits)

lemma ktgood_stop:
  assumes kg: "ktgood k"
  shows "ktgood (\<lambda>w. k (stopLoading w))"
  by (simp add: ktgood_def ktgood_owned[OF kg] ktgood_tgood[OF kg] tinv_stopLoading)

lemma kall_stop:
  assumes ka: "kall k"
  shows "kall (\<lambda>w. k (stopLoading w))"
proof -
  have "kgood P (\<lambda>w. k (stopLoading w))" if P: "timer_inv P" for P
    unfolding kgood_def using kallD[OF ka P] timer_invD(2)[OF P] by simp
  then show ?thesis by (simp add: kall_def)
qed

subsection \<open>Every action owns the timers it arms\<close>

lemma ktgood_loadEvents:
  assumes kg: "ktgood k" and ka: "kall k"
  shows "ktgood (loadEvents_a b k)"
proof -
  obtain evs r where g: "getAllEvents b [] = (evs, r)" by (cases "getAllEvents b []")
  define K where "K = (\<lambda>w2. k (stopLoading (w2\<lparr>st := (st w2)\<lparr>events := evs,
                                error := (if evs = [] then Some ''No events found'' else None)\<rparr>\<rparr>)))"
  have "handles 2 K" unfolding K_def numeral_2_eq_2
    by (rule handles_retire) (simp add: retire_k[OF ka] retire_stop pend_def)
  moreover have "ktgood K" unfolding K_def
    by (simp add: ktgood_def ktgood_owned[OF kg] ktgood_tgood[OF kg] tinv_stopLoading)
  moreover have "loadEvents_a b k w =
      (if \<not> truthy_num (selectedCityId (st w))
       then k (w\<lparr>st := (st w)\<lparr>events := [], error := Some ''Please select a city to view events''\<rparr>\<rparr>)
       else (send r (startLoading w), Wait K))" for w
    by (simp add: loadEvents_a_def await_req_def g K_def)
  ultimately show ?thesis
    by (simp add: ktgood_def owned_wait ktgood_owned[OF kg] ktgood_tgood[OF kg])
qed

lemma ktgood_loadCountries:
  assumes kg: "ktgood k" and ka: "kall k"
  shows "ktgood (loadCountries_a b k)"
proof -
  obtain cs r where g: "getCountries b = (cs, r)" by (cases "getCountries b")
  define K where "K = (\<lambda>w2. let w3 = w2\<lparr>st := (st w2)\<lparr>countries := cs\<rparr>\<rparr>
                           in k (stopLoading (if cs = [] then w3\<lparr>st := (st w3)\<lparr>error := Some ''No countries available''\<rparr>\<rparr>
                                              else w3)))"
  have "handles 2 K" unfolding K_def numeral_2_eq_2
    by (rule handles_retire) (simp add: retire_k[OF ka] retire_stop pend_def Let_def)
  moreover have "ktgood K" unfolding K_def
    by (simp add: ktgood_def ktgood_owned[OF kg] ktgood_tgood[OF kg] tinv_stopLoading Let_def)
  moreover have "loadCountries_a b k w = (send r (startLoading w), Wait K)" for w
    by (simp add: loadCountries_a_def await_req_def g K_def)
  ultimately show ?thesis
    by (simp add: ktgood_def owned_wait)
qed

lemma ktgood_loadCities:
  assumes kg: "ktgood k" and ka: "kall k"
  shows "ktgood (loadCities_a b c k)"
proof -
  obtain cis r where g: "getCities b c = (cis, r)" by (cases "getCities b c")
  define K where "K = (\<lambda>w2. let w3 = w2\<lparr>st := (st w2)\<lparr>cities := cis\<rparr>\<rparr>
                           in k (stopLoading (if cis = []
                                              then w3\<lparr>st := (st w3)\<lparr>error := Some ''No cities available for the selected country''\<rparr>\<rparr>
                                              else w3)))"
  have "handles 2 K" unfolding K_def numeral_2_eq_2
    by (rule handles_retire) (simp add: retire_k[OF ka] retire_stop pend_def Let_def)
  moreover have "ktgood K" unfolding K_def
    by (simp add: ktgood_def ktgood_owned[OF kg] ktgood_tgood[OF kg] tinv_stopLoading Let_def)
  moreover have "loadCities_a b c k w = (send r (startLoading w), Wait K)" for w
    by (simp add: loadCities_a_def await_req_def g K_def)
  ultimately show ?thesis
    by (simp add: ktgood_def owned_wait)
qed

lemma kall_loadEvents: "kall k \<Longrightarrow> kall (loadEvents_a b k)"
  by (simp add: kall_def kgood_loadEvents)

lemma ktgood_initialize:
  assumes kg: "ktgood k" and ka: "kall k"
  shows "ktgood (initialize_a b k)"
proof -
  obtain cs r1 where g: "getCountries b = (cs, r1)" by (cases "getCountries b")
  define k7 where "k7 = (\<lambda>w7. k (stopLoading w7))"
  have le: "ktgood (loadEvents_a b k7)" unfolding k7_def
    by (intro ktgood_loadEvents ktgood_stop kall_stop kg ka)
  define K2 where "K2 cis = (\<lambda>w5. let w6 = w5\<lparr>st := (st w5)\<lparr>cities := cis\<rparr>\<rparr> in
                             (case cis of
                                [] \<Rightarrow> k (stopLoading (w6\<lparr>st := (st w6)\<lparr>error := Some ''No cities available for the selected country''\<rparr>\<rparr>))
                              | ci # _ \<Rightarrow>
                                  loadEvents_a b k7
                                    (w6\<lparr>st := (st w6)\<lparr>selectedCityId := Some (cityId ci), initialized := True\<rparr>\<rparr>)))" for cis
  have h2: "handles 1 (K2 cis)" for cis unfolding One_nat_def
  proof (rule handles_retire)
    fix w t assume "pend t w"
    then show "timer_retired t (fst (K2 cis w))" unfolding K2_def k7_def
      by (cases cis) (simp_all add: retire_k[OF ka] retire_stop retire_loadEvents_stop[OF ka] pend_def)
  qed
  have g2: "ktgood (K2 cis)" for cis unfolding K2_def ktgood_def
    by (cases cis) (simp_all add: ktgood_owned[OF kg] ktgood_tgood[OF kg] ktgood_owned[OF le]
        ktgood_tgood[OF le] tinv_stopLoading)
  define K1 where "K1 = (\<lambda>w2. let w3 = w2\<lparr>st := (st w2)\<lparr>countries := cs\<rparr>\<rparr> in
                (case cs of
                   [] \<Rightarrow> k (stopLoading (w3\<lparr>st := (st w3)\<lparr>error := Some ''No countries available''\<rparr>\<rparr>))
                 | c # _ \<Rightarrow>
                     let w4 = w3\<lparr>st := (st w3)\<lparr>selectedCountryId := Some (countryId c)\<rparr>\<rparr>;
                         (cis, r2) = getCities b (countryId c)
                     in await_req r2 (K2 cis) w4))"
  have h1: "handles 2 K1"
    unfolding numeral_2_eq_2
  proof (rule handles_SucI)
    fix w t assume "tinv w" "t \<in> set (timers w)"
    then have "pend t w" by (rule pend_tinv)
    show "t \<notin> set (timers (fst (K1 w))) \<or> (\<exists>k'. snd (K1 w) = Wait k' \<and> handles (Suc 0) k')"
    proof (cases cs)
      case Nil
      with \<open>pend t w\<close> have "timer_retired t (fst (K1 w))" unfolding K1_def
        by (simp add: retire_k[OF ka] retire_stop pend_def)
      then show ?thesis by (simp add: timer_retired_def)
    next
      case (Cons c cs')
      then show ?thesis unfolding K1_def using h2[unfolded One_nat_def]
        by (auto simp: await_req_def split: prod.splits)
    qed
  qed
  have h2': "handles 2 (K2 cis)" for cis by (rule handles_mono[OF h2]) simp
  have g1: "ktgood K1" unfolding K1_def ktgood_def
    by (cases cs) (auto simp: ktgood_owned[OF kg] ktgood_tgood[OF kg] tinv_stopLoading await_req_def
        owned_wait g2 h2' split: prod.splits)
  have "initialize_a b k w = (if initialized (st w) then k w else (send r1 (startLoading w), Wait K1))" for w
    unfolding initialize_a_def await_req_def g K1_def K2_def k7_def by simp
  then show ?thesis using h1 g1
    by (simp add: ktgood_def owned_wait ktgood_owned[OF kg] ktgood_tgood[OF kg])
qed

lemma kall_setCountryFilter: "kall k \<Longrightarrow> kall (setCountryFilter_a b c k)"
  by (simp add: kall_def kgood_setCountryFilter)

lemma ktgood_setCountryFilter:
  assumes kg: "ktgood k" and ka: "kall k"
  shows "ktgood (setCountryFilter_a b cid k)"
proof -
  note le = ktgood_loadEvents[OF kg ka]
  define K where "K c = (\<lambda>w2. if cities (st w2) \<noteq> []
                    then loadEvents_a b k (w2\<lparr>st := (st w2)\<lparr>selectedCityId := pick_city c (cities (st w2))\<rparr>\<rparr>)
                    else k (w2\<lparr>st := (st w2)\<lparr>selectedCityId := None\<rparr>\<rparr>))" for c
  have gK: "ktgood (K c)" for c unfolding K_def ktgood_def
    by (simp add: ktgood_owned[OF kg] ktgood_tgood[OF kg] ktgood_owned[OF le] ktgood_tgood[OF le])
  have aK: "kall (K c)" for c
  proof -
    have "kgood P (K c)" if P: "timer_inv P" for P
      unfolding K_def kgood_def
      using kallD[OF ka P] kallD[OF kall_loadEvents[OF ka] P] timer_invD(5)[OF P] by simp
    then show ?thesis by (simp add: kall_def)
  qed
  note lc = ktgood_loadCities[OF gK aK]
  show ?thesis unfolding setCountryFilter_a_def ktgood_def
    by (simp add: ktgood_owned[OF kg] ktgood_tgood[OF kg] ktgood_owned[OF lc] ktgood_tgood[OF lc]
        K_def[symmetric] split: option.splits)
qed

lemma ktgood_setCityFilter:
  assumes kg: "ktgood k" and ka: "kall k"
  shows "ktgood (setCityFilter_a b cid k)"
  using ktgood_owned[OF ktgood_loadEvents[OF kg ka]] ktgood_tgood[OF ktgood_loadEvents[OF kg ka]]
  by (simp add: ktgood_def setCityFilter_a_def)

lemma ktgood_resetFilters:
  assumes kg: "ktgood k" and ka: "kall k"
  shows "ktgood (resetFilters_a b k)"
proof -
  note sc = ktgood_setCountryFilter[OF kg ka]
  define K where "K = (\<lambda>w1. case countries (st w1) of
                    c # _ \<Rightarrow> setCountryFilter_a b (Some (countryId c)) k w1
                  | [] \<Rightarrow> k w1)"
  have gK: "ktgood K" unfolding K_def ktgood_def
    by (simp add: ktgood_owned[OF kg] ktgood_tgood[OF kg] ktgood_owned[OF sc] ktgood_tgood[OF sc]
        split: list.splits)
  have aK: "kall K"
  proof -
    have "kgood P K" if P: "timer_inv P" for P
      unfolding K_def kgood_def
      using kallD[OF ka P] kallD[OF kall_setCountryFilter[OF ka] P] by (simp split: list.splits)
    then show ?thesis by (simp add: kall_def)
  qed
  note lc = ktgood_loadCountries[OF gK aK]
  show ?thesis unfolding resetFilters_a_def ktgood_def
    by (simp add: ktgood_owned[OF sc] ktgood_tgood[OF sc] ktgood_owned[OF lc] ktgood_tgood[OF lc]
        K_def[symmetric] split: list.splits)
qed

lemma ktgood_act: "user_action a \<Longrightarrow> ktgood k \<Longrightarrow> kall k \<Longrightarrow> ktgood (act_a b a k)"
  by (cases a) (simp_all add: ktgood_initialize ktgood_loadEvents ktgood_loadCountries
      ktgood_loadCities ktgood_setCountryFilter ktgood_setCityFilter ktgood_resetFilters)

subsection \<open>The timed invariant\<close>

lemma set_t_enq: "set (t_enq th n p) = set p \<union> (case th of Fin \<Rightarrow> {} | Wait k \<Rightarrow> {(k, n)})"
  by (cases th) auto

lemma set_t_resume_sub:
  "set (t_resume i th n p) \<subseteq> set p \<union> (case th of Fin \<Rightarrow> {} | Wait k \<Rightarrow> {(k, n)})"
  by (cases th) (auto dest: in_set_takeD in_set_dropD set_update_subset_insert[THEN subsetD])

lemma t_resume_keep: "x \<in> set p \<Longrightarrow> x \<noteq> p ! i \<Longrightarrow> x \<in> set (t_resume i th n p)"
proof (cases th)
  case Fin
  assume x: "x \<in> set p" "x \<noteq> p ! i"
  show ?thesis
  proof (cases "i < length p")
    case True
    from id_take_nth_drop[OF True] x have "x \<in> set (take i p) \<or> x \<in> set (drop (Suc i) p)"
      by (metis Un_iff empty_iff insert_iff list.set(2) set_append)
    with Fin show ?thesis by auto
  qed (use Fin x in simp)
next
  case (Wait k)
  assume x: "x \<in> set p" "x \<noteq> p ! i"
  then obtain j where "j < length p" "p ! j = x" by (auto simp: in_set_conv_nth)
  moreover from this x have "j \<noteq> i" by auto
  ultimately show ?thesis using Wait
    by (metis length_list_update nth_list_update_neq nth_mem t_resume.simps(2))
qed

lemma t_resume_new: "i < length p \<Longrightarrow> (k, n) \<in> set (t_resume i (Wait k) n p)"
  by (simp add: set_update_memI)

lemma guard_margin: "n + 2 * API_TIMEOUT < n + LOADING_TIMEOUT"
  by (simp add: API_TIMEOUT_def LOADING_TIMEOUT_def)

lemma t_inv_due: "t_inv s \<Longrightarrow> t \<in> set (timers (tw s)) \<Longrightarrow> clock s < due s t"
proof -
  assume I: "t_inv s" and t: "t \<in> set (timers (tw s))"
  then obtain k a h where x: "(k, a) \<in> set (tpool s)" "handles h k" "a + h * API_TIMEOUT < due s t"
    by (force simp: t_inv_def)
  then obtain h' where "h = Suc h'" by (cases h) auto
  moreover have "clock s \<le> a + API_TIMEOUT" using I x(1) by (force simp: t_inv_def)
  ultimately show ?thesis using x(3) by simp
qed

lemma t_inv_resume:
  assumes I: "t_inv s" and kg: "ktgood K" and ka: "kall K" and r: "K (tw s) = (w', th)"
    and sub: "set p' \<subseteq> set (tpool s) \<union> (case th of Fin \<Rightarrow> {} | Wait k' \<Rightarrow> {(k', clock s)})"
    and new: "\<And>k'. th = Wait k' \<Longrightarrow> (k', clock s) \<in> set p'"
    and own: "\<And>t. t \<in> set (timers (tw s)) \<Longrightarrow> t \<in> set (timers w') \<Longrightarrow>
               \<exists>(k, a)\<in>set p'. \<exists>h. handles h k \<and> a + h * API_TIMEOUT < due s t"
  shows "t_inv (s\<lparr>tw := w', tpool := p', due := stamp (tw s) (clock s) (due s)\<rparr>)"
proof -
  have tw: "tinv (tw s)" using I by (simp add: t_inv_def)
  have t1: "tinv w'" using kallD(1)[OF ka timer_inv_tinv tw] r by simp
  have th_ok: "ktgood k' \<and> kall k'" if "th = Wait k'" for k'
    using ktgood_tgood[OF kg, of "tw s"] kallD(2)[OF ka, of _ "tw s"] r that by (simp add: kall_def)
  have t2: "\<forall>(k, a)\<in>set p'. a \<le> clock s \<and> clock s \<le> a + API_TIMEOUT \<and> ktgood k \<and> kall k"
  proof
    fix x assume "x \<in> set p'"
    with sub I th_ok show "case x of (k, a) \<Rightarrow> a \<le> clock s \<and> clock s \<le> a + API_TIMEOUT \<and> ktgood k \<and> kall k"
      by (cases th) (auto simp: t_inv_def)
  qed
  have t3: "\<exists>(k, a)\<in>set p'. \<exists>h. handles h k \<and> a + h * API_TIMEOUT < stamp (tw s) (clock s) (due s) t"
    if t: "t \<in> set (timers w')" for t
  proof (cases "next_timer (tw s) \<le> t")
    case True
    have "owned (tw s) (K (tw s))" by (rule ktgood_owned[OF kg]) simp_all
    with r tw t True obtain k' where k': "th = Wait k'" "handles 2 k'" by (auto simp: owned_def)
    have "clock s + 2 * API_TIMEOUT < stamp (tw s) (clock s) (due s) t"
      using guard_margin True by (simp add: stamp_def)
    with k'(2) new[OF k'(1)] show ?thesis by (auto intro!: bexI[of _ "(k', clock s)"])
  next
    case False
    then have "t \<in> set (timers (tw s))" using retire_old[OF ka, of t "tw s"] r t by simp
    from own[OF this t] False show ?thesis by (simp add: stamp_def)
  qed
  show ?thesis using t1 t2 t3 by (simp add: t_inv_def)
qed

lemma t_inv_init: "t_inv t_init"
proof -
  have "timers init_world = []" by (simp add: init_world_def)
  then show ?thesis using tinv_init by (simp add: t_inv_def t_init_def)
qed

lemma t_inv_step:
  assumes I: "t_inv s" and en: "t_enabled e s"
  shows "t_inv (t_step b e s)"
proof (cases e)
  case (TAct a)
  obtain w' th where r: "act_a b a done_k (tw s) = (w', th)" by (cases "act_a b a done_k (tw s)")
  have u: "user_action a" using en TAct by simp
  have "t_inv (s\<lparr>tw := w', tpool := t_enq th (clock s) (tpool s), due := stamp (tw s) (clock s) (due s)\<rparr>)"
  proof (rule t_inv_resume[OF I ktgood_act[OF u ktgood_done kall_done] kall_act[OF kall_done] r])
    fix t assume "t \<in> set (timers (tw s))"
    with I show "\<exists>(k, a)\<in>set (t_enq th (clock s) (tpool s)). \<exists>h. handles h k \<and> a + h * API_TIMEOUT < due s t"
      by (force simp: t_inv_def set_t_enq)
  qed (simp_all add: set_t_enq)
  then show ?thesis using TAct r by simp
next
  case (TRespond i)
  have i: "i < length (tpool s)" using en TRespond by simp
  obtain K a0 where e0: "tpool s ! i = (K, a0)" by (cases "tpool s ! i")
  have "(K, a0) \<in> set (tpool s)" using i e0 by (metis nth_mem)
  then have K: "ktgood K" "kall K" "clock s \<le> a0 + API_TIMEOUT" using I by (auto simp: t_inv_def)
  obtain w' th where r: "K (tw s) = (w', th)" by (cases "K (tw s)")
  have "t_inv (s\<lparr>tw := w', tpool := t_resume i th (clock s) (tpool s), due := stamp (tw s) (clock s) (due s)\<rparr>)"
  proof (rule t_inv_resume[OF I K(1) K(2) r set_t_resume_sub])
    fix k' assume "th = Wait k'"
    then show "(k', clock s) \<in> set (t_resume i th (clock s) (tpool s))" using t_resume_new[OF i] by simp
  next
    fix t assume t0: "t \<in> set (timers (tw s))" and t1: "t \<in> set (timers w')"
    from I t0 obtain k a h where x: "(k, a) \<in> set (tpool s)" "handles h k" "a + h * API_TIMEOUT < due s t"
      by (force simp: t_inv_def)
    show "\<exists>(k, a)\<in>set (t_resume i th (clock s) (tpool s)). \<exists>h. handles h k \<and> a + h * API_TIMEOUT < due s t"
    proof (cases "(k, a) = (K, a0)")
      case False
      with x e0 show ?thesis by (force dest: t_resume_keep[where i = i and th = th and n = "clock s"])
    next
      case True
      obtain h' where h: "h = Suc h'" using x(2) by (cases h) auto
      have "tinv (tw s)" using I by (simp add: t_inv_def)
      with x(2) True h t0 t1 r obtain k' where k': "th = Wait k'" "handles h' k'" by fastforce
      have "clock s + h' * API_TIMEOUT < due s t" using x(3) K(3) True h by simp
      with k' t_resume_new[OF i] show ?thesis by (auto intro!: bexI[of _ "(k', clock s)"])
    qed
  qed
  then show ?thesis using TRespond e0 r by simp
next
  case (TFire t)
  with en t_inv_due[OF I, of t] have False by simp
  then show ?thesis ..
next
  case (TTick d)
  with I en show ?thesis by (auto simp: t_inv_def)
qed

lemma t_reach_inv: "t_reach b s \<Longrightarrow> t_inv s"
  by (induction rule: t_reach.induct) (simp_all add: t_inv_init t_inv_step)

section \<open>The loading guard under the transport timeout\<close>

text \<open>C39: in every timed run, whatever the interleaving of user actions, responses and clock
  ticks, the loading guard's timer is never due while it is pending: every request the event
  store awaits is settled by axios within \<open>API_TIMEOUT\<close> (10 s), every timer an action arms
  is cleared or re-armed within two of its responses, and \<open>LOADING_TIMEOUT\<close> (30 s) exceeds
  two request deadlines, so the browser never runs the timeout callback.\<close>

theorem loading_guard_never_due: "t_reach b s \<Longrightarrow> \<not> t_enabled (TFire t) s"
  using t_inv_due[OF t_reach_inv] by (auto simp: not_le)

theorem loading_guard_never_due_witness:
  "t_reach null_backend timed_demo \<and> 1 \<in> set (timers (tw timed_demo)) \<and> clock timed_demo = 10000
   \<and> \<not> t_enabled (TFire 1) timed_demo"
proof -
  have r1: "t_reach null_backend (t_step null_backend (TAct LoadCountries) t_init)"
    by (rule t_next[OF t_start]) simp
  have e: "t_enabled (TTick 10000) (t_step null_backend (TAct LoadCountries) t_init)"
    by (simp add: t_init_def loadCountries_a_def getCountries_def await_req_def null_backend_def
        API_TIMEOUT_def split: prod.splits)
  have r: "t_reach null_backend timed_demo"
    unfolding timed_demo_def by (rule t_next[OF r1 e])
  have "1 \<in> set (timers (tw timed_demo)) \<and> clock timed_demo = 10000"
    by (simp add: timed_demo_def t_init_def loadCountries_a_def getCountries_def await_req_def
        startLoading_def clear_pending_def send_def init_world_def init_store_def Let_def)
  with r show ?thesis using loading_guard_never_due[OF r] by simp
qed

end
