(* ===== verification/Transport.thy ===== *)
theory Transport
  imports Services
begin

text \<open>
  What \<open>ApiClient\<close> (\<open>src/src/api/apiClient.ts\<close>) puts on the wire for a request of the
  services: the axios instance's base URL (\<open>VITE_API_BASE_URL\<close>, else the local
  default), the URL axios builds from it, the request's path and its query parameters,
  and the headers: the instance's \<open>Content-Type\<close> and the \<open>Authorization\<close> header the
  auth interceptor reads from \<open>localStorage\<close> at call time.  The URL joining and query
  serialisation are axios's (\<open>combineURLs\<close>, \<open>buildURL\<close>) for the relative paths and
  integer parameters the services use.  \<open>parse_query\<close> is the reading a server makes of
  the query string; the round trip through it shows that the parameters reach the
  backend unchanged.  The singletons \<open>getInstance\<close> of the client and the services are
  \<open>get_instance\<close>.
\<close>

section \<open>Configuration\<close>

definition DEFAULT_BASE_URL :: string where
  "DEFAULT_BASE_URL = ''http://localhost:5151/api''"

text \<open>\<open>import.meta.env.VITE_API_BASE_URL || default\<close>: an unset or empty variable gives
  the default.\<close>

definition base_url :: "string option \<Rightarrow> string" where
  "base_url env = (case env of Some u \<Rightarrow> if u \<noteq> [] then u else DEFAULT_BASE_URL | None \<Rightarrow> DEFAULT_BASE_URL)"

definition CONTENT_TYPE :: "string \<times> string" where
  "CONTENT_TYPE = (''Content-Type'', ''application/json'')"

text \<open>\<open>getInstance\<close>: the first call creates the instance, later calls return it.\<close>

definition get_instance :: "'a \<Rightarrow> 'a option \<Rightarrow> 'a \<times> 'a option" where
  "get_instance fresh inst = (case inst of None \<Rightarrow> (fresh, Some fresh) | Some i \<Rightarrow> (i, Some i))"

section \<open>Requests\<close>

definition put_req :: "string \<Rightarrow> jsval \<Rightarrow> request" where
  "put_req url body = \<lparr>req_method = PUT, req_url = url, req_params = [], req_body = body\<rparr>"

definition delete_req :: "string \<Rightarrow> request" where
  "delete_req url = \<lparr>req_method = DELETE, req_url = url, req_params = [], req_body = JUndef\<rparr>"

record http_request =
  hr_method :: http_method
  hr_url :: string
  hr_headers :: "(string \<times> string) list"
  hr_body :: jsval

section \<open>URL building\<close>

text \<open>\<open>combineURLs\<close>: \<open>baseURL.replace(/\/?\/$/, '') + '/' + relativeURL.replace(/^\/+/, '')\<close>.\<close>

definition drop_slash :: "string \<Rightarrow> string" where
  "drop_slash r = (if r \<noteq> [] \<and> hd r = CHR ''/'' then tl r else r)"

definition strip_end_slashes :: "string \<Rightarrow> string" where
  "strip_end_slashes s = rev (drop_slash (drop_slash (rev s)))"

definition combine_urls :: "string \<Rightarrow> string \<Rightarrow> string" where
  "combine_urls base rel =
     (if rel = [] then base else strip_end_slashes base @ CHR ''/'' # dropWhile (\<lambda>c. c = CHR ''/'') rel)"

text \<open>\<open>buildURL\<close> for integer parameters: \<open>key=value\<close> pairs joined by \<open>&\<close>.\<close>

fun query_string :: "(string \<times> int) list \<Rightarrow> string" where
  "query_string [] = []"
| "query_string [(k, v)] = k @ CHR ''='' # int_to_string v"
| "query_string ((k, v) # ps) = k @ CHR ''='' # int_to_string v @ CHR ''&'' # query_string ps"

definition build_url :: "string \<Rightarrow> (string \<times> int) list \<Rightarrow> string" where
  "build_url url ps = (if ps = [] then url else url @ CHR ''?'' # query_string ps)"

text \<open>The request axios sends: the auth interceptor runs at call time on the storage.\<close>

definition client_request :: "string option \<Rightarrow> user_item \<Rightarrow> request \<Rightarrow> http_request" where
  "client_request env item r =
     \<lparr>hr_method = req_method r,
      hr_url = build_url (combine_urls (base_url env) (req_url r)) (req_params r),
      hr_headers = CONTENT_TYPE # (case auth_header item of Some h \<Rightarrow> [(''Authorization'', h)] | None \<Rightarrow> []),
      hr_body = req_body r\<rparr>"

section \<open>Reading the query string\<close>

fun split_on :: "char \<Rightarrow> string \<Rightarrow> string list" where
  "split_on c [] = [[]]"
| "split_on c (x # xs) = (if x = c then [] # split_on c xs else (case split_on c xs of y # ys \<Rightarrow> (x # y) # ys | [] \<Rightarrow> [[x]]))"

definition digit_val :: "char \<Rightarrow> nat" where
  "digit_val c = of_char c - 48"

definition parse_nat :: "string \<Rightarrow> nat" where
  "parse_nat s = foldl (\<lambda>acc c. 10 * acc + digit_val c) 0 s"

definition parse_int :: "string \<Rightarrow> int" where
  "parse_int s = (if s \<noteq> [] \<and> hd s = CHR ''-'' then - int (parse_nat (tl s)) else int (parse_nat s))"

definition parse_pair :: "string \<Rightarrow> string \<times> int" where
  "parse_pair s = (takeWhile (\<lambda>c. c \<noteq> CHR ''='') s, parse_int (drop 1 (dropWhile (\<lambda>c. c \<noteq> CHR ''='') s)))"

definition parse_query :: "string \<Rightarrow> (string \<times> int) list" where
  "parse_query q = (if q = [] then [] else map parse_pair (split_on CHR ''&'' q))"

definition parse_url :: "string \<Rightarrow> string \<times> (string \<times> int) list" where
  "parse_url u = (takeWhile (\<lambda>c. c \<noteq> CHR ''?'') u, parse_query (drop 1 (dropWhile (\<lambda>c. c \<noteq> CHR ''?'') u)))"

definition query_key :: "string \<Rightarrow> bool" where
  "query_key k \<longleftrightarrow> k \<noteq> [] \<and> CHR ''='' \<notin> set k \<and> CHR ''&'' \<notin> set k"

section \<open>Lemmas\<close>

declare nat_to_string.simps [simp del]

lemma nat_to_string_unfold:
  "nat_to_string n = (if n < 10 then [digit_char n] else nat_to_string (n div 10) @ [digit_char (n mod 10)])"
  by (rule nat_to_string.simps)

lemma parse_nat_snoc: "parse_nat (xs @ [c]) = 10 * parse_nat xs + digit_val c"
  by (simp add: parse_nat_def)

lemma digit_val_digit_char: "d < 10 \<Longrightarrow> digit_val (digit_char d) = d"
  by (simp add: digit_val_def digit_char_def)

lemma parse_nat_to_string: "parse_nat (nat_to_string n) = n"
proof (induction n rule: nat_to_string.induct)
  case (1 n)
  show ?case
  proof (cases "n < 10")
    case True
    then show ?thesis by (simp add: nat_to_string_unfold parse_nat_def digit_val_digit_char)
  next
    case False
    then have "parse_nat (nat_to_string n) = 10 * parse_nat (nat_to_string (n div 10)) + n mod 10"
      by (simp add: nat_to_string_unfold[of n] parse_nat_snoc digit_val_digit_char)
    with 1 False show ?thesis by simp
  qed
qed

lemma nat_to_string_digits: "set (nat_to_string n) \<subseteq> digit_char ` {..<10}"
proof (induction n rule: nat_to_string.induct)
  case (1 n)
  then show ?case by (cases "n < 10") (auto simp: nat_to_string_unfold[of n])
qed

lemma of_char_digit_char: "d < 10 \<Longrightarrow> of_char (digit_char d) = 48 + d"
  by (simp add: digit_char_def)

lemma digit_char_not:
  assumes "d < 10" and "c \<in> {CHR ''-'', CHR ''='', CHR ''&''}"
  shows "digit_char d \<noteq> c"
proof
  assume "digit_char d = c"
  then have "of_char (digit_char d) = (of_char c :: nat)" by simp
  with assms show False by (auto simp: of_char_digit_char)
qed

lemma nat_to_string_chars: "c \<in> set (nat_to_string n) \<Longrightarrow> c \<noteq> CHR ''-'' \<and> c \<noteq> CHR ''='' \<and> c \<noteq> CHR ''&''"
proof -
  assume "c \<in> set (nat_to_string n)"
  then obtain d where d: "d < 10" "c = digit_char d" using nat_to_string_digits[of n] by blast
  have "digit_char d \<noteq> CHR ''-''" "digit_char d \<noteq> CHR ''=''" "digit_char d \<noteq> CHR ''&''"
    by (rule digit_char_not[OF d(1)], simp)+
  with d show ?thesis by simp
qed

lemma nat_to_string_ne: "nat_to_string n \<noteq> []"
  by (subst nat_to_string_unfold) simp

lemma parse_int_to_string: "parse_int (int_to_string i) = i"
proof (cases "i < 0")
  case True
  then show ?thesis by (simp add: int_to_string_def parse_int_def parse_nat_to_string)
next
  case False
  have "hd (nat_to_string (nat i)) \<noteq> CHR ''-''"
    using nat_to_string_chars[OF hd_in_set[OF nat_to_string_ne]] by blast
  with False show ?thesis by (simp add: int_to_string_def parse_int_def parse_nat_to_string)
qed

lemma int_to_string_no: "CHR ''='' \<notin> set (int_to_string i) \<and> CHR ''&'' \<notin> set (int_to_string i)"
proof -
  have "CHR ''='' \<notin> set (nat_to_string n) \<and> CHR ''&'' \<notin> set (nat_to_string n)" for n
    using nat_to_string_chars by blast
  then show ?thesis by (simp add: int_to_string_def)
qed

lemma split_on_no: "c \<notin> set xs \<Longrightarrow> split_on c xs = [xs]"
  by (induction xs) auto

lemma split_on_append: "c \<notin> set xs \<Longrightarrow> split_on c (xs @ c # ys) = xs # split_on c ys"
  by (induction xs) auto

lemma takeWhile_key: "c \<notin> set k \<Longrightarrow> takeWhile (\<lambda>x. x \<noteq> c) (k @ c # s) = k"
  by (induction k) auto

lemma dropWhile_key: "c \<notin> set k \<Longrightarrow> dropWhile (\<lambda>x. x \<noteq> c) (k @ c # s) = c # s"
  by (induction k) auto

lemma parse_pair_eq: "CHR ''='' \<notin> set k \<Longrightarrow> parse_pair (k @ CHR ''='' # s) = (k, parse_int s)"
  by (simp add: parse_pair_def takeWhile_key dropWhile_key)

lemma parse_query_single: "CHR ''&'' \<notin> set x \<Longrightarrow> x \<noteq> [] \<Longrightarrow> parse_query x = [parse_pair x]"
  by (simp add: parse_query_def split_on_no)

lemma parse_query_cons:
  "CHR ''&'' \<notin> set x \<Longrightarrow> rest \<noteq> [] \<Longrightarrow> parse_query (x @ CHR ''&'' # rest) = parse_pair x # parse_query rest"
  by (simp add: parse_query_def split_on_append)

lemma query_string_ne: "ps \<noteq> [] \<Longrightarrow> query_string ps \<noteq> []"
  by (induction ps rule: query_string.induct) auto

lemma pair_roundtrip:
  "query_key k \<Longrightarrow> parse_pair (k @ CHR ''='' # int_to_string v) = (k, v)"
  by (simp add: query_key_def parse_pair_eq parse_int_to_string)

lemma pair_no_amp:
  "query_key k \<Longrightarrow> CHR ''&'' \<notin> set (k @ CHR ''='' # int_to_string v)"
  using int_to_string_no[of v] by (simp add: query_key_def)

lemma parse_query_string:
  "\<forall>(k, v)\<in>set ps. query_key k \<Longrightarrow> parse_query (query_string ps) = ps"
proof (induction ps rule: query_string.induct)
  case 1
  then show ?case by (simp add: parse_query_def)
next
  case (2 k v)
  then have k: "query_key k" by simp
  show ?case using parse_query_single[OF pair_no_amp[OF k, of v]] pair_roundtrip[OF k, of v] by simp
next
  case (3 k v p ps)
  then have k: "query_key k" by simp
  have "parse_query (query_string ((k, v) # p # ps))
        = parse_pair (k @ CHR ''='' # int_to_string v) # parse_query (query_string (p # ps))"
    using parse_query_cons[OF pair_no_amp[OF k, of v] query_string_ne[of "p # ps"]] by simp
  with 3 show ?case by (simp add: pair_roundtrip)
qed
lemma get_instance_twice: "get_instance f (snd (get_instance f' inst)) = get_instance f' inst"
  by (cases inst) (simp_all add: get_instance_def)

lemma takeWhile_no: "c \<notin> set k \<Longrightarrow> takeWhile (\<lambda>x. x \<noteq> c) k = k"
  by (induction k) auto

lemma dropWhile_no: "c \<notin> set k \<Longrightarrow> dropWhile (\<lambda>x. x \<noteq> c) k = []"
  by (induction k) auto

lemma build_url_parse:
  assumes "CHR ''?'' \<notin> set path" and "\<forall>(k, v)\<in>set ps. query_key k"
  shows "parse_url (build_url path ps) = (path, ps)"
proof (cases "ps = []")
  case True
  then show ?thesis using assms(1) by (simp add: build_url_def parse_url_def takeWhile_no dropWhile_no parse_query_def)
next
  case False
  then show ?thesis using assms
    by (simp add: build_url_def parse_url_def takeWhile_key dropWhile_key parse_query_string)
qed

section \<open>Properties of the transport\<close>

lemma combine_urls_chars: "set (combine_urls b r) \<subseteq> set b \<union> set r \<union> {CHR ''/''}"
proof -
  have d: "set (drop_slash r) \<subseteq> set r" for r by (cases r) (auto simp: drop_slash_def)
  have "set (strip_end_slashes b) \<subseteq> set b"
    using d[of "rev b"] d[of "drop_slash (rev b)"] by (auto simp: strip_end_slashes_def)
  moreover have "set (dropWhile (\<lambda>c. c = CHR ''/'') r) \<subseteq> set r" by (rule set_dropWhileD[THEN subsetI])
  ultimately show ?thesis by (auto simp: combine_urls_def)
qed


text \<open>C37. Requests for the cities of two different countries go to two different URLs,
  whatever the base URL and the session.\<close>

theorem getCities_urls_differ:
  assumes "c1 \<noteq> c2"
  shows "hr_url (client_request env u (snd (getCities b c1))) \<noteq> hr_url (client_request env u (snd (getCities b c2)))"
proof
  let ?p = "combine_urls (base_url env) CITIES"
  assume "hr_url (client_request env u (snd (getCities b c1))) = hr_url (client_request env u (snd (getCities b c2)))"
  then have q: "query_string [(''countryId'', c1)] = query_string [(''countryId'', c2)]"
    by (simp add: client_request_def getCities_def get_req_def build_url_def del: query_string.simps)
  have r: "parse_query (query_string [(''countryId'', c)]) = [(''countryId'', c)]" for c
    by (rule parse_query_string) (simp add: query_key_def)
  from q r[of c1] r[of c2] assms show False by simp
qed

section \<open>Witnesses\<close>


theorem getCities_urls_differ_witness:
  "hr_url (client_request None None (snd (getCities null_backend 1))) \<noteq> hr_url (client_request None None (snd (getCities null_backend 2)))"
  by (rule getCities_urls_differ) simp

end
