(* ===== verification/Spec2Isabelle.thy ===== *)
theory Spec2Isabelle
  imports DomainTypes TimedRuns Transport
begin

text \<open>
  \<^bold>\<open>A verification development of the functionfinder frontend.\<close>

  The program (\<open>src/src\<close>) is a Vue/Pinia client of an events backend.  It has three
  layers, and the development has one group of theories per layer:

  \<^item> \<^bold>\<open>Transport and services\<close> (\<open>src/src/api/apiClient.ts\<close>, \<open>eventService.ts\<close>,
    \<open>commentService.ts\<close>, \<open>authService.ts\<close>), theory \<open>Services\<close>.  The backend is a
    record \<open>backend\<close> of reply functions, one per endpoint; a reply is
    \<open>'a response\<close> (\<open>Ok\<close> or \<open>Failed\<close> with an \<open>http_error\<close>).  Every service function
    returns its result together with the \<open>request\<close> it sends (method, URL, query
    parameters, body), so the stores can log what reaches the network.  The services
    swallow failures into safe defaults (\<open>array_or_empty\<close>, \<open>getEventById\<close> as \<open>None\<close>,
    \<open>createComment\<close> as \<open>False\<close>); the auth service builds an \<open>auth_response\<close> record
    and normalises the reply's \<open>userId\<close> with \<open>extract_userId\<close> (\<open>authService.ts\<close>
    lines 56--78).  The request interceptor of \<open>apiClient.ts\<close> is \<open>auth_header\<close>.
    Theory \<open>Transport\<close> adds what \<open>ApiClient\<close> puts on the wire: \<open>client_request\<close>
    builds the \<open>http_request\<close> from the base URL (\<open>base_url\<close>, from
    \<open>VITE_API_BASE_URL\<close>), the path and query parameters (joined and serialised as axios
    does, \<open>combine_urls\<close>, \<open>build_url\<close>) and the headers; \<open>put_req\<close>, \<open>delete_req\<close>
    and the singleton \<open>get_instance\<close> complete the client.  \<open>parse_url\<close> reads a URL
    as a server does; it is a device of the proofs, not code of the program.
  \<^item> \<^bold>\<open>Stores\<close> (\<open>src/src/stores\<close>).  Each Pinia store is a \<open>record\<close> of its state and each
    action a function on a world that pairs the state with what the action touches
    outside it:
    \<^item> theory \<open>EventStore\<close> (\<open>eventStore.ts\<close>): \<open>event_store\<close> and the world \<open>es_world\<close>
      with the pending \<open>setTimeout\<close> timers and the request log; the actions
      \<open>initialize\<close>, \<open>loadEvents\<close>, \<open>startLoading\<close>, \<open>stopLoading\<close>, \<open>loadCountries\<close>,
      \<open>loadCities\<close>, \<open>setCountryFilter\<close>, \<open>setCityFilter\<close>, \<open>resetFilters\<close>, the timer
      callback \<open>fire_timer\<close>, and the getters \<open>filteredEvents\<close>, \<open>hasActiveFilters\<close>,
      \<open>selectedCountry\<close>, \<open>selectedCity\<close>.  \<open>es_step\<close>/\<open>es_run\<close> run a sequence of
      user actions and timer firings; \<open>ui_reachable\<close> is the inductive set of states
      the interface can reach.
    \<^item> theory \<open>AuthStore\<close> (\<open>authStore.ts\<close>): \<open>auth_store\<close>, the world \<open>auth_world\<close> with
      \<open>localStorage['user']\<close> as a \<open>user_item\<close>, and \<open>setUser\<close>, \<open>initializeAuth\<close>,
      \<open>login\<close>, \<open>register\<close>, \<open>logout\<close> and the getters \<open>getIsAuthenticated\<close>,
      \<open>getUser\<close>, \<open>getToken\<close>, \<open>getUsername\<close>; \<open>reload\<close> models
      a page reload (memory lost, storage kept).
    \<^item> theory \<open>CommentStore\<close> (\<open>commentStore.ts\<close>): \<open>comment_store\<close>, \<open>getUserId\<close>,
      \<open>addComment\<close>, \<open>getCommentsByEventId\<close>, \<open>clearComments\<close> and the getters
      \<open>getComments\<close>, \<open>isLoading\<close>, \<open>getError\<close>.  It reads the auth
      store, so its actions take an \<open>auth_store\<close> as an argument: that argument is the
      whole interface between the two stores, and this theory's cross-store theorems
      are stated over it.
  \<^item> \<^bold>\<open>Data\<close> (\<open>src/src/types/index.ts\<close>), theory \<open>Types\<close>: one record per interface.
    Fields whose type the backend does not honour (\<open>Event.cityId\<close>, \<open>Event.city\<close>,
    \<open>cityName\<close>, \<open>Comment.userId\<close>) are \<open>jsval\<close>s.  Theory \<open>TsTypes\<close> gives the
    declared interfaces their TypeScript meaning: \<open>ts_type\<close> is a structural type
    (strings, numbers, booleans, \<open>null\<close>, unions, arrays, object types with optional
    members) and \<open>has_type\<close> decides whether a JavaScript value conforms to it; the
    non-recursive interfaces of \<open>index.ts\<close> (\<open>ApiResponse\<close>, \<open>PaginatedResponse\<close>,
    the DTOs, the credentials, \<open>EventFilters\<close>) and those of \<open>authService.ts\<close>
    (\<open>AuthRequest\<close>, \<open>ApiAuthResponse\<close>, \<open>AuthResponse\<close>, \<open>User\<close>) are constants
    \<open>..._t\<close> of that type.  A member whose type is another interface is a named
    reference \<open>TRef\<close>; \<open>conforms\<close> checks a value against a type given the
    declarations of the names, and agrees with \<open>has_type\<close> on closed types
    (\<open>conforms_closed\<close>).  Theory \<open>DomainTypes\<close> declares every interface of
    \<open>index.ts\<close>, the mutually referring ones included (\<open>City\<close>, \<open>Country\<close>,
    \<open>Event\<close>, \<open>Comment\<close>, \<open>User\<close>, \<open>Dresscode\<close>, \<open>EventType\<close>, \<open>AuthState\<close>,
    \<open>EventState\<close>), in \<open>index_env\<close>.  \<open>conforms\<close> is a \<open>function\<close> whose
    termination proof orders calls by the size of the value, then of the type: a
    reference is unfolded only for an object, whose members are smaller.

  Theory \<open>Prelude\<close> holds the JavaScript value model \<open>jsval\<close> with truthiness
  (\<open>truthy\<close>, \<open>truthy_num\<close> for numeric ids, where \<open>0\<close> is falsy), property access
  (\<open>get_prop\<close>: \<open>None\<close> is the \<open>TypeError\<close> of reading a property of \<open>null\<close>;
  \<open>opt_prop\<close> for \<open>?.\<close>), \<open>set_prop\<close>, \<open>JSON.stringify\<close>/\<open>JSON.parse\<close> as
  \<open>json_norm\<close>, \<open>localStorage\<close> as \<open>stored\<close>, and the lemma collections \<open>js_simps\<close>
  and \<open>store_simps\<close>.

  \<^bold>\<open>Execution model.\<close>  Two views of the event store.  In theory \<open>EventStore\<close> each
  action runs to completion before the next starts: an \<open>await\<close> is a call of the
  service function.  Timers are explicit: a \<open>setTimeout\<close> adds a numbered timer to the
  world, \<open>clearTimeout\<close> removes it, and the step \<open>TimerFires n\<close> runs its callback at
  any later point.  Theory \<open>EventStoreAsync\<close> runs the same actions as the browser does:
  each action is split at its network \<open>await\<close>s into a \<open>thread\<close> (\<open>Wait k\<close> holds the
  continuation), written in continuation-passing style (\<open>loadEvents_a\<close>, ...,
  \<open>resetFilters_a\<close>, \<open>act_a\<close>), and \<open>as_step\<close> interleaves starting an action, a timer
  firing and any in-flight response arriving (\<open>Respond i\<close>).  The chain of microtasks
  between two network responses runs uninterrupted, as JavaScript's event loop runs
  it.  \<open>seq_sched\<close> is the schedule in which each action's responses arrive before the
  next action starts; under it the two views agree (\<open>seq_sched_refines\<close>).  Theory
  \<open>AsyncInvariants\<close> carries invariants through the continuations in flight
  (\<open>good\<close>, \<open>kgood\<close>, \<open>pool_ok\<close>) and bounds their length (\<open>within\<close>).
  No fuel is needed: the actions are finite compositions, runs recurse on the list of
  steps, and \<open>settle\<close>/\<open>nwait\<close>/\<open>within\<close> recurse structurally on the thread datatype,
  whose continuations each wait for at most three responses.  \<open>drive\<close> runs a thread
  with fuel, one unit per response, and lets the environment change the world before
  each response; three units always suffice (\<open>actions_terminate\<close>).  Identifiers are \<open>int\<close>
  (JavaScript numbers used as ids; no arithmetic is done on them); timer ids are
  \<open>nat\<close>, handed out in increasing order from 1 as browsers do.
  \<open>LOADING_TIMEOUT\<close> is 30000 ms.  Theory \<open>TimedRuns\<close> adds time to the interleaved
  model: a timed state (\<open>t_state\<close>) records the clock, the due time each timer got from
  \<open>setTimeout\<close> (\<open>stamp\<close>: \<open>LOADING_TIMEOUT\<close> after it was armed) and, for each action
  in flight, when its pending request was sent.  \<open>t_enabled\<close> constrains the
  environment as the browser and axios do: the clock may not pass a pending request's
  deadline (\<open>API_TIMEOUT\<close>, the 10 s axios timeout of \<open>apiClient.ts\<close>, after which axios
  settles the request and the service returns its default), and a timer fires only once
  due.  \<open>t_reach\<close> is the inductive set of timed states reachable from \<open>t_init\<close>.  The
  proof tracks, for every continuation in flight, how many responses it needs before it
  clears the pending timer (\<open>handles\<close>), and that every resumption owns the timers it
  arms (\<open>owned\<close>, \<open>tgood\<close>, \<open>ktgood\<close>): two responses at most, for \<open>initialize\<close>,
  whose first continuation awaits the cities request without re-arming.

  \<^bold>\<open>What the theorems show.\<close>
  \<^item> Event store: the country/city cascade (\<open>setCountryFilter_cascade\<close>), the
    selection invariant \<open>sel_inv\<close> on every \<open>ui_reachable\<close> state, and its violation by a
    second \<open>initialize\<close> that meets no cities (a reachable stale city); the requests
    each action sends; that a completed action leaves no live timer, so a late timer
    firing is a no-op; idempotence of \<open>initialize\<close>; soundness and the three matching
    rules of \<open>filteredEvents\<close>; \<open>setCityFilter\<close>'s fallback; \<open>loadEvents\<close>'s guard;
    that id 0 counts as no selection.
  \<^item> Services: the three \<open>userId\<close> shapes of \<open>extract_userId\<close>; when \<open>login\<close> succeeds.
  \<^item> Auth store: the outcome of \<open>login\<close> on every reply (accepted, no token, transport
    failure), the persist/hydrate round trip through \<open>localStorage\<close>, that malformed
    stored data is erased, and the session invariant \<open>session_ok\<close> on every run.
  \<^item> Comment store: \<open>addComment\<close> without a session, on success (post, then reload),
    and on a rejected post.
  \<^item> Across stores (this theory): a successful login makes every later request carry
    the token; the comment posted after it carries the normalised user id; logout
    revokes both.
  \<^item> Transport: the URL of every request reads back as its path and exact integer
    parameters (round trip), so requests for different countries go to different URLs;
    after a login the cities request carries the bearer token (this theory).
  \<^item> Interleaved event store (\<open>EventStoreAsync\<close>, \<open>AsyncInvariants\<close>): the sequential
    model is the async one under the sequential schedule (refinement); under every
    schedule at most one loading timer is pending and a fired timer never fires again;
    every action terminates after at most three responses whatever happens in between
    (\<open>actions_terminate\<close>), so the schedule of \<open>n\<close> actions has
    at most \<open>4 n\<close> events and the requests in flight always drain; a late response
    replaces the timeout message; two loads in flight cancel each other's guard; two
    country selections in flight end with the last response's cities, not the last
    request's.
  \<^item> Timed runs (\<open>TimedRuns\<close>): under every interleaving in which axios settles each
    request within 10 s, no pending loading timer is ever due, so the 30 s guard never
    fires (\<open>loading_guard_never_due\<close>): every timer is cleared or re-armed within two
    responses, and two request deadlines (20 s) are shorter than the guard.
  \<^item> Types (\<open>TsTypes\<close>): a login reply that conforms to \<open>ApiAuthResponse\<close> yields a stored
    user that conforms to \<open>User\<close>, and the comment body posted for that session conforms
    to \<open>CommentDto\<close> (\<open>login_typed_session\<close>); a reply with a numeric \<open>userId\<close> is
    accepted and breaks the declared \<open>User\<close> type; the login payload conforms to
    \<open>AuthRequest\<close>.  In \<open>DomainTypes\<close>: a country whose city refers back to it
    conforms to \<open>Country\<close>; the filters \<open>{}\<close> the event store sends conform to
    \<open>EventFilters\<close>; no state of the auth store conforms to \<open>AuthState\<close> (it has no
    \<open>token\<close>), and its user is authService's \<open>User\<close>, not the \<open>User\<close> of \<open>index.ts\<close>.

  \<^bold>\<open>Not modelled.\<close>  The Vue components and the test files (\<open>src/src/tests\<close>,
  \<open>src/tests/setup.ts\<close>) are rendering and test wiring.  Console logging (the
  \<open>logRequest\<close> helpers, the logging interceptors of \<open>apiClient.ts\<close>, which return the
  request unchanged) has no effect on state.  Axios itself is the backend's reply: its
  10 s timeout (\<open>API_TIMEOUT\<close>) surfaces as a \<open>Failed\<close> reply, and in the timed model as
  the deadline of a pending request.  The timed model measures time in whole
  milliseconds and assumes that timers never fire early; it does not model a browser
  that throttles timers in a background tab (which can only delay them).  The domain
  records of \<open>Types\<close> hold the scalar fields the code reads; the nested
  back-references are in the structural declarations of \<open>DomainTypes\<close> only, since no
  code follows them.  \<open>EventFilters\<close>, the parameter of \<open>getAllEvents\<close>, is its list
  of integer query parameters in the request model (the store always passes \<open>{}\<close>)
  and a structural type in \<open>TsTypes\<close>.  The singletons \<open>getInstance\<close> of the
  services follow the pattern of \<open>get_instance\<close>.  The auth and comment stores are
  modelled sequentially only: interleavings of
  their actions (a logout while \<open>addComment\<close> waits for its post) are not modelled.
  Responses of the async model carry the backend's fixed reply; a backend whose answers
  change over time is outside the model.
\<close>

section \<open>Properties across stores\<close>

lemma login_stored_user:
  assumes "login_api b u p = Ok data" and "get_prop data ''userId'' = Some uid"
    and "opt_prop data ''token'' = JStr t" and "t \<noteq> []" and "u \<noteq> []"
  shows "storage (snd (login b u p w)) =
           Some (StoredJson (JObj [(''username'', JStr u), (''token'', JStr t), (''userId'', json_norm (extract_userId u uid))]))"
proof -
  have tok: "truthy (opt_prop data ''token'')" using assms(3,4) by simp
  have "extract_userId u uid \<noteq> JUndef"
    using extract_userId_truthy[OF assms(5), of uid] by auto
  then show ?thesis
    using login_accepted[OF assms(1,2) tok assms(5), of w] assms(3)
    by (simp add: Let_def store_json_def)
qed

lemma auth_of_login:
  assumes "login_api b u p = Ok data" and "get_prop data ''userId'' = Some uid"
    and "truthy (opt_prop data ''token'')" and "u \<noteq> []"
  shows "opt_prop (auth_user (ast (snd (login b u p w)))) ''userId'' = extract_userId u uid"
    and "opt_prop (auth_user (ast (snd (login b u p w)))) ''username'' = JStr u"
  using login_accepted[OF assms, of w] by (simp_all add: Let_def opt_prop_def)

text \<open>C25. After a successful login whose reply carries a non-empty token string, the
  request interceptor of \<open>apiClient.ts\<close> adds \<open>Authorization: Bearer <token>\<close> to every
  request: the session \<open>authStore.setUser\<close> persists is the one the interceptor reads.\<close>

theorem login_authorises_requests:
  assumes "login_api b u p = Ok data" and "get_prop data ''userId'' = Some uid"
    and "opt_prop data ''token'' = JStr t" and "t \<noteq> []" and "u \<noteq> []"
  shows "auth_header (storage (snd (login b u p w))) = Some (''Bearer '' @ t)"
  using login_stored_user[OF assms, of w] assms(4)
  by (simp add: auth_header_def opt_prop_def)

text \<open>C26. After a successful login, \<open>addComment\<close> posts a comment whose author id is the
  normalised \<open>userId\<close> of the login reply and whose author name is the username, before
  any other request it sends.\<close>

theorem login_then_comment_posted:
  assumes "login_api b u p = Ok data" and "get_prop data ''userId'' = Some uid"
    and "truthy (opt_prop data ''token'')" and "u \<noteq> []"
  shows "let a = ast (snd (login b u p w)); c = new_comment a (extract_userId u uid) now eid content evName evDesc in
         (\<exists>rest. cm_sent (snd (addComment b' a now eid content evName evDesc cw)) =
                  cm_sent cw @ post_req COMMENTS (comment_json c) # rest)
         \<and> comment_userId c = extract_userId u uid \<and> comment_userName c = JStr u"
proof -
  note ids = auth_of_login[OF assms, of w]
  have "truthy (extract_userId u uid)" using assms(4) by (rule extract_userId_truthy)
  then show ?thesis
    using addComment_posts[of "ast (snd (login b u p w))" b' now eid content evName evDesc cw] ids assms(4)
    by (simp add: Let_def new_comment_def)
qed

text \<open>C27. After \<open>logout\<close> no request carries an \<open>Authorization\<close> header, and
  \<open>addComment\<close> fails with the explicit message without sending anything.\<close>

theorem logout_revokes_session:
  "auth_header (storage (logout w)) = None
   \<and> addComment b (ast (logout w)) now eid content evName evDesc cw =
       (False, cw\<lparr>cst := (cst cw)\<lparr>cm_loading := False,
                   cm_error := Some ''User ID not available. Please log in again.''\<rparr>\<rparr>)"
  by (simp add: logout_def setUser_def ensure_userId_def auth_header_def addComment_def
      getUserId_def opt_prop_def)


section \<open>Witnesses\<close>

theorem login_authorises_requests_witness:
  "auth_header (storage (snd (login (null_backend\<lparr>login_api := (\<lambda>_ _. Ok ann_reply)\<rparr>) ''ann'' ''pw'' anon_world)))
   = Some ''Bearer tok''"
proof -
  let ?b = "null_backend\<lparr>login_api := (\<lambda>_ _. Ok ann_reply)\<rparr>"
  have h: "login_api ?b ''ann'' ''pw'' = Ok ann_reply" "get_prop ann_reply ''userId'' = Some (JStr ''42'')"
    "opt_prop ann_reply ''token'' = JStr ''tok''" "''tok'' \<noteq> []" "''ann'' \<noteq> []"
    by (simp_all add: ann_reply_def opt_prop_def)
  from login_authorises_requests[OF h, of anon_world] show ?thesis by simp
qed

theorem login_then_comment_posted_witness:
  "let a = ast (snd (login (null_backend\<lparr>login_api := (\<lambda>_ _. Ok ann_reply)\<rparr>) ''ann'' ''pw'' anon_world));
       c = new_comment a (JStr ''42'') ''t0'' 1 ''hi'' ''gala'' ''d'' in
   (\<exists>rest. cm_sent (snd (addComment null_backend a ''t0'' 1 ''hi'' ''gala'' ''d'' empty_cm)) =
            post_req COMMENTS (comment_json c) # rest)
   \<and> comment_userName c = JStr ''ann''"
proof -
  let ?b = "null_backend\<lparr>login_api := (\<lambda>_ _. Ok ann_reply)\<rparr>"
  have h: "login_api ?b ''ann'' ''pw'' = Ok ann_reply" "get_prop ann_reply ''userId'' = Some (JStr ''42'')"
    "truthy (opt_prop ann_reply ''token'')" "''ann'' \<noteq> []"
    by (simp_all add: ann_reply_def opt_prop_def)
  have e: "extract_userId ''ann'' (JStr ''42'') = JStr ''42''" by (simp add: extract_userId_def)
  from login_then_comment_posted[OF h, of anon_world "''t0''" 1 "''hi''" "''gala''" "''d''" null_backend empty_cm] e
  show ?thesis by (simp add: Let_def empty_cm_def)
qed


end
